theory Spec2Isabelle
  imports Complex_Main "HOL-Library.Log_Nat" "HOL-Library.Sublist" "HOL-Library.Multiset"
    "HOL-Library.Char_ord" "HOL-Library.List_Lexorder" "HOL-Library.Product_Lexorder"
begin

section \<open>Python values used by \<open>main.py\<close>\<close>

subsection \<open>Strings\<close>

text \<open>
  A Python \<open>str\<close> is modelled as a \<open>string\<close>: the list of the bytes of its UTF-8 encoding.
  An ASCII character is one byte below \<open>0x80\<close>; every other character is a lead byte
  (\<open>0xC2\<close> to \<open>0xF4\<close>) followed by one to three continuation bytes (\<open>0x80\<close> to \<open>0xBF\<close>),
  so no encoding is a prefix or a suffix of another, and a search for an ASCII text in the
  bytes finds exactly its occurrences in the characters.
\<close>

definition upper_char :: "char \<Rightarrow> char" where
  "upper_char c =
     (case map_of (zip ''abcdefghijklmnopqrstuvwxyz'' ''ABCDEFGHIJKLMNOPQRSTUVWXYZ'') c of
        None \<Rightarrow> c | Some u \<Rightarrow> u)"

definition lower_char :: "char \<Rightarrow> char" where
  "lower_char c =
     (case map_of (zip ''ABCDEFGHIJKLMNOPQRSTUVWXYZ'' ''abcdefghijklmnopqrstuvwxyz'') c of
        None \<Rightarrow> c | Some l \<Rightarrow> l)"

text \<open>
  \<open>s.upper()\<close> maps every character to its full upper-case mapping. For ASCII that is
  \<open>upper_char\<close>; the 1499 other characters that change (Unicode 14.0.0, the version of
  CPython 3.11) are the keys of \<open>upper_trie\<close>, a trie over the bytes of their encodings whose
  leaves hold the encoding of the mapping: \<open>U+00DF\<close> to \<open>SS\<close>, \<open>U+017F\<close> to \<open>S\<close>, \<open>U+FB06\<close> to
  \<open>ST\<close>. \<open>trie_find t s k\<close> follows \<open>s\<close> down the trie and returns the mapping at the leaf it
  reaches, with the number of bytes read.
\<close>

datatype trie = Leaf string | Node "(char \<times> trie) list"

definition upper_trie :: "(char \<times> trie) list" where
  "upper_trie =
    [(CHR 0xC2, Node
      [(CHR 0xB5, Leaf [CHR 0xCE, CHR 0x9C])]),
    (CHR 0xC3, Node
      [(CHR 0x9F, Leaf ''SS''), (CHR 0xA0, Leaf [CHR 0xC3, CHR 0x80]),
        (CHR 0xA1, Leaf [CHR 0xC3, CHR 0x81]), (CHR 0xA2, Leaf [CHR 0xC3, CHR 0x82]),
        (CHR 0xA3, Leaf [CHR 0xC3, CHR 0x83]), (CHR 0xA4, Leaf [CHR 0xC3, CHR 0x84]),
        (CHR 0xA5, Leaf [CHR 0xC3, CHR 0x85]), (CHR 0xA6, Leaf [CHR 0xC3, CHR 0x86]),
        (CHR 0xA7, Leaf [CHR 0xC3, CHR 0x87]), (CHR 0xA8, Leaf [CHR 0xC3, CHR 0x88]),
        (CHR 0xA9, Leaf [CHR 0xC3, CHR 0x89]), (CHR 0xAA, Leaf [CHR 0xC3, CHR 0x8A]),
        (CHR 0xAB, Leaf [CHR 0xC3, CHR 0x8B]), (CHR 0xAC, Leaf [CHR 0xC3, CHR 0x8C]),
        (CHR 0xAD, Leaf [CHR 0xC3, CHR 0x8D]), (CHR 0xAE, Leaf [CHR 0xC3, CHR 0x8E]),
        (CHR 0xAF, Leaf [CHR 0xC3, CHR 0x8F]), (CHR 0xB0, Leaf [CHR 0xC3, CHR 0x90]),
        (CHR 0xB1, Leaf [CHR 0xC3, CHR 0x91]), (CHR 0xB2, Leaf [CHR 0xC3, CHR 0x92]),
        (CHR 0xB3, Leaf [CHR 0xC3, CHR 0x93]), (CHR 0xB4, Leaf [CHR 0xC3, CHR 0x94]),
        (CHR 0xB5, Leaf [CHR 0xC3, CHR 0x95]), (CHR 0xB6, Leaf [CHR 0xC3, CHR 0x96]),
        (CHR 0xB8, Leaf [CHR 0xC3, CHR 0x98]), (CHR 0xB9, Leaf [CHR 0xC3, CHR 0x99]),
        (CHR 0xBA, Leaf [CHR 0xC3, CHR 0x9A]), (CHR 0xBB, Leaf [CHR 0xC3, CHR 0x9B]),
        (CHR 0xBC, Leaf [CHR 0xC3, CHR 0x9C]), (CHR 0xBD, Leaf [CHR 0xC3, CHR 0x9D]),
        (CHR 0xBE, Leaf [CHR 0xC3, CHR 0x9E]), (CHR 0xBF, Leaf [CHR 0xC5, CHR 0xB8])]),
    (CHR 0xC4, Node
      [(CHR 0x81, Leaf [CHR 0xC4, CHR 0x80]), (CHR 0x83, Leaf [CHR 0xC4, CHR 0x82]),
        (CHR 0x85, Leaf [CHR 0xC4, CHR 0x84]), (CHR 0x87, Leaf [CHR 0xC4, CHR 0x86]),
        (CHR 0x89, Leaf [CHR 0xC4, CHR 0x88]), (CHR 0x8B, Leaf [CHR 0xC4, CHR 0x8A]),
        (CHR 0x8D, Leaf [CHR 0xC4, CHR 0x8C]), (CHR 0x8F, Leaf [CHR 0xC4, CHR 0x8E]),
        (CHR 0x91, Leaf [CHR 0xC4, CHR 0x90]), (CHR 0x93, Leaf [CHR 0xC4, CHR 0x92]),
        (CHR 0x95, Leaf [CHR 0xC4, CHR 0x94]), (CHR 0x97, Leaf [CHR 0xC4, CHR 0x96]),
        (CHR 0x99, Leaf [CHR 0xC4, CHR 0x98]), (CHR 0x9B, Leaf [CHR 0xC4, CHR 0x9A]),
        (CHR 0x9D, Leaf [CHR 0xC4, CHR 0x9C]), (CHR 0x9F, Leaf [CHR 0xC4, CHR 0x9E]),
        (CHR 0xA1, Leaf [CHR 0xC4, CHR 0xA0]), (CHR 0xA3, Leaf [CHR 0xC4, CHR 0xA2]),
        (CHR 0xA5, Leaf [CHR 0xC4, CHR 0xA4]), (CHR 0xA7, Leaf [CHR 0xC4, CHR 0xA6]),
        (CHR 0xA9, Leaf [CHR 0xC4, CHR 0xA8]), (CHR 0xAB, Leaf [CHR 0xC4, CHR 0xAA]),
        (CHR 0xAD, Leaf [CHR 0xC4, CHR 0xAC]), (CHR 0xAF, Leaf [CHR 0xC4, CHR 0xAE]),
        (CHR 0xB1, Leaf ''I''), (CHR 0xB3, Leaf [CHR 0xC4, CHR 0xB2]),
        (CHR 0xB5, Leaf [CHR 0xC4, CHR 0xB4]), (CHR 0xB7, Leaf [CHR 0xC4, CHR 0xB6]),
        (CHR 0xBA, Leaf [CHR 0xC4, CHR 0xB9]), (CHR 0xBC, Leaf [CHR 0xC4, CHR 0xBB]),
        (CHR 0xBE, Leaf [CHR 0xC4, CHR 0xBD])]),
    (CHR 0xC5, Node
      [(CHR 0x80, Leaf [CHR 0xC4, CHR 0xBF]), (CHR 0x82, Leaf [CHR 0xC5, CHR 0x81]),
        (CHR 0x84, Leaf [CHR 0xC5, CHR 0x83]), (CHR 0x86, Leaf [CHR 0xC5, CHR 0x85]),
        (CHR 0x88, Leaf [CHR 0xC5, CHR 0x87]), (CHR 0x89, Leaf [CHR 0xCA, CHR 0xBC, CHR 0x4E]),
        (CHR 0x8B, Leaf [CHR 0xC5, CHR 0x8A]), (CHR 0x8D, Leaf [CHR 0xC5, CHR 0x8C]),
        (CHR 0x8F, Leaf [CHR 0xC5, CHR 0x8E]), (CHR 0x91, Leaf [CHR 0xC5, CHR 0x90]),
        (CHR 0x93, Leaf [CHR 0xC5, CHR 0x92]), (CHR 0x95, Leaf [CHR 0xC5, CHR 0x94]),
        (CHR 0x97, Leaf [CHR 0xC5, CHR 0x96]), (CHR 0x99, Leaf [CHR 0xC5, CHR 0x98]),
        (CHR 0x9B, Leaf [CHR 0xC5, CHR 0x9A]), (CHR 0x9D, Leaf [CHR 0xC5, CHR 0x9C]),
        (CHR 0x9F, Leaf [CHR 0xC5, CHR 0x9E]), (CHR 0xA1, Leaf [CHR 0xC5, CHR 0xA0]),
        (CHR 0xA3, Leaf [CHR 0xC5, CHR 0xA2]), (CHR 0xA5, Leaf [CHR 0xC5, CHR 0xA4]),
        (CHR 0xA7, Leaf [CHR 0xC5, CHR 0xA6]), (CHR 0xA9, Leaf [CHR 0xC5, CHR 0xA8]),
        (CHR 0xAB, Leaf [CHR 0xC5, CHR 0xAA]), (CHR 0xAD, Leaf [CHR 0xC5, CHR 0xAC]),
        (CHR 0xAF, Leaf [CHR 0xC5, CHR 0xAE]), (CHR 0xB1, Leaf [CHR 0xC5, CHR 0xB0]),
        (CHR 0xB3, Leaf [CHR 0xC5, CHR 0xB2]), (CHR 0xB5, Leaf [CHR 0xC5, CHR 0xB4]),
        (CHR 0xB7, Leaf [CHR 0xC5, CHR 0xB6]), (CHR 0xBA, Leaf [CHR 0xC5, CHR 0xB9]),
        (CHR 0xBC, Leaf [CHR 0xC5, CHR 0xBB]), (CHR 0xBE, Leaf [CHR 0xC5, CHR 0xBD]),
        (CHR 0xBF, Leaf ''S'')]),
    (CHR 0xC6, Node
      [(CHR 0x80, Leaf [CHR 0xC9, CHR 0x83]), (CHR 0x83, Leaf [CHR 0xC6, CHR 0x82]),
        (CHR 0x85, Leaf [CHR 0xC6, CHR 0x84]), (CHR 0x88, Leaf [CHR 0xC6, CHR 0x87]),
        (CHR 0x8C, Leaf [CHR 0xC6, CHR 0x8B]), (CHR 0x92, Leaf [CHR 0xC6, CHR 0x91]),
        (CHR 0x95, Leaf [CHR 0xC7, CHR 0xB6]), (CHR 0x99, Leaf [CHR 0xC6, CHR 0x98]),
        (CHR 0x9A, Leaf [CHR 0xC8, CHR 0xBD]), (CHR 0x9E, Leaf [CHR 0xC8, CHR 0xA0]),
        (CHR 0xA1, Leaf [CHR 0xC6, CHR 0xA0]), (CHR 0xA3, Leaf [CHR 0xC6, CHR 0xA2]),
        (CHR 0xA5, Leaf [CHR 0xC6, CHR 0xA4]), (CHR 0xA8, Leaf [CHR 0xC6, CHR 0xA7]),
        (CHR 0xAD, Leaf [CHR 0xC6, CHR 0xAC]), (CHR 0xB0, Leaf [CHR 0xC6, CHR 0xAF]),
        (CHR 0xB4, Leaf [CHR 0xC6, CHR 0xB3]), (CHR 0xB6, Leaf [CHR 0xC6, CHR 0xB5]),
        (CHR 0xB9, Leaf [CHR 0xC6, CHR 0xB8]), (CHR 0xBD, Leaf [CHR 0xC6, CHR 0xBC]),
        (CHR 0xBF, Leaf [CHR 0xC7, CHR 0xB7])]),
    (CHR 0xC7, Node
      [(CHR 0x85, Leaf [CHR 0xC7, CHR 0x84]), (CHR 0x86, Leaf [CHR 0xC7, CHR 0x84]),
        (CHR 0x88, Leaf [CHR 0xC7, CHR 0x87]), (CHR 0x89, Leaf [CHR 0xC7, CHR 0x87]),
        (CHR 0x8B, Leaf [CHR 0xC7, CHR 0x8A]), (CHR 0x8C, Leaf [CHR 0xC7, CHR 0x8A]),
        (CHR 0x8E, Leaf [CHR 0xC7, CHR 0x8D]), (CHR 0x90, Leaf [CHR 0xC7, CHR 0x8F]),
        (CHR 0x92, Leaf [CHR 0xC7, CHR 0x91]), (CHR 0x94, Leaf [CHR 0xC7, CHR 0x93]),
        (CHR 0x96, Leaf [CHR 0xC7, CHR 0x95]), (CHR 0x98, Leaf [CHR 0xC7, CHR 0x97]),
        (CHR 0x9A, Leaf [CHR 0xC7, CHR 0x99]), (CHR 0x9C, Leaf [CHR 0xC7, CHR 0x9B]),
        (CHR 0x9D, Leaf [CHR 0xC6, CHR 0x8E]), (CHR 0x9F, Leaf [CHR 0xC7, CHR 0x9E]),
        (CHR 0xA1, Leaf [CHR 0xC7, CHR 0xA0]), (CHR 0xA3, Leaf [CHR 0xC7, CHR 0xA2]),
        (CHR 0xA5, Leaf [CHR 0xC7, CHR 0xA4]), (CHR 0xA7, Leaf [CHR 0xC7, CHR 0xA6]),
        (CHR 0xA9, Leaf [CHR 0xC7, CHR 0xA8]), (CHR 0xAB, Leaf [CHR 0xC7, CHR 0xAA]),
        (CHR 0xAD, Leaf [CHR 0xC7, CHR 0xAC]), (CHR 0xAF, Leaf [CHR 0xC7, CHR 0xAE]),
        (CHR 0xB0, Leaf [CHR 0x4A, CHR 0xCC, CHR 0x8C]), (CHR 0xB2, Leaf [CHR 0xC7, CHR 0xB1]),
        (CHR 0xB3, Leaf [CHR 0xC7, CHR 0xB1]), (CHR 0xB5, Leaf [CHR 0xC7, CHR 0xB4]),
        (CHR 0xB9, Leaf [CHR 0xC7, CHR 0xB8]), (CHR 0xBB, Leaf [CHR 0xC7, CHR 0xBA]),
        (CHR 0xBD, Leaf [CHR 0xC7, CHR 0xBC]), (CHR 0xBF, Leaf [CHR 0xC7, CHR 0xBE])]),
    (CHR 0xC8, Node
      [(CHR 0x81, Leaf [CHR 0xC8, CHR 0x80]), (CHR 0x83, Leaf [CHR 0xC8, CHR 0x82]),
        (CHR 0x85, Leaf [CHR 0xC8, CHR 0x84]), (CHR 0x87, Leaf [CHR 0xC8, CHR 0x86]),
        (CHR 0x89, Leaf [CHR 0xC8, CHR 0x88]), (CHR 0x8B, Leaf [CHR 0xC8, CHR 0x8A]),
        (CHR 0x8D, Leaf [CHR 0xC8, CHR 0x8C]), (CHR 0x8F, Leaf [CHR 0xC8, CHR 0x8E]),
        (CHR 0x91, Leaf [CHR 0xC8, CHR 0x90]), (CHR 0x93, Leaf [CHR 0xC8, CHR 0x92]),
        (CHR 0x95, Leaf [CHR 0xC8, CHR 0x94]), (CHR 0x97, Leaf [CHR 0xC8, CHR 0x96]),
        (CHR 0x99, Leaf [CHR 0xC8, CHR 0x98]), (CHR 0x9B, Leaf [CHR 0xC8, CHR 0x9A]),
        (CHR 0x9D, Leaf [CHR 0xC8, CHR 0x9C]), (CHR 0x9F, Leaf [CHR 0xC8, CHR 0x9E]),
        (CHR 0xA3, Leaf [CHR 0xC8, CHR 0xA2]), (CHR 0xA5, Leaf [CHR 0xC8, CHR 0xA4]),
        (CHR 0xA7, Leaf [CHR 0xC8, CHR 0xA6]), (CHR 0xA9, Leaf [CHR 0xC8, CHR 0xA8]),
        (CHR 0xAB, Leaf [CHR 0xC8, CHR 0xAA]), (CHR 0xAD, Leaf [CHR 0xC8, CHR 0xAC]),
        (CHR 0xAF, Leaf [CHR 0xC8, CHR 0xAE]), (CHR 0xB1, Leaf [CHR 0xC8, CHR 0xB0]),
        (CHR 0xB3, Leaf [CHR 0xC8, CHR 0xB2]), (CHR 0xBC, Leaf [CHR 0xC8, CHR 0xBB]),
        (CHR 0xBF, Leaf [CHR 0xE2, CHR 0xB1, CHR 0xBE])]),
    (CHR 0xC9, Node
      [(CHR 0x80, Leaf [CHR 0xE2, CHR 0xB1, CHR 0xBF]), (CHR 0x82, Leaf [CHR 0xC9, CHR 0x81]),
        (CHR 0x87, Leaf [CHR 0xC9, CHR 0x86]), (CHR 0x89, Leaf [CHR 0xC9, CHR 0x88]),
        (CHR 0x8B, Leaf [CHR 0xC9, CHR 0x8A]), (CHR 0x8D, Leaf [CHR 0xC9, CHR 0x8C]),
        (CHR 0x8F, Leaf [CHR 0xC9, CHR 0x8E]), (CHR 0x90, Leaf [CHR 0xE2, CHR 0xB1, CHR 0xAF]),
        (CHR 0x91, Leaf [CHR 0xE2, CHR 0xB1, CHR 0xAD]),
        (CHR 0x92, Leaf [CHR 0xE2, CHR 0xB1, CHR 0xB0]), (CHR 0x93, Leaf [CHR 0xC6, CHR 0x81]),
        (CHR 0x94, Leaf [CHR 0xC6, CHR 0x86]), (CHR 0x96, Leaf [CHR 0xC6, CHR 0x89]),
        (CHR 0x97, Leaf [CHR 0xC6, CHR 0x8A]), (CHR 0x99, Leaf [CHR 0xC6, CHR 0x8F]),
        (CHR 0x9B, Leaf [CHR 0xC6, CHR 0x90]), (CHR 0x9C, Leaf [CHR 0xEA, CHR 0x9E, CHR 0xAB]),
        (CHR 0xA0, Leaf [CHR 0xC6, CHR 0x93]), (CHR 0xA1, Leaf [CHR 0xEA, CHR 0x9E, CHR 0xAC]),
        (CHR 0xA3, Leaf [CHR 0xC6, CHR 0x94]), (CHR 0xA5, Leaf [CHR 0xEA, CHR 0x9E, CHR 0x8D]),
        (CHR 0xA6, Leaf [CHR 0xEA, CHR 0x9E, CHR 0xAA]), (CHR 0xA8, Leaf [CHR 0xC6, CHR 0x97]),
        (CHR 0xA9, Leaf [CHR 0xC6, CHR 0x96]), (CHR 0xAA, Leaf [CHR 0xEA, CHR 0x9E, CHR 0xAE]),
        (CHR 0xAB, Leaf [CHR 0xE2, CHR 0xB1, CHR 0xA2]),
        (CHR 0xAC, Leaf [CHR 0xEA, CHR 0x9E, CHR 0xAD]), (CHR 0xAF, Leaf [CHR 0xC6, CHR 0x9C]),
        (CHR 0xB1, Leaf [CHR 0xE2, CHR 0xB1, CHR 0xAE]), (CHR 0xB2, Leaf [CHR 0xC6, CHR 0x9D]),
        (CHR 0xB5, Leaf [CHR 0xC6, CHR 0x9F]), (CHR 0xBD, Leaf [CHR 0xE2, CHR 0xB1, CHR 0xA4])]),
    (CHR 0xCA, Node
      [(CHR 0x80, Leaf [CHR 0xC6, CHR 0xA6]), (CHR 0x82, Leaf [CHR 0xEA, CHR 0x9F, CHR 0x85]),
        (CHR 0x83, Leaf [CHR 0xC6, CHR 0xA9]), (CHR 0x87, Leaf [CHR 0xEA, CHR 0x9E, CHR 0xB1]),
        (CHR 0x88, Leaf [CHR 0xC6, CHR 0xAE]), (CHR 0x89, Leaf [CHR 0xC9, CHR 0x84]),
        (CHR 0x8A, Leaf [CHR 0xC6, CHR 0xB1]), (CHR 0x8B, Leaf [CHR 0xC6, CHR 0xB2]),
        (CHR 0x8C, Leaf [CHR 0xC9, CHR 0x85]), (CHR 0x92, Leaf [CHR 0xC6, CHR 0xB7]),
        (CHR 0x9D, Leaf [CHR 0xEA, CHR 0x9E, CHR 0xB2]),
        (CHR 0x9E, Leaf [CHR 0xEA, CHR 0x9E, CHR 0xB0])]),
    (CHR 0xCD, Node
      [(CHR 0x85, Leaf [CHR 0xCE, CHR 0x99]), (CHR 0xB1, Leaf [CHR 0xCD, CHR 0xB0]),
        (CHR 0xB3, Leaf [CHR 0xCD, CHR 0xB2]), (CHR 0xB7, Leaf [CHR 0xCD, CHR 0xB6]),
        (CHR 0xBB, Leaf [CHR 0xCF, CHR 0xBD]), (CHR 0xBC, Leaf [CHR 0xCF, CHR 0xBE]),
        (CHR 0xBD, Leaf [CHR 0xCF, CHR 0xBF])]),
    (CHR 0xCE, Node
      [(CHR 0x90, Leaf [CHR 0xCE, CHR 0x99, CHR 0xCC, CHR 0x88, CHR 0xCC, CHR 0x81]),
        (CHR 0xAC, Leaf [CHR 0xCE, CHR 0x86]), (CHR 0xAD, Leaf [CHR 0xCE, CHR 0x88]),
        (CHR 0xAE, Leaf [CHR 0xCE, CHR 0x89]), (CHR 0xAF, Leaf [CHR 0xCE, CHR 0x8A]),
        (CHR 0xB0, Leaf [CHR 0xCE, CHR 0xA5, CHR 0xCC, CHR 0x88, CHR 0xCC, CHR 0x81]),
        (CHR 0xB1, Leaf [CHR 0xCE, CHR 0x91]), (CHR 0xB2, Leaf [CHR 0xCE, CHR 0x92]),
        (CHR 0xB3, Leaf [CHR 0xCE, CHR 0x93]), (CHR 0xB4, Leaf [CHR 0xCE, CHR 0x94]),
        (CHR 0xB5, Leaf [CHR 0xCE, CHR 0x95]), (CHR 0xB6, Leaf [CHR 0xCE, CHR 0x96]),
        (CHR 0xB7, Leaf [CHR 0xCE, CHR 0x97]), (CHR 0xB8, Leaf [CHR 0xCE, CHR 0x98]),
        (CHR 0xB9, Leaf [CHR 0xCE, CHR 0x99]), (CHR 0xBA, Leaf [CHR 0xCE, CHR 0x9A]),
        (CHR 0xBB, Leaf [CHR 0xCE, CHR 0x9B]), (CHR 0xBC, Leaf [CHR 0xCE, CHR 0x9C]),
        (CHR 0xBD, Leaf [CHR 0xCE, CHR 0x9D]), (CHR 0xBE, Leaf [CHR 0xCE, CHR 0x9E]),
        (CHR 0xBF, Leaf [CHR 0xCE, CHR 0x9F])]),
    (CHR 0xCF, Node
      [(CHR 0x80, Leaf [CHR 0xCE, CHR 0xA0]), (CHR 0x81, Leaf [CHR 0xCE, CHR 0xA1]),
        (CHR 0x82, Leaf [CHR 0xCE, CHR 0xA3]), (CHR 0x83, Leaf [CHR 0xCE, CHR 0xA3]),
        (CHR 0x84, Leaf [CHR 0xCE, CHR 0xA4]), (CHR 0x85, Leaf [CHR 0xCE, CHR 0xA5]),
        (CHR 0x86, Leaf [CHR 0xCE, CHR 0xA6]), (CHR 0x87, Leaf [CHR 0xCE, CHR 0xA7]),
        (CHR 0x88, Leaf [CHR 0xCE, CHR 0xA8]), (CHR 0x89, Leaf [CHR 0xCE, CHR 0xA9]),
        (CHR 0x8A, Leaf [CHR 0xCE, CHR 0xAA]), (CHR 0x8B, Leaf [CHR 0xCE, CHR 0xAB]),
        (CHR 0x8C, Leaf [CHR 0xCE, CHR 0x8C]), (CHR 0x8D, Leaf [CHR 0xCE, CHR 0x8E]),
        (CHR 0x8E, Leaf [CHR 0xCE, CHR 0x8F]), (CHR 0x90, Leaf [CHR 0xCE, CHR 0x92]),
        (CHR 0x91, Leaf [CHR 0xCE, CHR 0x98]), (CHR 0x95, Leaf [CHR 0xCE, CHR 0xA6]),
        (CHR 0x96, Leaf [CHR 0xCE, CHR 0xA0]), (CHR 0x97, Leaf [CHR 0xCF, CHR 0x8F]),
        (CHR 0x99, Leaf [CHR 0xCF, CHR 0x98]), (CHR 0x9B, Leaf [CHR 0xCF, CHR 0x9A]),
        (CHR 0x9D, Leaf [CHR 0xCF, CHR 0x9C]), (CHR 0x9F, Leaf [CHR 0xCF, CHR 0x9E]),
        (CHR 0xA1, Leaf [CHR 0xCF, CHR 0xA0]), (CHR 0xA3, Leaf [CHR 0xCF, CHR 0xA2]),
        (CHR 0xA5, Leaf [CHR 0xCF, CHR 0xA4]), (CHR 0xA7, Leaf [CHR 0xCF, CHR 0xA6]),
        (CHR 0xA9, Leaf [CHR 0xCF, CHR 0xA8]), (CHR 0xAB, Leaf [CHR 0xCF, CHR 0xAA]),
        (CHR 0xAD, Leaf [CHR 0xCF, CHR 0xAC]), (CHR 0xAF, Leaf [CHR 0xCF, CHR 0xAE]),
        (CHR 0xB0, Leaf [CHR 0xCE, CHR 0x9A]), (CHR 0xB1, Leaf [CHR 0xCE, CHR 0xA1]),
        (CHR 0xB2, Leaf [CHR 0xCF, CHR 0xB9]), (CHR 0xB3, Leaf [CHR 0xCD, CHR 0xBF]),
        (CHR 0xB5, Leaf [CHR 0xCE, CHR 0x95]), (CHR 0xB8, Leaf [CHR 0xCF, CHR 0xB7]),
        (CHR 0xBB, Leaf [CHR 0xCF, CHR 0xBA])]),
    (CHR 0xD0, Node
      [(CHR 0xB0, Leaf [CHR 0xD0, CHR 0x90]), (CHR 0xB1, Leaf [CHR 0xD0, CHR 0x91]),
        (CHR 0xB2, Leaf [CHR 0xD0, CHR 0x92]), (CHR 0xB3, Leaf [CHR 0xD0, CHR 0x93]),
        (CHR 0xB4, Leaf [CHR 0xD0, CHR 0x94]), (CHR 0xB5, Leaf [CHR 0xD0, CHR 0x95]),
        (CHR 0xB6, Leaf [CHR 0xD0, CHR 0x96]), (CHR 0xB7, Leaf [CHR 0xD0, CHR 0x97]),
        (CHR 0xB8, Leaf [CHR 0xD0, CHR 0x98]), (CHR 0xB9, Leaf [CHR 0xD0, CHR 0x99]),
        (CHR 0xBA, Leaf [CHR 0xD0, CHR 0x9A]), (CHR 0xBB, Leaf [CHR 0xD0, CHR 0x9B]),
        (CHR 0xBC, Leaf [CHR 0xD0, CHR 0x9C]), (CHR 0xBD, Leaf [CHR 0xD0, CHR 0x9D]),
        (CHR 0xBE, Leaf [CHR 0xD0, CHR 0x9E]), (CHR 0xBF, Leaf [CHR 0xD0, CHR 0x9F])]),
    (CHR 0xD1, Node
      [(CHR 0x80, Leaf [CHR 0xD0, CHR 0xA0]), (CHR 0x81, Leaf [CHR 0xD0, CHR 0xA1]),
        (CHR 0x82, Leaf [CHR 0xD0, CHR 0xA2]), (CHR 0x83, Leaf [CHR 0xD0, CHR 0xA3]),
        (CHR 0x84, Leaf [CHR 0xD0, CHR 0xA4]), (CHR 0x85, Leaf [CHR 0xD0, CHR 0xA5]),
        (CHR 0x86, Leaf [CHR 0xD0, CHR 0xA6]), (CHR 0x87, Leaf [CHR 0xD0, CHR 0xA7]),
        (CHR 0x88, Leaf [CHR 0xD0, CHR 0xA8]), (CHR 0x89, Leaf [CHR 0xD0, CHR 0xA9]),
        (CHR 0x8A, Leaf [CHR 0xD0, CHR 0xAA]), (CHR 0x8B, Leaf [CHR 0xD0, CHR 0xAB]),
        (CHR 0x8C, Leaf [CHR 0xD0, CHR 0xAC]), (CHR 0x8D, Leaf [CHR 0xD0, CHR 0xAD]),
        (CHR 0x8E, Leaf [CHR 0xD0, CHR 0xAE]), (CHR 0x8F, Leaf [CHR 0xD0, CHR 0xAF]),
        (CHR 0x90, Leaf [CHR 0xD0, CHR 0x80]), (CHR 0x91, Leaf [CHR 0xD0, CHR 0x81]),
        (CHR 0x92, Leaf [CHR 0xD0, CHR 0x82]), (CHR 0x93, Leaf [CHR 0xD0, CHR 0x83]),
        (CHR 0x94, Leaf [CHR 0xD0, CHR 0x84]), (CHR 0x95, Leaf [CHR 0xD0, CHR 0x85]),
        (CHR 0x96, Leaf [CHR 0xD0, CHR 0x86]), (CHR 0x97, Leaf [CHR 0xD0, CHR 0x87]),
        (CHR 0x98, Leaf [CHR 0xD0, CHR 0x88]), (CHR 0x99, Leaf [CHR 0xD0, CHR 0x89]),
        (CHR 0x9A, Leaf [CHR 0xD0, CHR 0x8A]), (CHR 0x9B, Leaf [CHR 0xD0, CHR 0x8B]),
        (CHR 0x9C, Leaf [CHR 0xD0, CHR 0x8C]), (CHR 0x9D, Leaf [CHR 0xD0, CHR 0x8D]),
        (CHR 0x9E, Leaf [CHR 0xD0, CHR 0x8E]), (CHR 0x9F, Leaf [CHR 0xD0, CHR 0x8F]),
        (CHR 0xA1, Leaf [CHR 0xD1, CHR 0xA0]), (CHR 0xA3, Leaf [CHR 0xD1, CHR 0xA2]),
        (CHR 0xA5, Leaf [CHR 0xD1, CHR 0xA4]), (CHR 0xA7, Leaf [CHR 0xD1, CHR 0xA6]),
        (CHR 0xA9, Leaf [CHR 0xD1, CHR 0xA8]), (CHR 0xAB, Leaf [CHR 0xD1, CHR 0xAA]),
        (CHR 0xAD, Leaf [CHR 0xD1, CHR 0xAC]), (CHR 0xAF, Leaf [CHR 0xD1, CHR 0xAE]),
        (CHR 0xB1, Leaf [CHR 0xD1, CHR 0xB0]), (CHR 0xB3, Leaf [CHR 0xD1, CHR 0xB2]),
        (CHR 0xB5, Leaf [CHR 0xD1, CHR 0xB4]), (CHR 0xB7, Leaf [CHR 0xD1, CHR 0xB6]),
        (CHR 0xB9, Leaf [CHR 0xD1, CHR 0xB8]), (CHR 0xBB, Leaf [CHR 0xD1, CHR 0xBA]),
        (CHR 0xBD, Leaf [CHR 0xD1, CHR 0xBC]), (CHR 0xBF, Leaf [CHR 0xD1, CHR 0xBE])]),
    (CHR 0xD2, Node
      [(CHR 0x81, Leaf [CHR 0xD2, CHR 0x80]), (CHR 0x8B, Leaf [CHR 0xD2, CHR 0x8A]),
        (CHR 0x8D, Leaf [CHR 0xD2, CHR 0x8C]), (CHR 0x8F, Leaf [CHR 0xD2, CHR 0x8E]),
        (CHR 0x91, Leaf [CHR 0xD2, CHR 0x90]), (CHR 0x93, Leaf [CHR 0xD2, CHR 0x92]),
        (CHR 0x95, Leaf [CHR 0xD2, CHR 0x94]), (CHR 0x97, Leaf [CHR 0xD2, CHR 0x96]),
        (CHR 0x99, Leaf [CHR 0xD2, CHR 0x98]), (CHR 0x9B, Leaf [CHR 0xD2, CHR 0x9A]),
        (CHR 0x9D, Leaf [CHR 0xD2, CHR 0x9C]), (CHR 0x9F, Leaf [CHR 0xD2, CHR 0x9E]),
        (CHR 0xA1, Leaf [CHR 0xD2, CHR 0xA0]), (CHR 0xA3, Leaf [CHR 0xD2, CHR 0xA2]),
        (CHR 0xA5, Leaf [CHR 0xD2, CHR 0xA4]), (CHR 0xA7, Leaf [CHR 0xD2, CHR 0xA6]),
        (CHR 0xA9, Leaf [CHR 0xD2, CHR 0xA8]), (CHR 0xAB, Leaf [CHR 0xD2, CHR 0xAA]),
        (CHR 0xAD, Leaf [CHR 0xD2, CHR 0xAC]), (CHR 0xAF, Leaf [CHR 0xD2, CHR 0xAE]),
        (CHR 0xB1, Leaf [CHR 0xD2, CHR 0xB0]), (CHR 0xB3, Leaf [CHR 0xD2, CHR 0xB2]),
        (CHR 0xB5, Leaf [CHR 0xD2, CHR 0xB4]), (CHR 0xB7, Leaf [CHR 0xD2, CHR 0xB6]),
        (CHR 0xB9, Leaf [CHR 0xD2, CHR 0xB8]), (CHR 0xBB, Leaf [CHR 0xD2, CHR 0xBA]),
        (CHR 0xBD, Leaf [CHR 0xD2, CHR 0xBC]), (CHR 0xBF, Leaf [CHR 0xD2, CHR 0xBE])]),
    (CHR 0xD3, Node
      [(CHR 0x82, Leaf [CHR 0xD3, CHR 0x81]), (CHR 0x84, Leaf [CHR 0xD3, CHR 0x83]),
        (CHR 0x86, Leaf [CHR 0xD3, CHR 0x85]), (CHR 0x88, Leaf [CHR 0xD3, CHR 0x87]),
        (CHR 0x8A, Leaf [CHR 0xD3, CHR 0x89]), (CHR 0x8C, Leaf [CHR 0xD3, CHR 0x8B]),
        (CHR 0x8E, Leaf [CHR 0xD3, CHR 0x8D]), (CHR 0x8F, Leaf [CHR 0xD3, CHR 0x80]),
        (CHR 0x91, Leaf [CHR 0xD3, CHR 0x90]), (CHR 0x93, Leaf [CHR 0xD3, CHR 0x92]),
        (CHR 0x95, Leaf [CHR 0xD3, CHR 0x94]), (CHR 0x97, Leaf [CHR 0xD3, CHR 0x96]),
        (CHR 0x99, Leaf [CHR 0xD3, CHR 0x98]), (CHR 0x9B, Leaf [CHR 0xD3, CHR 0x9A]),
        (CHR 0x9D, Leaf [CHR 0xD3, CHR 0x9C]), (CHR 0x9F, Leaf [CHR 0xD3, CHR 0x9E]),
        (CHR 0xA1, Leaf [CHR 0xD3, CHR 0xA0]), (CHR 0xA3, Leaf [CHR 0xD3, CHR 0xA2]),
        (CHR 0xA5, Leaf [CHR 0xD3, CHR 0xA4]), (CHR 0xA7, Leaf [CHR 0xD3, CHR 0xA6]),
        (CHR 0xA9, Leaf [CHR 0xD3, CHR 0xA8]), (CHR 0xAB, Leaf [CHR 0xD3, CHR 0xAA]),
        (CHR 0xAD, Leaf [CHR 0xD3, CHR 0xAC]), (CHR 0xAF, Leaf [CHR 0xD3, CHR 0xAE]),
        (CHR 0xB1, Leaf [CHR 0xD3, CHR 0xB0]), (CHR 0xB3, Leaf [CHR 0xD3, CHR 0xB2]),
        (CHR 0xB5, Leaf [CHR 0xD3, CHR 0xB4]), (CHR 0xB7, Leaf [CHR 0xD3, CHR 0xB6]),
        (CHR 0xB9, Leaf [CHR 0xD3, CHR 0xB8]), (CHR 0xBB, Leaf [CHR 0xD3, CHR 0xBA]),
        (CHR 0xBD, Leaf [CHR 0xD3, CHR 0xBC]), (CHR 0xBF, Leaf [CHR 0xD3, CHR 0xBE])]),
    (CHR 0xD4, Node
      [(CHR 0x81, Leaf [CHR 0xD4, CHR 0x80]), (CHR 0x83, Leaf [CHR 0xD4, CHR 0x82]),
        (CHR 0x85, Leaf [CHR 0xD4, CHR 0x84]), (CHR 0x87, Leaf [CHR 0xD4, CHR 0x86]),
        (CHR 0x89, Leaf [CHR 0xD4, CHR 0x88]), (CHR 0x8B, Leaf [CHR 0xD4, CHR 0x8A]),
        (CHR 0x8D, Leaf [CHR 0xD4, CHR 0x8C]), (CHR 0x8F, Leaf [CHR 0xD4, CHR 0x8E]),
        (CHR 0x91, Leaf [CHR 0xD4, CHR 0x90]), (CHR 0x93, Leaf [CHR 0xD4, CHR 0x92]),
        (CHR 0x95, Leaf [CHR 0xD4, CHR 0x94]), (CHR 0x97, Leaf [CHR 0xD4, CHR 0x96]),
        (CHR 0x99, Leaf [CHR 0xD4, CHR 0x98]), (CHR 0x9B, Leaf [CHR 0xD4, CHR 0x9A]),
        (CHR 0x9D, Leaf [CHR 0xD4, CHR 0x9C]), (CHR 0x9F, Leaf [CHR 0xD4, CHR 0x9E]),
        (CHR 0xA1, Leaf [CHR 0xD4, CHR 0xA0]), (CHR 0xA3, Leaf [CHR 0xD4, CHR 0xA2]),
        (CHR 0xA5, Leaf [CHR 0xD4, CHR 0xA4]), (CHR 0xA7, Leaf [CHR 0xD4, CHR 0xA6]),
        (CHR 0xA9, Leaf [CHR 0xD4, CHR 0xA8]), (CHR 0xAB, Leaf [CHR 0xD4, CHR 0xAA]),
        (CHR 0xAD, Leaf [CHR 0xD4, CHR 0xAC]), (CHR 0xAF, Leaf [CHR 0xD4, CHR 0xAE])]),
    (CHR 0xD5, Node
      [(CHR 0xA1, Leaf [CHR 0xD4, CHR 0xB1]), (CHR 0xA2, Leaf [CHR 0xD4, CHR 0xB2]),
        (CHR 0xA3, Leaf [CHR 0xD4, CHR 0xB3]), (CHR 0xA4, Leaf [CHR 0xD4, CHR 0xB4]),
        (CHR 0xA5, Leaf [CHR 0xD4, CHR 0xB5]), (CHR 0xA6, Leaf [CHR 0xD4, CHR 0xB6]),
        (CHR 0xA7, Leaf [CHR 0xD4, CHR 0xB7]), (CHR 0xA8, Leaf [CHR 0xD4, CHR 0xB8]),
        (CHR 0xA9, Leaf [CHR 0xD4, CHR 0xB9]), (CHR 0xAA, Leaf [CHR 0xD4, CHR 0xBA]),
        (CHR 0xAB, Leaf [CHR 0xD4, CHR 0xBB]), (CHR 0xAC, Leaf [CHR 0xD4, CHR 0xBC]),
        (CHR 0xAD, Leaf [CHR 0xD4, CHR 0xBD]), (CHR 0xAE, Leaf [CHR 0xD4, CHR 0xBE]),
        (CHR 0xAF, Leaf [CHR 0xD4, CHR 0xBF]), (CHR 0xB0, Leaf [CHR 0xD5, CHR 0x80]),
        (CHR 0xB1, Leaf [CHR 0xD5, CHR 0x81]), (CHR 0xB2, Leaf [CHR 0xD5, CHR 0x82]),
        (CHR 0xB3, Leaf [CHR 0xD5, CHR 0x83]), (CHR 0xB4, Leaf [CHR 0xD5, CHR 0x84]),
        (CHR 0xB5, Leaf [CHR 0xD5, CHR 0x85]), (CHR 0xB6, Leaf [CHR 0xD5, CHR 0x86]),
        (CHR 0xB7, Leaf [CHR 0xD5, CHR 0x87]), (CHR 0xB8, Leaf [CHR 0xD5, CHR 0x88]),
        (CHR 0xB9, Leaf [CHR 0xD5, CHR 0x89]), (CHR 0xBA, Leaf [CHR 0xD5, CHR 0x8A]),
        (CHR 0xBB, Leaf [CHR 0xD5, CHR 0x8B]), (CHR 0xBC, Leaf [CHR 0xD5, CHR 0x8C]),
        (CHR 0xBD, Leaf [CHR 0xD5, CHR 0x8D]), (CHR 0xBE, Leaf [CHR 0xD5, CHR 0x8E]),
        (CHR 0xBF, Leaf [CHR 0xD5, CHR 0x8F])]),
    (CHR 0xD6, Node
      [(CHR 0x80, Leaf [CHR 0xD5, CHR 0x90]), (CHR 0x81, Leaf [CHR 0xD5, CHR 0x91]),
        (CHR 0x82, Leaf [CHR 0xD5, CHR 0x92]), (CHR 0x83, Leaf [CHR 0xD5, CHR 0x93]),
        (CHR 0x84, Leaf [CHR 0xD5, CHR 0x94]), (CHR 0x85, Leaf [CHR 0xD5, CHR 0x95]),
        (CHR 0x86, Leaf [CHR 0xD5, CHR 0x96]),
        (CHR 0x87, Leaf [CHR 0xD4, CHR 0xB5, CHR 0xD5, CHR 0x92])]),
    (CHR 0xE1, Node
      [(CHR 0x83, Node
          [(CHR 0x90, Leaf [CHR 0xE1, CHR 0xB2, CHR 0x90]),
            (CHR 0x91, Leaf [CHR 0xE1, CHR 0xB2, CHR 0x91]),
            (CHR 0x92, Leaf [CHR 0xE1, CHR 0xB2, CHR 0x92]),
            (CHR 0x93, Leaf [CHR 0xE1, CHR 0xB2, CHR 0x93]),
            (CHR 0x94, Leaf [CHR 0xE1, CHR 0xB2, CHR 0x94]),
            (CHR 0x95, Leaf [CHR 0xE1, CHR 0xB2, CHR 0x95]),
            (CHR 0x96, Leaf [CHR 0xE1, CHR 0xB2, CHR 0x96]),
            (CHR 0x97, Leaf [CHR 0xE1, CHR 0xB2, CHR 0x97]),
            (CHR 0x98, Leaf [CHR 0xE1, CHR 0xB2, CHR 0x98]),
            (CHR 0x99, Leaf [CHR 0xE1, CHR 0xB2, CHR 0x99]),
            (CHR 0x9A, Leaf [CHR 0xE1, CHR 0xB2, CHR 0x9A]),
            (CHR 0x9B, Leaf [CHR 0xE1, CHR 0xB2, CHR 0x9B]),
            (CHR 0x9C, Leaf [CHR 0xE1, CHR 0xB2, CHR 0x9C]),
            (CHR 0x9D, Leaf [CHR 0xE1, CHR 0xB2, CHR 0x9D]),
            (CHR 0x9E, Leaf [CHR 0xE1, CHR 0xB2, CHR 0x9E]),
            (CHR 0x9F, Leaf [CHR 0xE1, CHR 0xB2, CHR 0x9F]),
            (CHR 0xA0, Leaf [CHR 0xE1, CHR 0xB2, CHR 0xA0]),
            (CHR 0xA1, Leaf [CHR 0xE1, CHR 0xB2, CHR 0xA1]),
            (CHR 0xA2, Leaf [CHR 0xE1, CHR 0xB2, CHR 0xA2]),
            (CHR 0xA3, Leaf [CHR 0xE1, CHR 0xB2, CHR 0xA3]),
            (CHR 0xA4, Leaf [CHR 0xE1, CHR 0xB2, CHR 0xA4]),
            (CHR 0xA5, Leaf [CHR 0xE1, CHR 0xB2, CHR 0xA5]),
            (CHR 0xA6, Leaf [CHR 0xE1, CHR 0xB2, CHR 0xA6]),
            (CHR 0xA7, Leaf [CHR 0xE1, CHR 0xB2, CHR 0xA7]),
            (CHR 0xA8, Leaf [CHR 0xE1, CHR 0xB2, CHR 0xA8]),
            (CHR 0xA9, Leaf [CHR 0xE1, CHR 0xB2, CHR 0xA9]),
            (CHR 0xAA, Leaf [CHR 0xE1, CHR 0xB2, CHR 0xAA]),
            (CHR 0xAB, Leaf [CHR 0xE1, CHR 0xB2, CHR 0xAB]),
            (CHR 0xAC, Leaf [CHR 0xE1, CHR 0xB2, CHR 0xAC]),
            (CHR 0xAD, Leaf [CHR 0xE1, CHR 0xB2, CHR 0xAD]),
            (CHR 0xAE, Leaf [CHR 0xE1, CHR 0xB2, CHR 0xAE]),
            (CHR 0xAF, Leaf [CHR 0xE1, CHR 0xB2, CHR 0xAF]),
            (CHR 0xB0, Leaf [CHR 0xE1, CHR 0xB2, CHR 0xB0]),
            (CHR 0xB1, Leaf [CHR 0xE1, CHR 0xB2, CHR 0xB1]),
            (CHR 0xB2, Leaf [CHR 0xE1, CHR 0xB2, CHR 0xB2]),
            (CHR 0xB3, Leaf [CHR 0xE1, CHR 0xB2, CHR 0xB3]),
            (CHR 0xB4, Leaf [CHR 0xE1, CHR 0xB2, CHR 0xB4]),
            (CHR 0xB5, Leaf [CHR 0xE1, CHR 0xB2, CHR 0xB5]),
            (CHR 0xB6, Leaf [CHR 0xE1, CHR 0xB2, CHR 0xB6]),
            (CHR 0xB7, Leaf [CHR 0xE1, CHR 0xB2, CHR 0xB7]),
            (CHR 0xB8, Leaf [CHR 0xE1, CHR 0xB2, CHR 0xB8]),
            (CHR 0xB9, Leaf [CHR 0xE1, CHR 0xB2, CHR 0xB9]),
            (CHR 0xBA, Leaf [CHR 0xE1, CHR 0xB2, CHR 0xBA]),
            (CHR 0xBD, Leaf [CHR 0xE1, CHR 0xB2, CHR 0xBD]),
            (CHR 0xBE, Leaf [CHR 0xE1, CHR 0xB2, CHR 0xBE]),
            (CHR 0xBF, Leaf [CHR 0xE1, CHR 0xB2, CHR 0xBF])]),
        (CHR 0x8F, Node
          [(CHR 0xB8, Leaf [CHR 0xE1, CHR 0x8F, CHR 0xB0]),
            (CHR 0xB9, Leaf [CHR 0xE1, CHR 0x8F, CHR 0xB1]),
            (CHR 0xBA, Leaf [CHR 0xE1, CHR 0x8F, CHR 0xB2]),
            (CHR 0xBB, Leaf [CHR 0xE1, CHR 0x8F, CHR 0xB3]),
            (CHR 0xBC, Leaf [CHR 0xE1, CHR 0x8F, CHR 0xB4]),
            (CHR 0xBD, Leaf [CHR 0xE1, CHR 0x8F, CHR 0xB5])]),
        (CHR 0xB2, Node
          [(CHR 0x80, Leaf [CHR 0xD0, CHR 0x92]), (CHR 0x81, Leaf [CHR 0xD0, CHR 0x94]),
            (CHR 0x82, Leaf [CHR 0xD0, CHR 0x9E]), (CHR 0x83, Leaf [CHR 0xD0, CHR 0xA1]),
            (CHR 0x84, Leaf [CHR 0xD0, CHR 0xA2]), (CHR 0x85, Leaf [CHR 0xD0, CHR 0xA2]),
            (CHR 0x86, Leaf [CHR 0xD0, CHR 0xAA]), (CHR 0x87, Leaf [CHR 0xD1, CHR 0xA2]),
            (CHR 0x88, Leaf [CHR 0xEA, CHR 0x99, CHR 0x8A])]),
        (CHR 0xB5, Node
          [(CHR 0xB9, Leaf [CHR 0xEA, CHR 0x9D, CHR 0xBD]),
            (CHR 0xBD, Leaf [CHR 0xE2, CHR 0xB1, CHR 0xA3])]),
        (CHR 0xB6, Node
          [(CHR 0x8E, Leaf [CHR 0xEA, CHR 0x9F, CHR 0x86])]),
        (CHR 0xB8, Node
          [(CHR 0x81, Leaf [CHR 0xE1, CHR 0xB8, CHR 0x80]),
            (CHR 0x83, Leaf [CHR 0xE1, CHR 0xB8, CHR 0x82]),
            (CHR 0x85, Leaf [CHR 0xE1, CHR 0xB8, CHR 0x84]),
            (CHR 0x87, Leaf [CHR 0xE1, CHR 0xB8, CHR 0x86]),
            (CHR 0x89, Leaf [CHR 0xE1, CHR 0xB8, CHR 0x88]),
            (CHR 0x8B, Leaf [CHR 0xE1, CHR 0xB8, CHR 0x8A]),
            (CHR 0x8D, Leaf [CHR 0xE1, CHR 0xB8, CHR 0x8C]),
            (CHR 0x8F, Leaf [CHR 0xE1, CHR 0xB8, CHR 0x8E]),
            (CHR 0x91, Leaf [CHR 0xE1, CHR 0xB8, CHR 0x90]),
            (CHR 0x93, Leaf [CHR 0xE1, CHR 0xB8, CHR 0x92]),
            (CHR 0x95, Leaf [CHR 0xE1, CHR 0xB8, CHR 0x94]),
            (CHR 0x97, Leaf [CHR 0xE1, CHR 0xB8, CHR 0x96]),
            (CHR 0x99, Leaf [CHR 0xE1, CHR 0xB8, CHR 0x98]),
            (CHR 0x9B, Leaf [CHR 0xE1, CHR 0xB8, CHR 0x9A]),
            (CHR 0x9D, Leaf [CHR 0xE1, CHR 0xB8, CHR 0x9C]),
            (CHR 0x9F, Leaf [CHR 0xE1, CHR 0xB8, CHR 0x9E]),
            (CHR 0xA1, Leaf [CHR 0xE1, CHR 0xB8, CHR 0xA0]),
            (CHR 0xA3, Leaf [CHR 0xE1, CHR 0xB8, CHR 0xA2]),
            (CHR 0xA5, Leaf [CHR 0xE1, CHR 0xB8, CHR 0xA4]),
            (CHR 0xA7, Leaf [CHR 0xE1, CHR 0xB8, CHR 0xA6]),
            (CHR 0xA9, Leaf [CHR 0xE1, CHR 0xB8, CHR 0xA8]),
            (CHR 0xAB, Leaf [CHR 0xE1, CHR 0xB8, CHR 0xAA]),
            (CHR 0xAD, Leaf [CHR 0xE1, CHR 0xB8, CHR 0xAC]),
            (CHR 0xAF, Leaf [CHR 0xE1, CHR 0xB8, CHR 0xAE]),
            (CHR 0xB1, Leaf [CHR 0xE1, CHR 0xB8, CHR 0xB0]),
            (CHR 0xB3, Leaf [CHR 0xE1, CHR 0xB8, CHR 0xB2]),
            (CHR 0xB5, Leaf [CHR 0xE1, CHR 0xB8, CHR 0xB4]),
            (CHR 0xB7, Leaf [CHR 0xE1, CHR 0xB8, CHR 0xB6]),
            (CHR 0xB9, Leaf [CHR 0xE1, CHR 0xB8, CHR 0xB8]),
            (CHR 0xBB, Leaf [CHR 0xE1, CHR 0xB8, CHR 0xBA]),
            (CHR 0xBD, Leaf [CHR 0xE1, CHR 0xB8, CHR 0xBC]),
            (CHR 0xBF, Leaf [CHR 0xE1, CHR 0xB8, CHR 0xBE])]),
        (CHR 0xB9, Node
          [(CHR 0x81, Leaf [CHR 0xE1, CHR 0xB9, CHR 0x80]),
            (CHR 0x83, Leaf [CHR 0xE1, CHR 0xB9, CHR 0x82]),
            (CHR 0x85, Leaf [CHR 0xE1, CHR 0xB9, CHR 0x84]),
            (CHR 0x87, Leaf [CHR 0xE1, CHR 0xB9, CHR 0x86]),
            (CHR 0x89, Leaf [CHR 0xE1, CHR 0xB9, CHR 0x88]),
            (CHR 0x8B, Leaf [CHR 0xE1, CHR 0xB9, CHR 0x8A]),
            (CHR 0x8D, Leaf [CHR 0xE1, CHR 0xB9, CHR 0x8C]),
            (CHR 0x8F, Leaf [CHR 0xE1, CHR 0xB9, CHR 0x8E]),
            (CHR 0x91, Leaf [CHR 0xE1, CHR 0xB9, CHR 0x90]),
            (CHR 0x93, Leaf [CHR 0xE1, CHR 0xB9, CHR 0x92]),
            (CHR 0x95, Leaf [CHR 0xE1, CHR 0xB9, CHR 0x94]),
            (CHR 0x97, Leaf [CHR 0xE1, CHR 0xB9, CHR 0x96]),
            (CHR 0x99, Leaf [CHR 0xE1, CHR 0xB9, CHR 0x98]),
            (CHR 0x9B, Leaf [CHR 0xE1, CHR 0xB9, CHR 0x9A]),
            (CHR 0x9D, Leaf [CHR 0xE1, CHR 0xB9, CHR 0x9C]),
            (CHR 0x9F, Leaf [CHR 0xE1, CHR 0xB9, CHR 0x9E]),
            (CHR 0xA1, Leaf [CHR 0xE1, CHR 0xB9, CHR 0xA0]),
            (CHR 0xA3, Leaf [CHR 0xE1, CHR 0xB9, CHR 0xA2]),
            (CHR 0xA5, Leaf [CHR 0xE1, CHR 0xB9, CHR 0xA4]),
            (CHR 0xA7, Leaf [CHR 0xE1, CHR 0xB9, CHR 0xA6]),
            (CHR 0xA9, Leaf [CHR 0xE1, CHR 0xB9, CHR 0xA8]),
            (CHR 0xAB, Leaf [CHR 0xE1, CHR 0xB9, CHR 0xAA]),
            (CHR 0xAD, Leaf [CHR 0xE1, CHR 0xB9, CHR 0xAC]),
            (CHR 0xAF, Leaf [CHR 0xE1, CHR 0xB9, CHR 0xAE]),
            (CHR 0xB1, Leaf [CHR 0xE1, CHR 0xB9, CHR 0xB0]),
            (CHR 0xB3, Leaf [CHR 0xE1, CHR 0xB9, CHR 0xB2]),
            (CHR 0xB5, Leaf [CHR 0xE1, CHR 0xB9, CHR 0xB4]),
            (CHR 0xB7, Leaf [CHR 0xE1, CHR 0xB9, CHR 0xB6]),
            (CHR 0xB9, Leaf [CHR 0xE1, CHR 0xB9, CHR 0xB8]),
            (CHR 0xBB, Leaf [CHR 0xE1, CHR 0xB9, CHR 0xBA]),
            (CHR 0xBD, Leaf [CHR 0xE1, CHR 0xB9, CHR 0xBC]),
            (CHR 0xBF, Leaf [CHR 0xE1, CHR 0xB9, CHR 0xBE])]),
        (CHR 0xBA, Node
          [(CHR 0x81, Leaf [CHR 0xE1, CHR 0xBA, CHR 0x80]),
            (CHR 0x83, Leaf [CHR 0xE1, CHR 0xBA, CHR 0x82]),
            (CHR 0x85, Leaf [CHR 0xE1, CHR 0xBA, CHR 0x84]),
            (CHR 0x87, Leaf [CHR 0xE1, CHR 0xBA, CHR 0x86]),
            (CHR 0x89, Leaf [CHR 0xE1, CHR 0xBA, CHR 0x88]),
            (CHR 0x8B, Leaf [CHR 0xE1, CHR 0xBA, CHR 0x8A]),
            (CHR 0x8D, Leaf [CHR 0xE1, CHR 0xBA, CHR 0x8C]),
            (CHR 0x8F, Leaf [CHR 0xE1, CHR 0xBA, CHR 0x8E]),
            (CHR 0x91, Leaf [CHR 0xE1, CHR 0xBA, CHR 0x90]),
            (CHR 0x93, Leaf [CHR 0xE1, CHR 0xBA, CHR 0x92]),
            (CHR 0x95, Leaf [CHR 0xE1, CHR 0xBA, CHR 0x94]),
            (CHR 0x96, Leaf [CHR 0x48, CHR 0xCC, CHR 0xB1]),
            (CHR 0x97, Leaf [CHR 0x54, CHR 0xCC, CHR 0x88]),
            (CHR 0x98, Leaf [CHR 0x57, CHR 0xCC, CHR 0x8A]),
            (CHR 0x99, Leaf [CHR 0x59, CHR 0xCC, CHR 0x8A]),
            (CHR 0x9A, Leaf [CHR 0x41, CHR 0xCA, CHR 0xBE]),
            (CHR 0x9B, Leaf [CHR 0xE1, CHR 0xB9, CHR 0xA0]),
            (CHR 0xA1, Leaf [CHR 0xE1, CHR 0xBA, CHR 0xA0]),
            (CHR 0xA3, Leaf [CHR 0xE1, CHR 0xBA, CHR 0xA2]),
            (CHR 0xA5, Leaf [CHR 0xE1, CHR 0xBA, CHR 0xA4]),
            (CHR 0xA7, Leaf [CHR 0xE1, CHR 0xBA, CHR 0xA6]),
            (CHR 0xA9, Leaf [CHR 0xE1, CHR 0xBA, CHR 0xA8]),
            (CHR 0xAB, Leaf [CHR 0xE1, CHR 0xBA, CHR 0xAA]),
            (CHR 0xAD, Leaf [CHR 0xE1, CHR 0xBA, CHR 0xAC]),
            (CHR 0xAF, Leaf [CHR 0xE1, CHR 0xBA, CHR 0xAE]),
            (CHR 0xB1, Leaf [CHR 0xE1, CHR 0xBA, CHR 0xB0]),
            (CHR 0xB3, Leaf [CHR 0xE1, CHR 0xBA, CHR 0xB2]),
            (CHR 0xB5, Leaf [CHR 0xE1, CHR 0xBA, CHR 0xB4]),
            (CHR 0xB7, Leaf [CHR 0xE1, CHR 0xBA, CHR 0xB6]),
            (CHR 0xB9, Leaf [CHR 0xE1, CHR 0xBA, CHR 0xB8]),
            (CHR 0xBB, Leaf [CHR 0xE1, CHR 0xBA, CHR 0xBA]),
            (CHR 0xBD, Leaf [CHR 0xE1, CHR 0xBA, CHR 0xBC]),
            (CHR 0xBF, Leaf [CHR 0xE1, CHR 0xBA, CHR 0xBE])]),
        (CHR 0xBB, Node
          [(CHR 0x81, Leaf [CHR 0xE1, CHR 0xBB, CHR 0x80]),
            (CHR 0x83, Leaf [CHR 0xE1, CHR 0xBB, CHR 0x82]),
            (CHR 0x85, Leaf [CHR 0xE1, CHR 0xBB, CHR 0x84]),
            (CHR 0x87, Leaf [CHR 0xE1, CHR 0xBB, CHR 0x86]),
            (CHR 0x89, Leaf [CHR 0xE1, CHR 0xBB, CHR 0x88]),
            (CHR 0x8B, Leaf [CHR 0xE1, CHR 0xBB, CHR 0x8A]),
            (CHR 0x8D, Leaf [CHR 0xE1, CHR 0xBB, CHR 0x8C]),
            (CHR 0x8F, Leaf [CHR 0xE1, CHR 0xBB, CHR 0x8E]),
            (CHR 0x91, Leaf [CHR 0xE1, CHR 0xBB, CHR 0x90]),
            (CHR 0x93, Leaf [CHR 0xE1, CHR 0xBB, CHR 0x92]),
            (CHR 0x95, Leaf [CHR 0xE1, CHR 0xBB, CHR 0x94]),
            (CHR 0x97, Leaf [CHR 0xE1, CHR 0xBB, CHR 0x96]),
            (CHR 0x99, Leaf [CHR 0xE1, CHR 0xBB, CHR 0x98]),
            (CHR 0x9B, Leaf [CHR 0xE1, CHR 0xBB, CHR 0x9A]),
            (CHR 0x9D, Leaf [CHR 0xE1, CHR 0xBB, CHR 0x9C]),
            (CHR 0x9F, Leaf [CHR 0xE1, CHR 0xBB, CHR 0x9E]),
            (CHR 0xA1, Leaf [CHR 0xE1, CHR 0xBB, CHR 0xA0]),
            (CHR 0xA3, Leaf [CHR 0xE1, CHR 0xBB, CHR 0xA2]),
            (CHR 0xA5, Leaf [CHR 0xE1, CHR 0xBB, CHR 0xA4]),
            (CHR 0xA7, Leaf [CHR 0xE1, CHR 0xBB, CHR 0xA6]),
            (CHR 0xA9, Leaf [CHR 0xE1, CHR 0xBB, CHR 0xA8]),
            (CHR 0xAB, Leaf [CHR 0xE1, CHR 0xBB, CHR 0xAA]),
            (CHR 0xAD, Leaf [CHR 0xE1, CHR 0xBB, CHR 0xAC]),
            (CHR 0xAF, Leaf [CHR 0xE1, CHR 0xBB, CHR 0xAE]),
            (CHR 0xB1, Leaf [CHR 0xE1, CHR 0xBB, CHR 0xB0]),
            (CHR 0xB3, Leaf [CHR 0xE1, CHR 0xBB, CHR 0xB2]),
            (CHR 0xB5, Leaf [CHR 0xE1, CHR 0xBB, CHR 0xB4]),
            (CHR 0xB7, Leaf [CHR 0xE1, CHR 0xBB, CHR 0xB6]),
            (CHR 0xB9, Leaf [CHR 0xE1, CHR 0xBB, CHR 0xB8]),
            (CHR 0xBB, Leaf [CHR 0xE1, CHR 0xBB, CHR 0xBA]),
            (CHR 0xBD, Leaf [CHR 0xE1, CHR 0xBB, CHR 0xBC]),
            (CHR 0xBF, Leaf [CHR 0xE1, CHR 0xBB, CHR 0xBE])]),
        (CHR 0xBC, Node
          [(CHR 0x80, Leaf [CHR 0xE1, CHR 0xBC, CHR 0x88]),
            (CHR 0x81, Leaf [CHR 0xE1, CHR 0xBC, CHR 0x89]),
            (CHR 0x82, Leaf [CHR 0xE1, CHR 0xBC, CHR 0x8A]),
            (CHR 0x83, Leaf [CHR 0xE1, CHR 0xBC, CHR 0x8B]),
            (CHR 0x84, Leaf [CHR 0xE1, CHR 0xBC, CHR 0x8C]),
            (CHR 0x85, Leaf [CHR 0xE1, CHR 0xBC, CHR 0x8D]),
            (CHR 0x86, Leaf [CHR 0xE1, CHR 0xBC, CHR 0x8E]),
            (CHR 0x87, Leaf [CHR 0xE1, CHR 0xBC, CHR 0x8F]),
            (CHR 0x90, Leaf [CHR 0xE1, CHR 0xBC, CHR 0x98]),
            (CHR 0x91, Leaf [CHR 0xE1, CHR 0xBC, CHR 0x99]),
            (CHR 0x92, Leaf [CHR 0xE1, CHR 0xBC, CHR 0x9A]),
            (CHR 0x93, Leaf [CHR 0xE1, CHR 0xBC, CHR 0x9B]),
            (CHR 0x94, Leaf [CHR 0xE1, CHR 0xBC, CHR 0x9C]),
            (CHR 0x95, Leaf [CHR 0xE1, CHR 0xBC, CHR 0x9D]),
            (CHR 0xA0, Leaf [CHR 0xE1, CHR 0xBC, CHR 0xA8]),
            (CHR 0xA1, Leaf [CHR 0xE1, CHR 0xBC, CHR 0xA9]),
            (CHR 0xA2, Leaf [CHR 0xE1, CHR 0xBC, CHR 0xAA]),
            (CHR 0xA3, Leaf [CHR 0xE1, CHR 0xBC, CHR 0xAB]),
            (CHR 0xA4, Leaf [CHR 0xE1, CHR 0xBC, CHR 0xAC]),
            (CHR 0xA5, Leaf [CHR 0xE1, CHR 0xBC, CHR 0xAD]),
            (CHR 0xA6, Leaf [CHR 0xE1, CHR 0xBC, CHR 0xAE]),
            (CHR 0xA7, Leaf [CHR 0xE1, CHR 0xBC, CHR 0xAF]),
            (CHR 0xB0, Leaf [CHR 0xE1, CHR 0xBC, CHR 0xB8]),
            (CHR 0xB1, Leaf [CHR 0xE1, CHR 0xBC, CHR 0xB9]),
            (CHR 0xB2, Leaf [CHR 0xE1, CHR 0xBC, CHR 0xBA]),
            (CHR 0xB3, Leaf [CHR 0xE1, CHR 0xBC, CHR 0xBB]),
            (CHR 0xB4, Leaf [CHR 0xE1, CHR 0xBC, CHR 0xBC]),
            (CHR 0xB5, Leaf [CHR 0xE1, CHR 0xBC, CHR 0xBD]),
            (CHR 0xB6, Leaf [CHR 0xE1, CHR 0xBC, CHR 0xBE]),
            (CHR 0xB7, Leaf [CHR 0xE1, CHR 0xBC, CHR 0xBF])]),
        (CHR 0xBD, Node
          [(CHR 0x80, Leaf [CHR 0xE1, CHR 0xBD, CHR 0x88]),
            (CHR 0x81, Leaf [CHR 0xE1, CHR 0xBD, CHR 0x89]),
            (CHR 0x82, Leaf [CHR 0xE1, CHR 0xBD, CHR 0x8A]),
            (CHR 0x83, Leaf [CHR 0xE1, CHR 0xBD, CHR 0x8B]),
            (CHR 0x84, Leaf [CHR 0xE1, CHR 0xBD, CHR 0x8C]),
            (CHR 0x85, Leaf [CHR 0xE1, CHR 0xBD, CHR 0x8D]),
            (CHR 0x90, Leaf [CHR 0xCE, CHR 0xA5, CHR 0xCC, CHR 0x93]),
            (CHR 0x91, Leaf [CHR 0xE1, CHR 0xBD, CHR 0x99]),
            (CHR 0x92, Leaf [CHR 0xCE, CHR 0xA5, CHR 0xCC, CHR 0x93, CHR 0xCC, CHR 0x80]),
            (CHR 0x93, Leaf [CHR 0xE1, CHR 0xBD, CHR 0x9B]),
            (CHR 0x94, Leaf [CHR 0xCE, CHR 0xA5, CHR 0xCC, CHR 0x93, CHR 0xCC, CHR 0x81]),
            (CHR 0x95, Leaf [CHR 0xE1, CHR 0xBD, CHR 0x9D]),
            (CHR 0x96, Leaf [CHR 0xCE, CHR 0xA5, CHR 0xCC, CHR 0x93, CHR 0xCD, CHR 0x82]),
            (CHR 0x97, Leaf [CHR 0xE1, CHR 0xBD, CHR 0x9F]),
            (CHR 0xA0, Leaf [CHR 0xE1, CHR 0xBD, CHR 0xA8]),
            (CHR 0xA1, Leaf [CHR 0xE1, CHR 0xBD, CHR 0xA9]),
            (CHR 0xA2, Leaf [CHR 0xE1, CHR 0xBD, CHR 0xAA]),
            (CHR 0xA3, Leaf [CHR 0xE1, CHR 0xBD, CHR 0xAB]),
            (CHR 0xA4, Leaf [CHR 0xE1, CHR 0xBD, CHR 0xAC]),
            (CHR 0xA5, Leaf [CHR 0xE1, CHR 0xBD, CHR 0xAD]),
            (CHR 0xA6, Leaf [CHR 0xE1, CHR 0xBD, CHR 0xAE]),
            (CHR 0xA7, Leaf [CHR 0xE1, CHR 0xBD, CHR 0xAF]),
            (CHR 0xB0, Leaf [CHR 0xE1, CHR 0xBE, CHR 0xBA]),
            (CHR 0xB1, Leaf [CHR 0xE1, CHR 0xBE, CHR 0xBB]),
            (CHR 0xB2, Leaf [CHR 0xE1, CHR 0xBF, CHR 0x88]),
            (CHR 0xB3, Leaf [CHR 0xE1, CHR 0xBF, CHR 0x89]),
            (CHR 0xB4, Leaf [CHR 0xE1, CHR 0xBF, CHR 0x8A]),
            (CHR 0xB5, Leaf [CHR 0xE1, CHR 0xBF, CHR 0x8B]),
            (CHR 0xB6, Leaf [CHR 0xE1, CHR 0xBF, CHR 0x9A]),
            (CHR 0xB7, Leaf [CHR 0xE1, CHR 0xBF, CHR 0x9B]),
            (CHR 0xB8, Leaf [CHR 0xE1, CHR 0xBF, CHR 0xB8]),
            (CHR 0xB9, Leaf [CHR 0xE1, CHR 0xBF, CHR 0xB9]),
            (CHR 0xBA, Leaf [CHR 0xE1, CHR 0xBF, CHR 0xAA]),
            (CHR 0xBB, Leaf [CHR 0xE1, CHR 0xBF, CHR 0xAB]),
            (CHR 0xBC, Leaf [CHR 0xE1, CHR 0xBF, CHR 0xBA]),
            (CHR 0xBD, Leaf [CHR 0xE1, CHR 0xBF, CHR 0xBB])]),
        (CHR 0xBE, Node
          [(CHR 0x80, Leaf [CHR 0xE1, CHR 0xBC, CHR 0x88, CHR 0xCE, CHR 0x99]),
            (CHR 0x81, Leaf [CHR 0xE1, CHR 0xBC, CHR 0x89, CHR 0xCE, CHR 0x99]),
            (CHR 0x82, Leaf [CHR 0xE1, CHR 0xBC, CHR 0x8A, CHR 0xCE, CHR 0x99]),
            (CHR 0x83, Leaf [CHR 0xE1, CHR 0xBC, CHR 0x8B, CHR 0xCE, CHR 0x99]),
            (CHR 0x84, Leaf [CHR 0xE1, CHR 0xBC, CHR 0x8C, CHR 0xCE, CHR 0x99]),
            (CHR 0x85, Leaf [CHR 0xE1, CHR 0xBC, CHR 0x8D, CHR 0xCE, CHR 0x99]),
            (CHR 0x86, Leaf [CHR 0xE1, CHR 0xBC, CHR 0x8E, CHR 0xCE, CHR 0x99]),
            (CHR 0x87, Leaf [CHR 0xE1, CHR 0xBC, CHR 0x8F, CHR 0xCE, CHR 0x99]),
            (CHR 0x88, Leaf [CHR 0xE1, CHR 0xBC, CHR 0x88, CHR 0xCE, CHR 0x99]),
            (CHR 0x89, Leaf [CHR 0xE1, CHR 0xBC, CHR 0x89, CHR 0xCE, CHR 0x99]),
            (CHR 0x8A, Leaf [CHR 0xE1, CHR 0xBC, CHR 0x8A, CHR 0xCE, CHR 0x99]),
            (CHR 0x8B, Leaf [CHR 0xE1, CHR 0xBC, CHR 0x8B, CHR 0xCE, CHR 0x99]),
            (CHR 0x8C, Leaf [CHR 0xE1, CHR 0xBC, CHR 0x8C, CHR 0xCE, CHR 0x99]),
            (CHR 0x8D, Leaf [CHR 0xE1, CHR 0xBC, CHR 0x8D, CHR 0xCE, CHR 0x99]),
            (CHR 0x8E, Leaf [CHR 0xE1, CHR 0xBC, CHR 0x8E, CHR 0xCE, CHR 0x99]),
            (CHR 0x8F, Leaf [CHR 0xE1, CHR 0xBC, CHR 0x8F, CHR 0xCE, CHR 0x99]),
            (CHR 0x90, Leaf [CHR 0xE1, CHR 0xBC, CHR 0xA8, CHR 0xCE, CHR 0x99]),
            (CHR 0x91, Leaf [CHR 0xE1, CHR 0xBC, CHR 0xA9, CHR 0xCE, CHR 0x99]),
            (CHR 0x92, Leaf [CHR 0xE1, CHR 0xBC, CHR 0xAA, CHR 0xCE, CHR 0x99]),
            (CHR 0x93, Leaf [CHR 0xE1, CHR 0xBC, CHR 0xAB, CHR 0xCE, CHR 0x99]),
            (CHR 0x94, Leaf [CHR 0xE1, CHR 0xBC, CHR 0xAC, CHR 0xCE, CHR 0x99]),
            (CHR 0x95, Leaf [CHR 0xE1, CHR 0xBC, CHR 0xAD, CHR 0xCE, CHR 0x99]),
            (CHR 0x96, Leaf [CHR 0xE1, CHR 0xBC, CHR 0xAE, CHR 0xCE, CHR 0x99]),
            (CHR 0x97, Leaf [CHR 0xE1, CHR 0xBC, CHR 0xAF, CHR 0xCE, CHR 0x99]),
            (CHR 0x98, Leaf [CHR 0xE1, CHR 0xBC, CHR 0xA8, CHR 0xCE, CHR 0x99]),
            (CHR 0x99, Leaf [CHR 0xE1, CHR 0xBC, CHR 0xA9, CHR 0xCE, CHR 0x99]),
            (CHR 0x9A, Leaf [CHR 0xE1, CHR 0xBC, CHR 0xAA, CHR 0xCE, CHR 0x99]),
            (CHR 0x9B, Leaf [CHR 0xE1, CHR 0xBC, CHR 0xAB, CHR 0xCE, CHR 0x99]),
            (CHR 0x9C, Leaf [CHR 0xE1, CHR 0xBC, CHR 0xAC, CHR 0xCE, CHR 0x99]),
            (CHR 0x9D, Leaf [CHR 0xE1, CHR 0xBC, CHR 0xAD, CHR 0xCE, CHR 0x99]),
            (CHR 0x9E, Leaf [CHR 0xE1, CHR 0xBC, CHR 0xAE, CHR 0xCE, CHR 0x99]),
            (CHR 0x9F, Leaf [CHR 0xE1, CHR 0xBC, CHR 0xAF, CHR 0xCE, CHR 0x99]),
            (CHR 0xA0, Leaf [CHR 0xE1, CHR 0xBD, CHR 0xA8, CHR 0xCE, CHR 0x99]),
            (CHR 0xA1, Leaf [CHR 0xE1, CHR 0xBD, CHR 0xA9, CHR 0xCE, CHR 0x99]),
            (CHR 0xA2, Leaf [CHR 0xE1, CHR 0xBD, CHR 0xAA, CHR 0xCE, CHR 0x99]),
            (CHR 0xA3, Leaf [CHR 0xE1, CHR 0xBD, CHR 0xAB, CHR 0xCE, CHR 0x99]),
            (CHR 0xA4, Leaf [CHR 0xE1, CHR 0xBD, CHR 0xAC, CHR 0xCE, CHR 0x99]),
            (CHR 0xA5, Leaf [CHR 0xE1, CHR 0xBD, CHR 0xAD, CHR 0xCE, CHR 0x99]),
            (CHR 0xA6, Leaf [CHR 0xE1, CHR 0xBD, CHR 0xAE, CHR 0xCE, CHR 0x99]),
            (CHR 0xA7, Leaf [CHR 0xE1, CHR 0xBD, CHR 0xAF, CHR 0xCE, CHR 0x99]),
            (CHR 0xA8, Leaf [CHR 0xE1, CHR 0xBD, CHR 0xA8, CHR 0xCE, CHR 0x99]),
            (CHR 0xA9, Leaf [CHR 0xE1, CHR 0xBD, CHR 0xA9, CHR 0xCE, CHR 0x99]),
            (CHR 0xAA, Leaf [CHR 0xE1, CHR 0xBD, CHR 0xAA, CHR 0xCE, CHR 0x99]),
            (CHR 0xAB, Leaf [CHR 0xE1, CHR 0xBD, CHR 0xAB, CHR 0xCE, CHR 0x99]),
            (CHR 0xAC, Leaf [CHR 0xE1, CHR 0xBD, CHR 0xAC, CHR 0xCE, CHR 0x99]),
            (CHR 0xAD, Leaf [CHR 0xE1, CHR 0xBD, CHR 0xAD, CHR 0xCE, CHR 0x99]),
            (CHR 0xAE, Leaf [CHR 0xE1, CHR 0xBD, CHR 0xAE, CHR 0xCE, CHR 0x99]),
            (CHR 0xAF, Leaf [CHR 0xE1, CHR 0xBD, CHR 0xAF, CHR 0xCE, CHR 0x99]),
            (CHR 0xB0, Leaf [CHR 0xE1, CHR 0xBE, CHR 0xB8]),
            (CHR 0xB1, Leaf [CHR 0xE1, CHR 0xBE, CHR 0xB9]),
            (CHR 0xB2, Leaf [CHR 0xE1, CHR 0xBE, CHR 0xBA, CHR 0xCE, CHR 0x99]),
            (CHR 0xB3, Leaf [CHR 0xCE, CHR 0x91, CHR 0xCE, CHR 0x99]),
            (CHR 0xB4, Leaf [CHR 0xCE, CHR 0x86, CHR 0xCE, CHR 0x99]),
            (CHR 0xB6, Leaf [CHR 0xCE, CHR 0x91, CHR 0xCD, CHR 0x82]),
            (CHR 0xB7, Leaf [CHR 0xCE, CHR 0x91, CHR 0xCD, CHR 0x82, CHR 0xCE, CHR 0x99]),
            (CHR 0xBC, Leaf [CHR 0xCE, CHR 0x91, CHR 0xCE, CHR 0x99]),
            (CHR 0xBE, Leaf [CHR 0xCE, CHR 0x99])]),
        (CHR 0xBF, Node
          [(CHR 0x82, Leaf [CHR 0xE1, CHR 0xBF, CHR 0x8A, CHR 0xCE, CHR 0x99]),
            (CHR 0x83, Leaf [CHR 0xCE, CHR 0x97, CHR 0xCE, CHR 0x99]),
            (CHR 0x84, Leaf [CHR 0xCE, CHR 0x89, CHR 0xCE, CHR 0x99]),
            (CHR 0x86, Leaf [CHR 0xCE, CHR 0x97, CHR 0xCD, CHR 0x82]),
            (CHR 0x87, Leaf [CHR 0xCE, CHR 0x97, CHR 0xCD, CHR 0x82, CHR 0xCE, CHR 0x99]),
            (CHR 0x8C, Leaf [CHR 0xCE, CHR 0x97, CHR 0xCE, CHR 0x99]),
            (CHR 0x90, Leaf [CHR 0xE1, CHR 0xBF, CHR 0x98]),
            (CHR 0x91, Leaf [CHR 0xE1, CHR 0xBF, CHR 0x99]),
            (CHR 0x92, Leaf [CHR 0xCE, CHR 0x99, CHR 0xCC, CHR 0x88, CHR 0xCC, CHR 0x80]),
            (CHR 0x93, Leaf [CHR 0xCE, CHR 0x99, CHR 0xCC, CHR 0x88, CHR 0xCC, CHR 0x81]),
            (CHR 0x96, Leaf [CHR 0xCE, CHR 0x99, CHR 0xCD, CHR 0x82]),
            (CHR 0x97, Leaf [CHR 0xCE, CHR 0x99, CHR 0xCC, CHR 0x88, CHR 0xCD, CHR 0x82]),
            (CHR 0xA0, Leaf [CHR 0xE1, CHR 0xBF, CHR 0xA8]),
            (CHR 0xA1, Leaf [CHR 0xE1, CHR 0xBF, CHR 0xA9]),
            (CHR 0xA2, Leaf [CHR 0xCE, CHR 0xA5, CHR 0xCC, CHR 0x88, CHR 0xCC, CHR 0x80]),
            (CHR 0xA3, Leaf [CHR 0xCE, CHR 0xA5, CHR 0xCC, CHR 0x88, CHR 0xCC, CHR 0x81]),
            (CHR 0xA4, Leaf [CHR 0xCE, CHR 0xA1, CHR 0xCC, CHR 0x93]),
            (CHR 0xA5, Leaf [CHR 0xE1, CHR 0xBF, CHR 0xAC]),
            (CHR 0xA6, Leaf [CHR 0xCE, CHR 0xA5, CHR 0xCD, CHR 0x82]),
            (CHR 0xA7, Leaf [CHR 0xCE, CHR 0xA5, CHR 0xCC, CHR 0x88, CHR 0xCD, CHR 0x82]),
            (CHR 0xB2, Leaf [CHR 0xE1, CHR 0xBF, CHR 0xBA, CHR 0xCE, CHR 0x99]),
            (CHR 0xB3, Leaf [CHR 0xCE, CHR 0xA9, CHR 0xCE, CHR 0x99]),
            (CHR 0xB4, Leaf [CHR 0xCE, CHR 0x8F, CHR 0xCE, CHR 0x99]),
            (CHR 0xB6, Leaf [CHR 0xCE, CHR 0xA9, CHR 0xCD, CHR 0x82]),
            (CHR 0xB7, Leaf [CHR 0xCE, CHR 0xA9, CHR 0xCD, CHR 0x82, CHR 0xCE, CHR 0x99]),
            (CHR 0xBC, Leaf [CHR 0xCE, CHR 0xA9, CHR 0xCE, CHR 0x99])])]),
    (CHR 0xE2, Node
      [(CHR 0x85, Node
          [(CHR 0x8E, Leaf [CHR 0xE2, CHR 0x84, CHR 0xB2]),
            (CHR 0xB0, Leaf [CHR 0xE2, CHR 0x85, CHR 0xA0]),
            (CHR 0xB1, Leaf [CHR 0xE2, CHR 0x85, CHR 0xA1]),
            (CHR 0xB2, Leaf [CHR 0xE2, CHR 0x85, CHR 0xA2]),
            (CHR 0xB3, Leaf [CHR 0xE2, CHR 0x85, CHR 0xA3]),
            (CHR 0xB4, Leaf [CHR 0xE2, CHR 0x85, CHR 0xA4]),
            (CHR 0xB5, Leaf [CHR 0xE2, CHR 0x85, CHR 0xA5]),
            (CHR 0xB6, Leaf [CHR 0xE2, CHR 0x85, CHR 0xA6]),
            (CHR 0xB7, Leaf [CHR 0xE2, CHR 0x85, CHR 0xA7]),
            (CHR 0xB8, Leaf [CHR 0xE2, CHR 0x85, CHR 0xA8]),
            (CHR 0xB9, Leaf [CHR 0xE2, CHR 0x85, CHR 0xA9]),
            (CHR 0xBA, Leaf [CHR 0xE2, CHR 0x85, CHR 0xAA]),
            (CHR 0xBB, Leaf [CHR 0xE2, CHR 0x85, CHR 0xAB]),
            (CHR 0xBC, Leaf [CHR 0xE2, CHR 0x85, CHR 0xAC]),
            (CHR 0xBD, Leaf [CHR 0xE2, CHR 0x85, CHR 0xAD]),
            (CHR 0xBE, Leaf [CHR 0xE2, CHR 0x85, CHR 0xAE]),
            (CHR 0xBF, Leaf [CHR 0xE2, CHR 0x85, CHR 0xAF])]),
        (CHR 0x86, Node
          [(CHR 0x84, Leaf [CHR 0xE2, CHR 0x86, CHR 0x83])]),
        (CHR 0x93, Node
          [(CHR 0x90, Leaf [CHR 0xE2, CHR 0x92, CHR 0xB6]),
            (CHR 0x91, Leaf [CHR 0xE2, CHR 0x92, CHR 0xB7]),
            (CHR 0x92, Leaf [CHR 0xE2, CHR 0x92, CHR 0xB8]),
            (CHR 0x93, Leaf [CHR 0xE2, CHR 0x92, CHR 0xB9]),
            (CHR 0x94, Leaf [CHR 0xE2, CHR 0x92, CHR 0xBA]),
            (CHR 0x95, Leaf [CHR 0xE2, CHR 0x92, CHR 0xBB]),
            (CHR 0x96, Leaf [CHR 0xE2, CHR 0x92, CHR 0xBC]),
            (CHR 0x97, Leaf [CHR 0xE2, CHR 0x92, CHR 0xBD]),
            (CHR 0x98, Leaf [CHR 0xE2, CHR 0x92, CHR 0xBE]),
            (CHR 0x99, Leaf [CHR 0xE2, CHR 0x92, CHR 0xBF]),
            (CHR 0x9A, Leaf [CHR 0xE2, CHR 0x93, CHR 0x80]),
            (CHR 0x9B, Leaf [CHR 0xE2, CHR 0x93, CHR 0x81]),
            (CHR 0x9C, Leaf [CHR 0xE2, CHR 0x93, CHR 0x82]),
            (CHR 0x9D, Leaf [CHR 0xE2, CHR 0x93, CHR 0x83]),
            (CHR 0x9E, Leaf [CHR 0xE2, CHR 0x93, CHR 0x84]),
            (CHR 0x9F, Leaf [CHR 0xE2, CHR 0x93, CHR 0x85]),
            (CHR 0xA0, Leaf [CHR 0xE2, CHR 0x93, CHR 0x86]),
            (CHR 0xA1, Leaf [CHR 0xE2, CHR 0x93, CHR 0x87]),
            (CHR 0xA2, Leaf [CHR 0xE2, CHR 0x93, CHR 0x88]),
            (CHR 0xA3, Leaf [CHR 0xE2, CHR 0x93, CHR 0x89]),
            (CHR 0xA4, Leaf [CHR 0xE2, CHR 0x93, CHR 0x8A]),
            (CHR 0xA5, Leaf [CHR 0xE2, CHR 0x93, CHR 0x8B]),
            (CHR 0xA6, Leaf [CHR 0xE2, CHR 0x93, CHR 0x8C]),
            (CHR 0xA7, Leaf [CHR 0xE2, CHR 0x93, CHR 0x8D]),
            (CHR 0xA8, Leaf [CHR 0xE2, CHR 0x93, CHR 0x8E]),
            (CHR 0xA9, Leaf [CHR 0xE2, CHR 0x93, CHR 0x8F])]),
        (CHR 0xB0, Node
          [(CHR 0xB0, Leaf [CHR 0xE2, CHR 0xB0, CHR 0x80]),
            (CHR 0xB1, Leaf [CHR 0xE2, CHR 0xB0, CHR 0x81]),
            (CHR 0xB2, Leaf [CHR 0xE2, CHR 0xB0, CHR 0x82]),
            (CHR 0xB3, Leaf [CHR 0xE2, CHR 0xB0, CHR 0x83]),
            (CHR 0xB4, Leaf [CHR 0xE2, CHR 0xB0, CHR 0x84]),
            (CHR 0xB5, Leaf [CHR 0xE2, CHR 0xB0, CHR 0x85]),
            (CHR 0xB6, Leaf [CHR 0xE2, CHR 0xB0, CHR 0x86]),
            (CHR 0xB7, Leaf [CHR 0xE2, CHR 0xB0, CHR 0x87]),
            (CHR 0xB8, Leaf [CHR 0xE2, CHR 0xB0, CHR 0x88]),
            (CHR 0xB9, Leaf [CHR 0xE2, CHR 0xB0, CHR 0x89]),
            (CHR 0xBA, Leaf [CHR 0xE2, CHR 0xB0, CHR 0x8A]),
            (CHR 0xBB, Leaf [CHR 0xE2, CHR 0xB0, CHR 0x8B]),
            (CHR 0xBC, Leaf [CHR 0xE2, CHR 0xB0, CHR 0x8C]),
            (CHR 0xBD, Leaf [CHR 0xE2, CHR 0xB0, CHR 0x8D]),
            (CHR 0xBE, Leaf [CHR 0xE2, CHR 0xB0, CHR 0x8E]),
            (CHR 0xBF, Leaf [CHR 0xE2, CHR 0xB0, CHR 0x8F])]),
        (CHR 0xB1, Node
          [(CHR 0x80, Leaf [CHR 0xE2, CHR 0xB0, CHR 0x90]),
            (CHR 0x81, Leaf [CHR 0xE2, CHR 0xB0, CHR 0x91]),
            (CHR 0x82, Leaf [CHR 0xE2, CHR 0xB0, CHR 0x92]),
            (CHR 0x83, Leaf [CHR 0xE2, CHR 0xB0, CHR 0x93]),
            (CHR 0x84, Leaf [CHR 0xE2, CHR 0xB0, CHR 0x94]),
            (CHR 0x85, Leaf [CHR 0xE2, CHR 0xB0, CHR 0x95]),
            (CHR 0x86, Leaf [CHR 0xE2, CHR 0xB0, CHR 0x96]),
            (CHR 0x87, Leaf [CHR 0xE2, CHR 0xB0, CHR 0x97]),
            (CHR 0x88, Leaf [CHR 0xE2, CHR 0xB0, CHR 0x98]),
            (CHR 0x89, Leaf [CHR 0xE2, CHR 0xB0, CHR 0x99]),
            (CHR 0x8A, Leaf [CHR 0xE2, CHR 0xB0, CHR 0x9A]),
            (CHR 0x8B, Leaf [CHR 0xE2, CHR 0xB0, CHR 0x9B]),
            (CHR 0x8C, Leaf [CHR 0xE2, CHR 0xB0, CHR 0x9C]),
            (CHR 0x8D, Leaf [CHR 0xE2, CHR 0xB0, CHR 0x9D]),
            (CHR 0x8E, Leaf [CHR 0xE2, CHR 0xB0, CHR 0x9E]),
            (CHR 0x8F, Leaf [CHR 0xE2, CHR 0xB0, CHR 0x9F]),
            (CHR 0x90, Leaf [CHR 0xE2, CHR 0xB0, CHR 0xA0]),
            (CHR 0x91, Leaf [CHR 0xE2, CHR 0xB0, CHR 0xA1]),
            (CHR 0x92, Leaf [CHR 0xE2, CHR 0xB0, CHR 0xA2]),
            (CHR 0x93, Leaf [CHR 0xE2, CHR 0xB0, CHR 0xA3]),
            (CHR 0x94, Leaf [CHR 0xE2, CHR 0xB0, CHR 0xA4]),
            (CHR 0x95, Leaf [CHR 0xE2, CHR 0xB0, CHR 0xA5]),
            (CHR 0x96, Leaf [CHR 0xE2, CHR 0xB0, CHR 0xA6]),
            (CHR 0x97, Leaf [CHR 0xE2, CHR 0xB0, CHR 0xA7]),
            (CHR 0x98, Leaf [CHR 0xE2, CHR 0xB0, CHR 0xA8]),
            (CHR 0x99, Leaf [CHR 0xE2, CHR 0xB0, CHR 0xA9]),
            (CHR 0x9A, Leaf [CHR 0xE2, CHR 0xB0, CHR 0xAA]),
            (CHR 0x9B, Leaf [CHR 0xE2, CHR 0xB0, CHR 0xAB]),
            (CHR 0x9C, Leaf [CHR 0xE2, CHR 0xB0, CHR 0xAC]),
            (CHR 0x9D, Leaf [CHR 0xE2, CHR 0xB0, CHR 0xAD]),
            (CHR 0x9E, Leaf [CHR 0xE2, CHR 0xB0, CHR 0xAE]),
            (CHR 0x9F, Leaf [CHR 0xE2, CHR 0xB0, CHR 0xAF]),
            (CHR 0xA1, Leaf [CHR 0xE2, CHR 0xB1, CHR 0xA0]),
            (CHR 0xA5, Leaf [CHR 0xC8, CHR 0xBA]), (CHR 0xA6, Leaf [CHR 0xC8, CHR 0xBE]),
            (CHR 0xA8, Leaf [CHR 0xE2, CHR 0xB1, CHR 0xA7]),
            (CHR 0xAA, Leaf [CHR 0xE2, CHR 0xB1, CHR 0xA9]),
            (CHR 0xAC, Leaf [CHR 0xE2, CHR 0xB1, CHR 0xAB]),
            (CHR 0xB3, Leaf [CHR 0xE2, CHR 0xB1, CHR 0xB2]),
            (CHR 0xB6, Leaf [CHR 0xE2, CHR 0xB1, CHR 0xB5])]),
        (CHR 0xB2, Node
          [(CHR 0x81, Leaf [CHR 0xE2, CHR 0xB2, CHR 0x80]),
            (CHR 0x83, Leaf [CHR 0xE2, CHR 0xB2, CHR 0x82]),
            (CHR 0x85, Leaf [CHR 0xE2, CHR 0xB2, CHR 0x84]),
            (CHR 0x87, Leaf [CHR 0xE2, CHR 0xB2, CHR 0x86]),
            (CHR 0x89, Leaf [CHR 0xE2, CHR 0xB2, CHR 0x88]),
            (CHR 0x8B, Leaf [CHR 0xE2, CHR 0xB2, CHR 0x8A]),
            (CHR 0x8D, Leaf [CHR 0xE2, CHR 0xB2, CHR 0x8C]),
            (CHR 0x8F, Leaf [CHR 0xE2, CHR 0xB2, CHR 0x8E]),
            (CHR 0x91, Leaf [CHR 0xE2, CHR 0xB2, CHR 0x90]),
            (CHR 0x93, Leaf [CHR 0xE2, CHR 0xB2, CHR 0x92]),
            (CHR 0x95, Leaf [CHR 0xE2, CHR 0xB2, CHR 0x94]),
            (CHR 0x97, Leaf [CHR 0xE2, CHR 0xB2, CHR 0x96]),
            (CHR 0x99, Leaf [CHR 0xE2, CHR 0xB2, CHR 0x98]),
            (CHR 0x9B, Leaf [CHR 0xE2, CHR 0xB2, CHR 0x9A]),
            (CHR 0x9D, Leaf [CHR 0xE2, CHR 0xB2, CHR 0x9C]),
            (CHR 0x9F, Leaf [CHR 0xE2, CHR 0xB2, CHR 0x9E]),
            (CHR 0xA1, Leaf [CHR 0xE2, CHR 0xB2, CHR 0xA0]),
            (CHR 0xA3, Leaf [CHR 0xE2, CHR 0xB2, CHR 0xA2]),
            (CHR 0xA5, Leaf [CHR 0xE2, CHR 0xB2, CHR 0xA4]),
            (CHR 0xA7, Leaf [CHR 0xE2, CHR 0xB2, CHR 0xA6]),
            (CHR 0xA9, Leaf [CHR 0xE2, CHR 0xB2, CHR 0xA8]),
            (CHR 0xAB, Leaf [CHR 0xE2, CHR 0xB2, CHR 0xAA]),
            (CHR 0xAD, Leaf [CHR 0xE2, CHR 0xB2, CHR 0xAC]),
            (CHR 0xAF, Leaf [CHR 0xE2, CHR 0xB2, CHR 0xAE]),
            (CHR 0xB1, Leaf [CHR 0xE2, CHR 0xB2, CHR 0xB0]),
            (CHR 0xB3, Leaf [CHR 0xE2, CHR 0xB2, CHR 0xB2]),
            (CHR 0xB5, Leaf [CHR 0xE2, CHR 0xB2, CHR 0xB4]),
            (CHR 0xB7, Leaf [CHR 0xE2, CHR 0xB2, CHR 0xB6]),
            (CHR 0xB9, Leaf [CHR 0xE2, CHR 0xB2, CHR 0xB8]),
            (CHR 0xBB, Leaf [CHR 0xE2, CHR 0xB2, CHR 0xBA]),
            (CHR 0xBD, Leaf [CHR 0xE2, CHR 0xB2, CHR 0xBC]),
            (CHR 0xBF, Leaf [CHR 0xE2, CHR 0xB2, CHR 0xBE])]),
        (CHR 0xB3, Node
          [(CHR 0x81, Leaf [CHR 0xE2, CHR 0xB3, CHR 0x80]),
            (CHR 0x83, Leaf [CHR 0xE2, CHR 0xB3, CHR 0x82]),
            (CHR 0x85, Leaf [CHR 0xE2, CHR 0xB3, CHR 0x84]),
            (CHR 0x87, Leaf [CHR 0xE2, CHR 0xB3, CHR 0x86]),
            (CHR 0x89, Leaf [CHR 0xE2, CHR 0xB3, CHR 0x88]),
            (CHR 0x8B, Leaf [CHR 0xE2, CHR 0xB3, CHR 0x8A]),
            (CHR 0x8D, Leaf [CHR 0xE2, CHR 0xB3, CHR 0x8C]),
            (CHR 0x8F, Leaf [CHR 0xE2, CHR 0xB3, CHR 0x8E]),
            (CHR 0x91, Leaf [CHR 0xE2, CHR 0xB3, CHR 0x90]),
            (CHR 0x93, Leaf [CHR 0xE2, CHR 0xB3, CHR 0x92]),
            (CHR 0x95, Leaf [CHR 0xE2, CHR 0xB3, CHR 0x94]),
            (CHR 0x97, Leaf [CHR 0xE2, CHR 0xB3, CHR 0x96]),
            (CHR 0x99, Leaf [CHR 0xE2, CHR 0xB3, CHR 0x98]),
            (CHR 0x9B, Leaf [CHR 0xE2, CHR 0xB3, CHR 0x9A]),
            (CHR 0x9D, Leaf [CHR 0xE2, CHR 0xB3, CHR 0x9C]),
            (CHR 0x9F, Leaf [CHR 0xE2, CHR 0xB3, CHR 0x9E]),
            (CHR 0xA1, Leaf [CHR 0xE2, CHR 0xB3, CHR 0xA0]),
            (CHR 0xA3, Leaf [CHR 0xE2, CHR 0xB3, CHR 0xA2]),
            (CHR 0xAC, Leaf [CHR 0xE2, CHR 0xB3, CHR 0xAB]),
            (CHR 0xAE, Leaf [CHR 0xE2, CHR 0xB3, CHR 0xAD]),
            (CHR 0xB3, Leaf [CHR 0xE2, CHR 0xB3, CHR 0xB2])]),
        (CHR 0xB4, Node
          [(CHR 0x80, Leaf [CHR 0xE1, CHR 0x82, CHR 0xA0]),
            (CHR 0x81, Leaf [CHR 0xE1, CHR 0x82, CHR 0xA1]),
            (CHR 0x82, Leaf [CHR 0xE1, CHR 0x82, CHR 0xA2]),
            (CHR 0x83, Leaf [CHR 0xE1, CHR 0x82, CHR 0xA3]),
            (CHR 0x84, Leaf [CHR 0xE1, CHR 0x82, CHR 0xA4]),
            (CHR 0x85, Leaf [CHR 0xE1, CHR 0x82, CHR 0xA5]),
            (CHR 0x86, Leaf [CHR 0xE1, CHR 0x82, CHR 0xA6]),
            (CHR 0x87, Leaf [CHR 0xE1, CHR 0x82, CHR 0xA7]),
            (CHR 0x88, Leaf [CHR 0xE1, CHR 0x82, CHR 0xA8]),
            (CHR 0x89, Leaf [CHR 0xE1, CHR 0x82, CHR 0xA9]),
            (CHR 0x8A, Leaf [CHR 0xE1, CHR 0x82, CHR 0xAA]),
            (CHR 0x8B, Leaf [CHR 0xE1, CHR 0x82, CHR 0xAB]),
            (CHR 0x8C, Leaf [CHR 0xE1, CHR 0x82, CHR 0xAC]),
            (CHR 0x8D, Leaf [CHR 0xE1, CHR 0x82, CHR 0xAD]),
            (CHR 0x8E, Leaf [CHR 0xE1, CHR 0x82, CHR 0xAE]),
            (CHR 0x8F, Leaf [CHR 0xE1, CHR 0x82, CHR 0xAF]),
            (CHR 0x90, Leaf [CHR 0xE1, CHR 0x82, CHR 0xB0]),
            (CHR 0x91, Leaf [CHR 0xE1, CHR 0x82, CHR 0xB1]),
            (CHR 0x92, Leaf [CHR 0xE1, CHR 0x82, CHR 0xB2]),
            (CHR 0x93, Leaf [CHR 0xE1, CHR 0x82, CHR 0xB3]),
            (CHR 0x94, Leaf [CHR 0xE1, CHR 0x82, CHR 0xB4]),
            (CHR 0x95, Leaf [CHR 0xE1, CHR 0x82, CHR 0xB5]),
            (CHR 0x96, Leaf [CHR 0xE1, CHR 0x82, CHR 0xB6]),
            (CHR 0x97, Leaf [CHR 0xE1, CHR 0x82, CHR 0xB7]),
            (CHR 0x98, Leaf [CHR 0xE1, CHR 0x82, CHR 0xB8]),
            (CHR 0x99, Leaf [CHR 0xE1, CHR 0x82, CHR 0xB9]),
            (CHR 0x9A, Leaf [CHR 0xE1, CHR 0x82, CHR 0xBA]),
            (CHR 0x9B, Leaf [CHR 0xE1, CHR 0x82, CHR 0xBB]),
            (CHR 0x9C, Leaf [CHR 0xE1, CHR 0x82, CHR 0xBC]),
            (CHR 0x9D, Leaf [CHR 0xE1, CHR 0x82, CHR 0xBD]),
            (CHR 0x9E, Leaf [CHR 0xE1, CHR 0x82, CHR 0xBE]),
            (CHR 0x9F, Leaf [CHR 0xE1, CHR 0x82, CHR 0xBF]),
            (CHR 0xA0, Leaf [CHR 0xE1, CHR 0x83, CHR 0x80]),
            (CHR 0xA1, Leaf [CHR 0xE1, CHR 0x83, CHR 0x81]),
            (CHR 0xA2, Leaf [CHR 0xE1, CHR 0x83, CHR 0x82]),
            (CHR 0xA3, Leaf [CHR 0xE1, CHR 0x83, CHR 0x83]),
            (CHR 0xA4, Leaf [CHR 0xE1, CHR 0x83, CHR 0x84]),
            (CHR 0xA5, Leaf [CHR 0xE1, CHR 0x83, CHR 0x85]),
            (CHR 0xA7, Leaf [CHR 0xE1, CHR 0x83, CHR 0x87]),
            (CHR 0xAD, Leaf [CHR 0xE1, CHR 0x83, CHR 0x8D])])]),
    (CHR 0xEA, Node
      [(CHR 0x99, Node
          [(CHR 0x81, Leaf [CHR 0xEA, CHR 0x99, CHR 0x80]),
            (CHR 0x83, Leaf [CHR 0xEA, CHR 0x99, CHR 0x82]),
            (CHR 0x85, Leaf [CHR 0xEA, CHR 0x99, CHR 0x84]),
            (CHR 0x87, Leaf [CHR 0xEA, CHR 0x99, CHR 0x86]),
            (CHR 0x89, Leaf [CHR 0xEA, CHR 0x99, CHR 0x88]),
            (CHR 0x8B, Leaf [CHR 0xEA, CHR 0x99, CHR 0x8A]),
            (CHR 0x8D, Leaf [CHR 0xEA, CHR 0x99, CHR 0x8C]),
            (CHR 0x8F, Leaf [CHR 0xEA, CHR 0x99, CHR 0x8E]),
            (CHR 0x91, Leaf [CHR 0xEA, CHR 0x99, CHR 0x90]),
            (CHR 0x93, Leaf [CHR 0xEA, CHR 0x99, CHR 0x92]),
            (CHR 0x95, Leaf [CHR 0xEA, CHR 0x99, CHR 0x94]),
            (CHR 0x97, Leaf [CHR 0xEA, CHR 0x99, CHR 0x96]),
            (CHR 0x99, Leaf [CHR 0xEA, CHR 0x99, CHR 0x98]),
            (CHR 0x9B, Leaf [CHR 0xEA, CHR 0x99, CHR 0x9A]),
            (CHR 0x9D, Leaf [CHR 0xEA, CHR 0x99, CHR 0x9C]),
            (CHR 0x9F, Leaf [CHR 0xEA, CHR 0x99, CHR 0x9E]),
            (CHR 0xA1, Leaf [CHR 0xEA, CHR 0x99, CHR 0xA0]),
            (CHR 0xA3, Leaf [CHR 0xEA, CHR 0x99, CHR 0xA2]),
            (CHR 0xA5, Leaf [CHR 0xEA, CHR 0x99, CHR 0xA4]),
            (CHR 0xA7, Leaf [CHR 0xEA, CHR 0x99, CHR 0xA6]),
            (CHR 0xA9, Leaf [CHR 0xEA, CHR 0x99, CHR 0xA8]),
            (CHR 0xAB, Leaf [CHR 0xEA, CHR 0x99, CHR 0xAA]),
            (CHR 0xAD, Leaf [CHR 0xEA, CHR 0x99, CHR 0xAC])]),
        (CHR 0x9A, Node
          [(CHR 0x81, Leaf [CHR 0xEA, CHR 0x9A, CHR 0x80]),
            (CHR 0x83, Leaf [CHR 0xEA, CHR 0x9A, CHR 0x82]),
            (CHR 0x85, Leaf [CHR 0xEA, CHR 0x9A, CHR 0x84]),
            (CHR 0x87, Leaf [CHR 0xEA, CHR 0x9A, CHR 0x86]),
            (CHR 0x89, Leaf [CHR 0xEA, CHR 0x9A, CHR 0x88]),
            (CHR 0x8B, Leaf [CHR 0xEA, CHR 0x9A, CHR 0x8A]),
            (CHR 0x8D, Leaf [CHR 0xEA, CHR 0x9A, CHR 0x8C]),
            (CHR 0x8F, Leaf [CHR 0xEA, CHR 0x9A, CHR 0x8E]),
            (CHR 0x91, Leaf [CHR 0xEA, CHR 0x9A, CHR 0x90]),
            (CHR 0x93, Leaf [CHR 0xEA, CHR 0x9A, CHR 0x92]),
            (CHR 0x95, Leaf [CHR 0xEA, CHR 0x9A, CHR 0x94]),
            (CHR 0x97, Leaf [CHR 0xEA, CHR 0x9A, CHR 0x96]),
            (CHR 0x99, Leaf [CHR 0xEA, CHR 0x9A, CHR 0x98]),
            (CHR 0x9B, Leaf [CHR 0xEA, CHR 0x9A, CHR 0x9A])]),
        (CHR 0x9C, Node
          [(CHR 0xA3, Leaf [CHR 0xEA, CHR 0x9C, CHR 0xA2]),
            (CHR 0xA5, Leaf [CHR 0xEA, CHR 0x9C, CHR 0xA4]),
            (CHR 0xA7, Leaf [CHR 0xEA, CHR 0x9C, CHR 0xA6]),
            (CHR 0xA9, Leaf [CHR 0xEA, CHR 0x9C, CHR 0xA8]),
            (CHR 0xAB, Leaf [CHR 0xEA, CHR 0x9C, CHR 0xAA]),
            (CHR 0xAD, Leaf [CHR 0xEA, CHR 0x9C, CHR 0xAC]),
            (CHR 0xAF, Leaf [CHR 0xEA, CHR 0x9C, CHR 0xAE]),
            (CHR 0xB3, Leaf [CHR 0xEA, CHR 0x9C, CHR 0xB2]),
            (CHR 0xB5, Leaf [CHR 0xEA, CHR 0x9C, CHR 0xB4]),
            (CHR 0xB7, Leaf [CHR 0xEA, CHR 0x9C, CHR 0xB6]),
            (CHR 0xB9, Leaf [CHR 0xEA, CHR 0x9C, CHR 0xB8]),
            (CHR 0xBB, Leaf [CHR 0xEA, CHR 0x9C, CHR 0xBA]),
            (CHR 0xBD, Leaf [CHR 0xEA, CHR 0x9C, CHR 0xBC]),
            (CHR 0xBF, Leaf [CHR 0xEA, CHR 0x9C, CHR 0xBE])]),
        (CHR 0x9D, Node
          [(CHR 0x81, Leaf [CHR 0xEA, CHR 0x9D, CHR 0x80]),
            (CHR 0x83, Leaf [CHR 0xEA, CHR 0x9D, CHR 0x82]),
            (CHR 0x85, Leaf [CHR 0xEA, CHR 0x9D, CHR 0x84]),
            (CHR 0x87, Leaf [CHR 0xEA, CHR 0x9D, CHR 0x86]),
            (CHR 0x89, Leaf [CHR 0xEA, CHR 0x9D, CHR 0x88]),
            (CHR 0x8B, Leaf [CHR 0xEA, CHR 0x9D, CHR 0x8A]),
            (CHR 0x8D, Leaf [CHR 0xEA, CHR 0x9D, CHR 0x8C]),
            (CHR 0x8F, Leaf [CHR 0xEA, CHR 0x9D, CHR 0x8E]),
            (CHR 0x91, Leaf [CHR 0xEA, CHR 0x9D, CHR 0x90]),
            (CHR 0x93, Leaf [CHR 0xEA, CHR 0x9D, CHR 0x92]),
            (CHR 0x95, Leaf [CHR 0xEA, CHR 0x9D, CHR 0x94]),
            (CHR 0x97, Leaf [CHR 0xEA, CHR 0x9D, CHR 0x96]),
            (CHR 0x99, Leaf [CHR 0xEA, CHR 0x9D, CHR 0x98]),
            (CHR 0x9B, Leaf [CHR 0xEA, CHR 0x9D, CHR 0x9A]),
            (CHR 0x9D, Leaf [CHR 0xEA, CHR 0x9D, CHR 0x9C]),
            (CHR 0x9F, Leaf [CHR 0xEA, CHR 0x9D, CHR 0x9E]),
            (CHR 0xA1, Leaf [CHR 0xEA, CHR 0x9D, CHR 0xA0]),
            (CHR 0xA3, Leaf [CHR 0xEA, CHR 0x9D, CHR 0xA2]),
            (CHR 0xA5, Leaf [CHR 0xEA, CHR 0x9D, CHR 0xA4]),
            (CHR 0xA7, Leaf [CHR 0xEA, CHR 0x9D, CHR 0xA6]),
            (CHR 0xA9, Leaf [CHR 0xEA, CHR 0x9D, CHR 0xA8]),
            (CHR 0xAB, Leaf [CHR 0xEA, CHR 0x9D, CHR 0xAA]),
            (CHR 0xAD, Leaf [CHR 0xEA, CHR 0x9D, CHR 0xAC]),
            (CHR 0xAF, Leaf [CHR 0xEA, CHR 0x9D, CHR 0xAE]),
            (CHR 0xBA, Leaf [CHR 0xEA, CHR 0x9D, CHR 0xB9]),
            (CHR 0xBC, Leaf [CHR 0xEA, CHR 0x9D, CHR 0xBB]),
            (CHR 0xBF, Leaf [CHR 0xEA, CHR 0x9D, CHR 0xBE])]),
        (CHR 0x9E, Node
          [(CHR 0x81, Leaf [CHR 0xEA, CHR 0x9E, CHR 0x80]),
            (CHR 0x83, Leaf [CHR 0xEA, CHR 0x9E, CHR 0x82]),
            (CHR 0x85, Leaf [CHR 0xEA, CHR 0x9E, CHR 0x84]),
            (CHR 0x87, Leaf [CHR 0xEA, CHR 0x9E, CHR 0x86]),
            (CHR 0x8C, Leaf [CHR 0xEA, CHR 0x9E, CHR 0x8B]),
            (CHR 0x91, Leaf [CHR 0xEA, CHR 0x9E, CHR 0x90]),
            (CHR 0x93, Leaf [CHR 0xEA, CHR 0x9E, CHR 0x92]),
            (CHR 0x94, Leaf [CHR 0xEA, CHR 0x9F, CHR 0x84]),
            (CHR 0x97, Leaf [CHR 0xEA, CHR 0x9E, CHR 0x96]),
            (CHR 0x99, Leaf [CHR 0xEA, CHR 0x9E, CHR 0x98]),
            (CHR 0x9B, Leaf [CHR 0xEA, CHR 0x9E, CHR 0x9A]),
            (CHR 0x9D, Leaf [CHR 0xEA, CHR 0x9E, CHR 0x9C]),
            (CHR 0x9F, Leaf [CHR 0xEA, CHR 0x9E, CHR 0x9E]),
            (CHR 0xA1, Leaf [CHR 0xEA, CHR 0x9E, CHR 0xA0]),
            (CHR 0xA3, Leaf [CHR 0xEA, CHR 0x9E, CHR 0xA2]),
            (CHR 0xA5, Leaf [CHR 0xEA, CHR 0x9E, CHR 0xA4]),
            (CHR 0xA7, Leaf [CHR 0xEA, CHR 0x9E, CHR 0xA6]),
            (CHR 0xA9, Leaf [CHR 0xEA, CHR 0x9E, CHR 0xA8]),
            (CHR 0xB5, Leaf [CHR 0xEA, CHR 0x9E, CHR 0xB4]),
            (CHR 0xB7, Leaf [CHR 0xEA, CHR 0x9E, CHR 0xB6]),
            (CHR 0xB9, Leaf [CHR 0xEA, CHR 0x9E, CHR 0xB8]),
            (CHR 0xBB, Leaf [CHR 0xEA, CHR 0x9E, CHR 0xBA]),
            (CHR 0xBD, Leaf [CHR 0xEA, CHR 0x9E, CHR 0xBC]),
            (CHR 0xBF, Leaf [CHR 0xEA, CHR 0x9E, CHR 0xBE])]),
        (CHR 0x9F, Node
          [(CHR 0x81, Leaf [CHR 0xEA, CHR 0x9F, CHR 0x80]),
            (CHR 0x83, Leaf [CHR 0xEA, CHR 0x9F, CHR 0x82]),
            (CHR 0x88, Leaf [CHR 0xEA, CHR 0x9F, CHR 0x87]),
            (CHR 0x8A, Leaf [CHR 0xEA, CHR 0x9F, CHR 0x89]),
            (CHR 0x91, Leaf [CHR 0xEA, CHR 0x9F, CHR 0x90]),
            (CHR 0x97, Leaf [CHR 0xEA, CHR 0x9F, CHR 0x96]),
            (CHR 0x99, Leaf [CHR 0xEA, CHR 0x9F, CHR 0x98]),
            (CHR 0xB6, Leaf [CHR 0xEA, CHR 0x9F, CHR 0xB5])]),
        (CHR 0xAD, Node
          [(CHR 0x93, Leaf [CHR 0xEA, CHR 0x9E, CHR 0xB3]),
            (CHR 0xB0, Leaf [CHR 0xE1, CHR 0x8E, CHR 0xA0]),
            (CHR 0xB1, Leaf [CHR 0xE1, CHR 0x8E, CHR 0xA1]),
            (CHR 0xB2, Leaf [CHR 0xE1, CHR 0x8E, CHR 0xA2]),
            (CHR 0xB3, Leaf [CHR 0xE1, CHR 0x8E, CHR 0xA3]),
            (CHR 0xB4, Leaf [CHR 0xE1, CHR 0x8E, CHR 0xA4]),
            (CHR 0xB5, Leaf [CHR 0xE1, CHR 0x8E, CHR 0xA5]),
            (CHR 0xB6, Leaf [CHR 0xE1, CHR 0x8E, CHR 0xA6]),
            (CHR 0xB7, Leaf [CHR 0xE1, CHR 0x8E, CHR 0xA7]),
            (CHR 0xB8, Leaf [CHR 0xE1, CHR 0x8E, CHR 0xA8]),
            (CHR 0xB9, Leaf [CHR 0xE1, CHR 0x8E, CHR 0xA9]),
            (CHR 0xBA, Leaf [CHR 0xE1, CHR 0x8E, CHR 0xAA]),
            (CHR 0xBB, Leaf [CHR 0xE1, CHR 0x8E, CHR 0xAB]),
            (CHR 0xBC, Leaf [CHR 0xE1, CHR 0x8E, CHR 0xAC]),
            (CHR 0xBD, Leaf [CHR 0xE1, CHR 0x8E, CHR 0xAD]),
            (CHR 0xBE, Leaf [CHR 0xE1, CHR 0x8E, CHR 0xAE]),
            (CHR 0xBF, Leaf [CHR 0xE1, CHR 0x8E, CHR 0xAF])]),
        (CHR 0xAE, Node
          [(CHR 0x80, Leaf [CHR 0xE1, CHR 0x8E, CHR 0xB0]),
            (CHR 0x81, Leaf [CHR 0xE1, CHR 0x8E, CHR 0xB1]),
            (CHR 0x82, Leaf [CHR 0xE1, CHR 0x8E, CHR 0xB2]),
            (CHR 0x83, Leaf [CHR 0xE1, CHR 0x8E, CHR 0xB3]),
            (CHR 0x84, Leaf [CHR 0xE1, CHR 0x8E, CHR 0xB4]),
            (CHR 0x85, Leaf [CHR 0xE1, CHR 0x8E, CHR 0xB5]),
            (CHR 0x86, Leaf [CHR 0xE1, CHR 0x8E, CHR 0xB6]),
            (CHR 0x87, Leaf [CHR 0xE1, CHR 0x8E, CHR 0xB7]),
            (CHR 0x88, Leaf [CHR 0xE1, CHR 0x8E, CHR 0xB8]),
            (CHR 0x89, Leaf [CHR 0xE1, CHR 0x8E, CHR 0xB9]),
            (CHR 0x8A, Leaf [CHR 0xE1, CHR 0x8E, CHR 0xBA]),
            (CHR 0x8B, Leaf [CHR 0xE1, CHR 0x8E, CHR 0xBB]),
            (CHR 0x8C, Leaf [CHR 0xE1, CHR 0x8E, CHR 0xBC]),
            (CHR 0x8D, Leaf [CHR 0xE1, CHR 0x8E, CHR 0xBD]),
            (CHR 0x8E, Leaf [CHR 0xE1, CHR 0x8E, CHR 0xBE]),
            (CHR 0x8F, Leaf [CHR 0xE1, CHR 0x8E, CHR 0xBF]),
            (CHR 0x90, Leaf [CHR 0xE1, CHR 0x8F, CHR 0x80]),
            (CHR 0x91, Leaf [CHR 0xE1, CHR 0x8F, CHR 0x81]),
            (CHR 0x92, Leaf [CHR 0xE1, CHR 0x8F, CHR 0x82]),
            (CHR 0x93, Leaf [CHR 0xE1, CHR 0x8F, CHR 0x83]),
            (CHR 0x94, Leaf [CHR 0xE1, CHR 0x8F, CHR 0x84]),
            (CHR 0x95, Leaf [CHR 0xE1, CHR 0x8F, CHR 0x85]),
            (CHR 0x96, Leaf [CHR 0xE1, CHR 0x8F, CHR 0x86]),
            (CHR 0x97, Leaf [CHR 0xE1, CHR 0x8F, CHR 0x87]),
            (CHR 0x98, Leaf [CHR 0xE1, CHR 0x8F, CHR 0x88]),
            (CHR 0x99, Leaf [CHR 0xE1, CHR 0x8F, CHR 0x89]),
            (CHR 0x9A, Leaf [CHR 0xE1, CHR 0x8F, CHR 0x8A]),
            (CHR 0x9B, Leaf [CHR 0xE1, CHR 0x8F, CHR 0x8B]),
            (CHR 0x9C, Leaf [CHR 0xE1, CHR 0x8F, CHR 0x8C]),
            (CHR 0x9D, Leaf [CHR 0xE1, CHR 0x8F, CHR 0x8D]),
            (CHR 0x9E, Leaf [CHR 0xE1, CHR 0x8F, CHR 0x8E]),
            (CHR 0x9F, Leaf [CHR 0xE1, CHR 0x8F, CHR 0x8F]),
            (CHR 0xA0, Leaf [CHR 0xE1, CHR 0x8F, CHR 0x90]),
            (CHR 0xA1, Leaf [CHR 0xE1, CHR 0x8F, CHR 0x91]),
            (CHR 0xA2, Leaf [CHR 0xE1, CHR 0x8F, CHR 0x92]),
            (CHR 0xA3, Leaf [CHR 0xE1, CHR 0x8F, CHR 0x93]),
            (CHR 0xA4, Leaf [CHR 0xE1, CHR 0x8F, CHR 0x94]),
            (CHR 0xA5, Leaf [CHR 0xE1, CHR 0x8F, CHR 0x95]),
            (CHR 0xA6, Leaf [CHR 0xE1, CHR 0x8F, CHR 0x96]),
            (CHR 0xA7, Leaf [CHR 0xE1, CHR 0x8F, CHR 0x97]),
            (CHR 0xA8, Leaf [CHR 0xE1, CHR 0x8F, CHR 0x98]),
            (CHR 0xA9, Leaf [CHR 0xE1, CHR 0x8F, CHR 0x99]),
            (CHR 0xAA, Leaf [CHR 0xE1, CHR 0x8F, CHR 0x9A]),
            (CHR 0xAB, Leaf [CHR 0xE1, CHR 0x8F, CHR 0x9B]),
            (CHR 0xAC, Leaf [CHR 0xE1, CHR 0x8F, CHR 0x9C]),
            (CHR 0xAD, Leaf [CHR 0xE1, CHR 0x8F, CHR 0x9D]),
            (CHR 0xAE, Leaf [CHR 0xE1, CHR 0x8F, CHR 0x9E]),
            (CHR 0xAF, Leaf [CHR 0xE1, CHR 0x8F, CHR 0x9F]),
            (CHR 0xB0, Leaf [CHR 0xE1, CHR 0x8F, CHR 0xA0]),
            (CHR 0xB1, Leaf [CHR 0xE1, CHR 0x8F, CHR 0xA1]),
            (CHR 0xB2, Leaf [CHR 0xE1, CHR 0x8F, CHR 0xA2]),
            (CHR 0xB3, Leaf [CHR 0xE1, CHR 0x8F, CHR 0xA3]),
            (CHR 0xB4, Leaf [CHR 0xE1, CHR 0x8F, CHR 0xA4]),
            (CHR 0xB5, Leaf [CHR 0xE1, CHR 0x8F, CHR 0xA5]),
            (CHR 0xB6, Leaf [CHR 0xE1, CHR 0x8F, CHR 0xA6]),
            (CHR 0xB7, Leaf [CHR 0xE1, CHR 0x8F, CHR 0xA7]),
            (CHR 0xB8, Leaf [CHR 0xE1, CHR 0x8F, CHR 0xA8]),
            (CHR 0xB9, Leaf [CHR 0xE1, CHR 0x8F, CHR 0xA9]),
            (CHR 0xBA, Leaf [CHR 0xE1, CHR 0x8F, CHR 0xAA]),
            (CHR 0xBB, Leaf [CHR 0xE1, CHR 0x8F, CHR 0xAB]),
            (CHR 0xBC, Leaf [CHR 0xE1, CHR 0x8F, CHR 0xAC]),
            (CHR 0xBD, Leaf [CHR 0xE1, CHR 0x8F, CHR 0xAD]),
            (CHR 0xBE, Leaf [CHR 0xE1, CHR 0x8F, CHR 0xAE]),
            (CHR 0xBF, Leaf [CHR 0xE1, CHR 0x8F, CHR 0xAF])])]),
    (CHR 0xEF, Node
      [(CHR 0xAC, Node
          [(CHR 0x80, Leaf ''FF''), (CHR 0x81, Leaf ''FI''), (CHR 0x82, Leaf ''FL''),
            (CHR 0x83, Leaf ''FFI''), (CHR 0x84, Leaf ''FFL''), (CHR 0x85, Leaf ''ST''),
            (CHR 0x86, Leaf ''ST''), (CHR 0x93, Leaf [CHR 0xD5, CHR 0x84, CHR 0xD5, CHR 0x86]),
            (CHR 0x94, Leaf [CHR 0xD5, CHR 0x84, CHR 0xD4, CHR 0xB5]),
            (CHR 0x95, Leaf [CHR 0xD5, CHR 0x84, CHR 0xD4, CHR 0xBB]),
            (CHR 0x96, Leaf [CHR 0xD5, CHR 0x8E, CHR 0xD5, CHR 0x86]),
            (CHR 0x97, Leaf [CHR 0xD5, CHR 0x84, CHR 0xD4, CHR 0xBD])]),
        (CHR 0xBD, Node
          [(CHR 0x81, Leaf [CHR 0xEF, CHR 0xBC, CHR 0xA1]),
            (CHR 0x82, Leaf [CHR 0xEF, CHR 0xBC, CHR 0xA2]),
            (CHR 0x83, Leaf [CHR 0xEF, CHR 0xBC, CHR 0xA3]),
            (CHR 0x84, Leaf [CHR 0xEF, CHR 0xBC, CHR 0xA4]),
            (CHR 0x85, Leaf [CHR 0xEF, CHR 0xBC, CHR 0xA5]),
            (CHR 0x86, Leaf [CHR 0xEF, CHR 0xBC, CHR 0xA6]),
            (CHR 0x87, Leaf [CHR 0xEF, CHR 0xBC, CHR 0xA7]),
            (CHR 0x88, Leaf [CHR 0xEF, CHR 0xBC, CHR 0xA8]),
            (CHR 0x89, Leaf [CHR 0xEF, CHR 0xBC, CHR 0xA9]),
            (CHR 0x8A, Leaf [CHR 0xEF, CHR 0xBC, CHR 0xAA]),
            (CHR 0x8B, Leaf [CHR 0xEF, CHR 0xBC, CHR 0xAB]),
            (CHR 0x8C, Leaf [CHR 0xEF, CHR 0xBC, CHR 0xAC]),
            (CHR 0x8D, Leaf [CHR 0xEF, CHR 0xBC, CHR 0xAD]),
            (CHR 0x8E, Leaf [CHR 0xEF, CHR 0xBC, CHR 0xAE]),
            (CHR 0x8F, Leaf [CHR 0xEF, CHR 0xBC, CHR 0xAF]),
            (CHR 0x90, Leaf [CHR 0xEF, CHR 0xBC, CHR 0xB0]),
            (CHR 0x91, Leaf [CHR 0xEF, CHR 0xBC, CHR 0xB1]),
            (CHR 0x92, Leaf [CHR 0xEF, CHR 0xBC, CHR 0xB2]),
            (CHR 0x93, Leaf [CHR 0xEF, CHR 0xBC, CHR 0xB3]),
            (CHR 0x94, Leaf [CHR 0xEF, CHR 0xBC, CHR 0xB4]),
            (CHR 0x95, Leaf [CHR 0xEF, CHR 0xBC, CHR 0xB5]),
            (CHR 0x96, Leaf [CHR 0xEF, CHR 0xBC, CHR 0xB6]),
            (CHR 0x97, Leaf [CHR 0xEF, CHR 0xBC, CHR 0xB7]),
            (CHR 0x98, Leaf [CHR 0xEF, CHR 0xBC, CHR 0xB8]),
            (CHR 0x99, Leaf [CHR 0xEF, CHR 0xBC, CHR 0xB9]),
            (CHR 0x9A, Leaf [CHR 0xEF, CHR 0xBC, CHR 0xBA])])]),
    (CHR 0xF0, Node
      [(CHR 0x90, Node
          [(CHR 0x90, Node
              [(CHR 0xA8, Leaf [CHR 0xF0, CHR 0x90, CHR 0x90, CHR 0x80]),
                (CHR 0xA9, Leaf [CHR 0xF0, CHR 0x90, CHR 0x90, CHR 0x81]),
                (CHR 0xAA, Leaf [CHR 0xF0, CHR 0x90, CHR 0x90, CHR 0x82]),
                (CHR 0xAB, Leaf [CHR 0xF0, CHR 0x90, CHR 0x90, CHR 0x83]),
                (CHR 0xAC, Leaf [CHR 0xF0, CHR 0x90, CHR 0x90, CHR 0x84]),
                (CHR 0xAD, Leaf [CHR 0xF0, CHR 0x90, CHR 0x90, CHR 0x85]),
                (CHR 0xAE, Leaf [CHR 0xF0, CHR 0x90, CHR 0x90, CHR 0x86]),
                (CHR 0xAF, Leaf [CHR 0xF0, CHR 0x90, CHR 0x90, CHR 0x87]),
                (CHR 0xB0, Leaf [CHR 0xF0, CHR 0x90, CHR 0x90, CHR 0x88]),
                (CHR 0xB1, Leaf [CHR 0xF0, CHR 0x90, CHR 0x90, CHR 0x89]),
                (CHR 0xB2, Leaf [CHR 0xF0, CHR 0x90, CHR 0x90, CHR 0x8A]),
                (CHR 0xB3, Leaf [CHR 0xF0, CHR 0x90, CHR 0x90, CHR 0x8B]),
                (CHR 0xB4, Leaf [CHR 0xF0, CHR 0x90, CHR 0x90, CHR 0x8C]),
                (CHR 0xB5, Leaf [CHR 0xF0, CHR 0x90, CHR 0x90, CHR 0x8D]),
                (CHR 0xB6, Leaf [CHR 0xF0, CHR 0x90, CHR 0x90, CHR 0x8E]),
                (CHR 0xB7, Leaf [CHR 0xF0, CHR 0x90, CHR 0x90, CHR 0x8F]),
                (CHR 0xB8, Leaf [CHR 0xF0, CHR 0x90, CHR 0x90, CHR 0x90]),
                (CHR 0xB9, Leaf [CHR 0xF0, CHR 0x90, CHR 0x90, CHR 0x91]),
                (CHR 0xBA, Leaf [CHR 0xF0, CHR 0x90, CHR 0x90, CHR 0x92]),
                (CHR 0xBB, Leaf [CHR 0xF0, CHR 0x90, CHR 0x90, CHR 0x93]),
                (CHR 0xBC, Leaf [CHR 0xF0, CHR 0x90, CHR 0x90, CHR 0x94]),
                (CHR 0xBD, Leaf [CHR 0xF0, CHR 0x90, CHR 0x90, CHR 0x95]),
                (CHR 0xBE, Leaf [CHR 0xF0, CHR 0x90, CHR 0x90, CHR 0x96]),
                (CHR 0xBF, Leaf [CHR 0xF0, CHR 0x90, CHR 0x90, CHR 0x97])]),
            (CHR 0x91, Node
              [(CHR 0x80, Leaf [CHR 0xF0, CHR 0x90, CHR 0x90, CHR 0x98]),
                (CHR 0x81, Leaf [CHR 0xF0, CHR 0x90, CHR 0x90, CHR 0x99]),
                (CHR 0x82, Leaf [CHR 0xF0, CHR 0x90, CHR 0x90, CHR 0x9A]),
                (CHR 0x83, Leaf [CHR 0xF0, CHR 0x90, CHR 0x90, CHR 0x9B]),
                (CHR 0x84, Leaf [CHR 0xF0, CHR 0x90, CHR 0x90, CHR 0x9C]),
                (CHR 0x85, Leaf [CHR 0xF0, CHR 0x90, CHR 0x90, CHR 0x9D]),
                (CHR 0x86, Leaf [CHR 0xF0, CHR 0x90, CHR 0x90, CHR 0x9E]),
                (CHR 0x87, Leaf [CHR 0xF0, CHR 0x90, CHR 0x90, CHR 0x9F]),
                (CHR 0x88, Leaf [CHR 0xF0, CHR 0x90, CHR 0x90, CHR 0xA0]),
                (CHR 0x89, Leaf [CHR 0xF0, CHR 0x90, CHR 0x90, CHR 0xA1]),
                (CHR 0x8A, Leaf [CHR 0xF0, CHR 0x90, CHR 0x90, CHR 0xA2]),
                (CHR 0x8B, Leaf [CHR 0xF0, CHR 0x90, CHR 0x90, CHR 0xA3]),
                (CHR 0x8C, Leaf [CHR 0xF0, CHR 0x90, CHR 0x90, CHR 0xA4]),
                (CHR 0x8D, Leaf [CHR 0xF0, CHR 0x90, CHR 0x90, CHR 0xA5]),
                (CHR 0x8E, Leaf [CHR 0xF0, CHR 0x90, CHR 0x90, CHR 0xA6]),
                (CHR 0x8F, Leaf [CHR 0xF0, CHR 0x90, CHR 0x90, CHR 0xA7])]),
            (CHR 0x93, Node
              [(CHR 0x98, Leaf [CHR 0xF0, CHR 0x90, CHR 0x92, CHR 0xB0]),
                (CHR 0x99, Leaf [CHR 0xF0, CHR 0x90, CHR 0x92, CHR 0xB1]),
                (CHR 0x9A, Leaf [CHR 0xF0, CHR 0x90, CHR 0x92, CHR 0xB2]),
                (CHR 0x9B, Leaf [CHR 0xF0, CHR 0x90, CHR 0x92, CHR 0xB3]),
                (CHR 0x9C, Leaf [CHR 0xF0, CHR 0x90, CHR 0x92, CHR 0xB4]),
                (CHR 0x9D, Leaf [CHR 0xF0, CHR 0x90, CHR 0x92, CHR 0xB5]),
                (CHR 0x9E, Leaf [CHR 0xF0, CHR 0x90, CHR 0x92, CHR 0xB6]),
                (CHR 0x9F, Leaf [CHR 0xF0, CHR 0x90, CHR 0x92, CHR 0xB7]),
                (CHR 0xA0, Leaf [CHR 0xF0, CHR 0x90, CHR 0x92, CHR 0xB8]),
                (CHR 0xA1, Leaf [CHR 0xF0, CHR 0x90, CHR 0x92, CHR 0xB9]),
                (CHR 0xA2, Leaf [CHR 0xF0, CHR 0x90, CHR 0x92, CHR 0xBA]),
                (CHR 0xA3, Leaf [CHR 0xF0, CHR 0x90, CHR 0x92, CHR 0xBB]),
                (CHR 0xA4, Leaf [CHR 0xF0, CHR 0x90, CHR 0x92, CHR 0xBC]),
                (CHR 0xA5, Leaf [CHR 0xF0, CHR 0x90, CHR 0x92, CHR 0xBD]),
                (CHR 0xA6, Leaf [CHR 0xF0, CHR 0x90, CHR 0x92, CHR 0xBE]),
                (CHR 0xA7, Leaf [CHR 0xF0, CHR 0x90, CHR 0x92, CHR 0xBF]),
                (CHR 0xA8, Leaf [CHR 0xF0, CHR 0x90, CHR 0x93, CHR 0x80]),
                (CHR 0xA9, Leaf [CHR 0xF0, CHR 0x90, CHR 0x93, CHR 0x81]),
                (CHR 0xAA, Leaf [CHR 0xF0, CHR 0x90, CHR 0x93, CHR 0x82]),
                (CHR 0xAB, Leaf [CHR 0xF0, CHR 0x90, CHR 0x93, CHR 0x83]),
                (CHR 0xAC, Leaf [CHR 0xF0, CHR 0x90, CHR 0x93, CHR 0x84]),
                (CHR 0xAD, Leaf [CHR 0xF0, CHR 0x90, CHR 0x93, CHR 0x85]),
                (CHR 0xAE, Leaf [CHR 0xF0, CHR 0x90, CHR 0x93, CHR 0x86]),
                (CHR 0xAF, Leaf [CHR 0xF0, CHR 0x90, CHR 0x93, CHR 0x87]),
                (CHR 0xB0, Leaf [CHR 0xF0, CHR 0x90, CHR 0x93, CHR 0x88]),
                (CHR 0xB1, Leaf [CHR 0xF0, CHR 0x90, CHR 0x93, CHR 0x89]),
                (CHR 0xB2, Leaf [CHR 0xF0, CHR 0x90, CHR 0x93, CHR 0x8A]),
                (CHR 0xB3, Leaf [CHR 0xF0, CHR 0x90, CHR 0x93, CHR 0x8B]),
                (CHR 0xB4, Leaf [CHR 0xF0, CHR 0x90, CHR 0x93, CHR 0x8C]),
                (CHR 0xB5, Leaf [CHR 0xF0, CHR 0x90, CHR 0x93, CHR 0x8D]),
                (CHR 0xB6, Leaf [CHR 0xF0, CHR 0x90, CHR 0x93, CHR 0x8E]),
                (CHR 0xB7, Leaf [CHR 0xF0, CHR 0x90, CHR 0x93, CHR 0x8F]),
                (CHR 0xB8, Leaf [CHR 0xF0, CHR 0x90, CHR 0x93, CHR 0x90]),
                (CHR 0xB9, Leaf [CHR 0xF0, CHR 0x90, CHR 0x93, CHR 0x91]),
                (CHR 0xBA, Leaf [CHR 0xF0, CHR 0x90, CHR 0x93, CHR 0x92]),
                (CHR 0xBB, Leaf [CHR 0xF0, CHR 0x90, CHR 0x93, CHR 0x93])]),
            (CHR 0x96, Node
              [(CHR 0x97, Leaf [CHR 0xF0, CHR 0x90, CHR 0x95, CHR 0xB0]),
                (CHR 0x98, Leaf [CHR 0xF0, CHR 0x90, CHR 0x95, CHR 0xB1]),
                (CHR 0x99, Leaf [CHR 0xF0, CHR 0x90, CHR 0x95, CHR 0xB2]),
                (CHR 0x9A, Leaf [CHR 0xF0, CHR 0x90, CHR 0x95, CHR 0xB3]),
                (CHR 0x9B, Leaf [CHR 0xF0, CHR 0x90, CHR 0x95, CHR 0xB4]),
                (CHR 0x9C, Leaf [CHR 0xF0, CHR 0x90, CHR 0x95, CHR 0xB5]),
                (CHR 0x9D, Leaf [CHR 0xF0, CHR 0x90, CHR 0x95, CHR 0xB6]),
                (CHR 0x9E, Leaf [CHR 0xF0, CHR 0x90, CHR 0x95, CHR 0xB7]),
                (CHR 0x9F, Leaf [CHR 0xF0, CHR 0x90, CHR 0x95, CHR 0xB8]),
                (CHR 0xA0, Leaf [CHR 0xF0, CHR 0x90, CHR 0x95, CHR 0xB9]),
                (CHR 0xA1, Leaf [CHR 0xF0, CHR 0x90, CHR 0x95, CHR 0xBA]),
                (CHR 0xA3, Leaf [CHR 0xF0, CHR 0x90, CHR 0x95, CHR 0xBC]),
                (CHR 0xA4, Leaf [CHR 0xF0, CHR 0x90, CHR 0x95, CHR 0xBD]),
                (CHR 0xA5, Leaf [CHR 0xF0, CHR 0x90, CHR 0x95, CHR 0xBE]),
                (CHR 0xA6, Leaf [CHR 0xF0, CHR 0x90, CHR 0x95, CHR 0xBF]),
                (CHR 0xA7, Leaf [CHR 0xF0, CHR 0x90, CHR 0x96, CHR 0x80]),
                (CHR 0xA8, Leaf [CHR 0xF0, CHR 0x90, CHR 0x96, CHR 0x81]),
                (CHR 0xA9, Leaf [CHR 0xF0, CHR 0x90, CHR 0x96, CHR 0x82]),
                (CHR 0xAA, Leaf [CHR 0xF0, CHR 0x90, CHR 0x96, CHR 0x83]),
                (CHR 0xAB, Leaf [CHR 0xF0, CHR 0x90, CHR 0x96, CHR 0x84]),
                (CHR 0xAC, Leaf [CHR 0xF0, CHR 0x90, CHR 0x96, CHR 0x85]),
                (CHR 0xAD, Leaf [CHR 0xF0, CHR 0x90, CHR 0x96, CHR 0x86]),
                (CHR 0xAE, Leaf [CHR 0xF0, CHR 0x90, CHR 0x96, CHR 0x87]),
                (CHR 0xAF, Leaf [CHR 0xF0, CHR 0x90, CHR 0x96, CHR 0x88]),
                (CHR 0xB0, Leaf [CHR 0xF0, CHR 0x90, CHR 0x96, CHR 0x89]),
                (CHR 0xB1, Leaf [CHR 0xF0, CHR 0x90, CHR 0x96, CHR 0x8A]),
                (CHR 0xB3, Leaf [CHR 0xF0, CHR 0x90, CHR 0x96, CHR 0x8C]),
                (CHR 0xB4, Leaf [CHR 0xF0, CHR 0x90, CHR 0x96, CHR 0x8D]),
                (CHR 0xB5, Leaf [CHR 0xF0, CHR 0x90, CHR 0x96, CHR 0x8E]),
                (CHR 0xB6, Leaf [CHR 0xF0, CHR 0x90, CHR 0x96, CHR 0x8F]),
                (CHR 0xB7, Leaf [CHR 0xF0, CHR 0x90, CHR 0x96, CHR 0x90]),
                (CHR 0xB8, Leaf [CHR 0xF0, CHR 0x90, CHR 0x96, CHR 0x91]),
                (CHR 0xB9, Leaf [CHR 0xF0, CHR 0x90, CHR 0x96, CHR 0x92]),
                (CHR 0xBB, Leaf [CHR 0xF0, CHR 0x90, CHR 0x96, CHR 0x94]),
                (CHR 0xBC, Leaf [CHR 0xF0, CHR 0x90, CHR 0x96, CHR 0x95])]),
            (CHR 0xB3, Node
              [(CHR 0x80, Leaf [CHR 0xF0, CHR 0x90, CHR 0xB2, CHR 0x80]),
                (CHR 0x81, Leaf [CHR 0xF0, CHR 0x90, CHR 0xB2, CHR 0x81]),
                (CHR 0x82, Leaf [CHR 0xF0, CHR 0x90, CHR 0xB2, CHR 0x82]),
                (CHR 0x83, Leaf [CHR 0xF0, CHR 0x90, CHR 0xB2, CHR 0x83]),
                (CHR 0x84, Leaf [CHR 0xF0, CHR 0x90, CHR 0xB2, CHR 0x84]),
                (CHR 0x85, Leaf [CHR 0xF0, CHR 0x90, CHR 0xB2, CHR 0x85]),
                (CHR 0x86, Leaf [CHR 0xF0, CHR 0x90, CHR 0xB2, CHR 0x86]),
                (CHR 0x87, Leaf [CHR 0xF0, CHR 0x90, CHR 0xB2, CHR 0x87]),
                (CHR 0x88, Leaf [CHR 0xF0, CHR 0x90, CHR 0xB2, CHR 0x88]),
                (CHR 0x89, Leaf [CHR 0xF0, CHR 0x90, CHR 0xB2, CHR 0x89]),
                (CHR 0x8A, Leaf [CHR 0xF0, CHR 0x90, CHR 0xB2, CHR 0x8A]),
                (CHR 0x8B, Leaf [CHR 0xF0, CHR 0x90, CHR 0xB2, CHR 0x8B]),
                (CHR 0x8C, Leaf [CHR 0xF0, CHR 0x90, CHR 0xB2, CHR 0x8C]),
                (CHR 0x8D, Leaf [CHR 0xF0, CHR 0x90, CHR 0xB2, CHR 0x8D]),
                (CHR 0x8E, Leaf [CHR 0xF0, CHR 0x90, CHR 0xB2, CHR 0x8E]),
                (CHR 0x8F, Leaf [CHR 0xF0, CHR 0x90, CHR 0xB2, CHR 0x8F]),
                (CHR 0x90, Leaf [CHR 0xF0, CHR 0x90, CHR 0xB2, CHR 0x90]),
                (CHR 0x91, Leaf [CHR 0xF0, CHR 0x90, CHR 0xB2, CHR 0x91]),
                (CHR 0x92, Leaf [CHR 0xF0, CHR 0x90, CHR 0xB2, CHR 0x92]),
                (CHR 0x93, Leaf [CHR 0xF0, CHR 0x90, CHR 0xB2, CHR 0x93]),
                (CHR 0x94, Leaf [CHR 0xF0, CHR 0x90, CHR 0xB2, CHR 0x94]),
                (CHR 0x95, Leaf [CHR 0xF0, CHR 0x90, CHR 0xB2, CHR 0x95]),
                (CHR 0x96, Leaf [CHR 0xF0, CHR 0x90, CHR 0xB2, CHR 0x96]),
                (CHR 0x97, Leaf [CHR 0xF0, CHR 0x90, CHR 0xB2, CHR 0x97]),
                (CHR 0x98, Leaf [CHR 0xF0, CHR 0x90, CHR 0xB2, CHR 0x98]),
                (CHR 0x99, Leaf [CHR 0xF0, CHR 0x90, CHR 0xB2, CHR 0x99]),
                (CHR 0x9A, Leaf [CHR 0xF0, CHR 0x90, CHR 0xB2, CHR 0x9A]),
                (CHR 0x9B, Leaf [CHR 0xF0, CHR 0x90, CHR 0xB2, CHR 0x9B]),
                (CHR 0x9C, Leaf [CHR 0xF0, CHR 0x90, CHR 0xB2, CHR 0x9C]),
                (CHR 0x9D, Leaf [CHR 0xF0, CHR 0x90, CHR 0xB2, CHR 0x9D]),
                (CHR 0x9E, Leaf [CHR 0xF0, CHR 0x90, CHR 0xB2, CHR 0x9E]),
                (CHR 0x9F, Leaf [CHR 0xF0, CHR 0x90, CHR 0xB2, CHR 0x9F]),
                (CHR 0xA0, Leaf [CHR 0xF0, CHR 0x90, CHR 0xB2, CHR 0xA0]),
                (CHR 0xA1, Leaf [CHR 0xF0, CHR 0x90, CHR 0xB2, CHR 0xA1]),
                (CHR 0xA2, Leaf [CHR 0xF0, CHR 0x90, CHR 0xB2, CHR 0xA2]),
                (CHR 0xA3, Leaf [CHR 0xF0, CHR 0x90, CHR 0xB2, CHR 0xA3]),
                (CHR 0xA4, Leaf [CHR 0xF0, CHR 0x90, CHR 0xB2, CHR 0xA4]),
                (CHR 0xA5, Leaf [CHR 0xF0, CHR 0x90, CHR 0xB2, CHR 0xA5]),
                (CHR 0xA6, Leaf [CHR 0xF0, CHR 0x90, CHR 0xB2, CHR 0xA6]),
                (CHR 0xA7, Leaf [CHR 0xF0, CHR 0x90, CHR 0xB2, CHR 0xA7]),
                (CHR 0xA8, Leaf [CHR 0xF0, CHR 0x90, CHR 0xB2, CHR 0xA8]),
                (CHR 0xA9, Leaf [CHR 0xF0, CHR 0x90, CHR 0xB2, CHR 0xA9]),
                (CHR 0xAA, Leaf [CHR 0xF0, CHR 0x90, CHR 0xB2, CHR 0xAA]),
                (CHR 0xAB, Leaf [CHR 0xF0, CHR 0x90, CHR 0xB2, CHR 0xAB]),
                (CHR 0xAC, Leaf [CHR 0xF0, CHR 0x90, CHR 0xB2, CHR 0xAC]),
                (CHR 0xAD, Leaf [CHR 0xF0, CHR 0x90, CHR 0xB2, CHR 0xAD]),
                (CHR 0xAE, Leaf [CHR 0xF0, CHR 0x90, CHR 0xB2, CHR 0xAE]),
                (CHR 0xAF, Leaf [CHR 0xF0, CHR 0x90, CHR 0xB2, CHR 0xAF]),
                (CHR 0xB0, Leaf [CHR 0xF0, CHR 0x90, CHR 0xB2, CHR 0xB0]),
                (CHR 0xB1, Leaf [CHR 0xF0, CHR 0x90, CHR 0xB2, CHR 0xB1]),
                (CHR 0xB2, Leaf [CHR 0xF0, CHR 0x90, CHR 0xB2, CHR 0xB2])])]),
        (CHR 0x91, Node
          [(CHR 0xA3, Node
              [(CHR 0x80, Leaf [CHR 0xF0, CHR 0x91, CHR 0xA2, CHR 0xA0]),
                (CHR 0x81, Leaf [CHR 0xF0, CHR 0x91, CHR 0xA2, CHR 0xA1]),
                (CHR 0x82, Leaf [CHR 0xF0, CHR 0x91, CHR 0xA2, CHR 0xA2]),
                (CHR 0x83, Leaf [CHR 0xF0, CHR 0x91, CHR 0xA2, CHR 0xA3]),
                (CHR 0x84, Leaf [CHR 0xF0, CHR 0x91, CHR 0xA2, CHR 0xA4]),
                (CHR 0x85, Leaf [CHR 0xF0, CHR 0x91, CHR 0xA2, CHR 0xA5]),
                (CHR 0x86, Leaf [CHR 0xF0, CHR 0x91, CHR 0xA2, CHR 0xA6]),
                (CHR 0x87, Leaf [CHR 0xF0, CHR 0x91, CHR 0xA2, CHR 0xA7]),
                (CHR 0x88, Leaf [CHR 0xF0, CHR 0x91, CHR 0xA2, CHR 0xA8]),
                (CHR 0x89, Leaf [CHR 0xF0, CHR 0x91, CHR 0xA2, CHR 0xA9]),
                (CHR 0x8A, Leaf [CHR 0xF0, CHR 0x91, CHR 0xA2, CHR 0xAA]),
                (CHR 0x8B, Leaf [CHR 0xF0, CHR 0x91, CHR 0xA2, CHR 0xAB]),
                (CHR 0x8C, Leaf [CHR 0xF0, CHR 0x91, CHR 0xA2, CHR 0xAC]),
                (CHR 0x8D, Leaf [CHR 0xF0, CHR 0x91, CHR 0xA2, CHR 0xAD]),
                (CHR 0x8E, Leaf [CHR 0xF0, CHR 0x91, CHR 0xA2, CHR 0xAE]),
                (CHR 0x8F, Leaf [CHR 0xF0, CHR 0x91, CHR 0xA2, CHR 0xAF]),
                (CHR 0x90, Leaf [CHR 0xF0, CHR 0x91, CHR 0xA2, CHR 0xB0]),
                (CHR 0x91, Leaf [CHR 0xF0, CHR 0x91, CHR 0xA2, CHR 0xB1]),
                (CHR 0x92, Leaf [CHR 0xF0, CHR 0x91, CHR 0xA2, CHR 0xB2]),
                (CHR 0x93, Leaf [CHR 0xF0, CHR 0x91, CHR 0xA2, CHR 0xB3]),
                (CHR 0x94, Leaf [CHR 0xF0, CHR 0x91, CHR 0xA2, CHR 0xB4]),
                (CHR 0x95, Leaf [CHR 0xF0, CHR 0x91, CHR 0xA2, CHR 0xB5]),
                (CHR 0x96, Leaf [CHR 0xF0, CHR 0x91, CHR 0xA2, CHR 0xB6]),
                (CHR 0x97, Leaf [CHR 0xF0, CHR 0x91, CHR 0xA2, CHR 0xB7]),
                (CHR 0x98, Leaf [CHR 0xF0, CHR 0x91, CHR 0xA2, CHR 0xB8]),
                (CHR 0x99, Leaf [CHR 0xF0, CHR 0x91, CHR 0xA2, CHR 0xB9]),
                (CHR 0x9A, Leaf [CHR 0xF0, CHR 0x91, CHR 0xA2, CHR 0xBA]),
                (CHR 0x9B, Leaf [CHR 0xF0, CHR 0x91, CHR 0xA2, CHR 0xBB]),
                (CHR 0x9C, Leaf [CHR 0xF0, CHR 0x91, CHR 0xA2, CHR 0xBC]),
                (CHR 0x9D, Leaf [CHR 0xF0, CHR 0x91, CHR 0xA2, CHR 0xBD]),
                (CHR 0x9E, Leaf [CHR 0xF0, CHR 0x91, CHR 0xA2, CHR 0xBE]),
                (CHR 0x9F, Leaf [CHR 0xF0, CHR 0x91, CHR 0xA2, CHR 0xBF])])]),
        (CHR 0x96, Node
          [(CHR 0xB9, Node
              [(CHR 0xA0, Leaf [CHR 0xF0, CHR 0x96, CHR 0xB9, CHR 0x80]),
                (CHR 0xA1, Leaf [CHR 0xF0, CHR 0x96, CHR 0xB9, CHR 0x81]),
                (CHR 0xA2, Leaf [CHR 0xF0, CHR 0x96, CHR 0xB9, CHR 0x82]),
                (CHR 0xA3, Leaf [CHR 0xF0, CHR 0x96, CHR 0xB9, CHR 0x83]),
                (CHR 0xA4, Leaf [CHR 0xF0, CHR 0x96, CHR 0xB9, CHR 0x84]),
                (CHR 0xA5, Leaf [CHR 0xF0, CHR 0x96, CHR 0xB9, CHR 0x85]),
                (CHR 0xA6, Leaf [CHR 0xF0, CHR 0x96, CHR 0xB9, CHR 0x86]),
                (CHR 0xA7, Leaf [CHR 0xF0, CHR 0x96, CHR 0xB9, CHR 0x87]),
                (CHR 0xA8, Leaf [CHR 0xF0, CHR 0x96, CHR 0xB9, CHR 0x88]),
                (CHR 0xA9, Leaf [CHR 0xF0, CHR 0x96, CHR 0xB9, CHR 0x89]),
                (CHR 0xAA, Leaf [CHR 0xF0, CHR 0x96, CHR 0xB9, CHR 0x8A]),
                (CHR 0xAB, Leaf [CHR 0xF0, CHR 0x96, CHR 0xB9, CHR 0x8B]),
                (CHR 0xAC, Leaf [CHR 0xF0, CHR 0x96, CHR 0xB9, CHR 0x8C]),
                (CHR 0xAD, Leaf [CHR 0xF0, CHR 0x96, CHR 0xB9, CHR 0x8D]),
                (CHR 0xAE, Leaf [CHR 0xF0, CHR 0x96, CHR 0xB9, CHR 0x8E]),
                (CHR 0xAF, Leaf [CHR 0xF0, CHR 0x96, CHR 0xB9, CHR 0x8F]),
                (CHR 0xB0, Leaf [CHR 0xF0, CHR 0x96, CHR 0xB9, CHR 0x90]),
                (CHR 0xB1, Leaf [CHR 0xF0, CHR 0x96, CHR 0xB9, CHR 0x91]),
                (CHR 0xB2, Leaf [CHR 0xF0, CHR 0x96, CHR 0xB9, CHR 0x92]),
                (CHR 0xB3, Leaf [CHR 0xF0, CHR 0x96, CHR 0xB9, CHR 0x93]),
                (CHR 0xB4, Leaf [CHR 0xF0, CHR 0x96, CHR 0xB9, CHR 0x94]),
                (CHR 0xB5, Leaf [CHR 0xF0, CHR 0x96, CHR 0xB9, CHR 0x95]),
                (CHR 0xB6, Leaf [CHR 0xF0, CHR 0x96, CHR 0xB9, CHR 0x96]),
                (CHR 0xB7, Leaf [CHR 0xF0, CHR 0x96, CHR 0xB9, CHR 0x97]),
                (CHR 0xB8, Leaf [CHR 0xF0, CHR 0x96, CHR 0xB9, CHR 0x98]),
                (CHR 0xB9, Leaf [CHR 0xF0, CHR 0x96, CHR 0xB9, CHR 0x99]),
                (CHR 0xBA, Leaf [CHR 0xF0, CHR 0x96, CHR 0xB9, CHR 0x9A]),
                (CHR 0xBB, Leaf [CHR 0xF0, CHR 0x96, CHR 0xB9, CHR 0x9B]),
                (CHR 0xBC, Leaf [CHR 0xF0, CHR 0x96, CHR 0xB9, CHR 0x9C]),
                (CHR 0xBD, Leaf [CHR 0xF0, CHR 0x96, CHR 0xB9, CHR 0x9D]),
                (CHR 0xBE, Leaf [CHR 0xF0, CHR 0x96, CHR 0xB9, CHR 0x9E]),
                (CHR 0xBF, Leaf [CHR 0xF0, CHR 0x96, CHR 0xB9, CHR 0x9F])])]),
        (CHR 0x9E, Node
          [(CHR 0xA4, Node
              [(CHR 0xA2, Leaf [CHR 0xF0, CHR 0x9E, CHR 0xA4, CHR 0x80]),
                (CHR 0xA3, Leaf [CHR 0xF0, CHR 0x9E, CHR 0xA4, CHR 0x81]),
                (CHR 0xA4, Leaf [CHR 0xF0, CHR 0x9E, CHR 0xA4, CHR 0x82]),
                (CHR 0xA5, Leaf [CHR 0xF0, CHR 0x9E, CHR 0xA4, CHR 0x83]),
                (CHR 0xA6, Leaf [CHR 0xF0, CHR 0x9E, CHR 0xA4, CHR 0x84]),
                (CHR 0xA7, Leaf [CHR 0xF0, CHR 0x9E, CHR 0xA4, CHR 0x85]),
                (CHR 0xA8, Leaf [CHR 0xF0, CHR 0x9E, CHR 0xA4, CHR 0x86]),
                (CHR 0xA9, Leaf [CHR 0xF0, CHR 0x9E, CHR 0xA4, CHR 0x87]),
                (CHR 0xAA, Leaf [CHR 0xF0, CHR 0x9E, CHR 0xA4, CHR 0x88]),
                (CHR 0xAB, Leaf [CHR 0xF0, CHR 0x9E, CHR 0xA4, CHR 0x89]),
                (CHR 0xAC, Leaf [CHR 0xF0, CHR 0x9E, CHR 0xA4, CHR 0x8A]),
                (CHR 0xAD, Leaf [CHR 0xF0, CHR 0x9E, CHR 0xA4, CHR 0x8B]),
                (CHR 0xAE, Leaf [CHR 0xF0, CHR 0x9E, CHR 0xA4, CHR 0x8C]),
                (CHR 0xAF, Leaf [CHR 0xF0, CHR 0x9E, CHR 0xA4, CHR 0x8D]),
                (CHR 0xB0, Leaf [CHR 0xF0, CHR 0x9E, CHR 0xA4, CHR 0x8E]),
                (CHR 0xB1, Leaf [CHR 0xF0, CHR 0x9E, CHR 0xA4, CHR 0x8F]),
                (CHR 0xB2, Leaf [CHR 0xF0, CHR 0x9E, CHR 0xA4, CHR 0x90]),
                (CHR 0xB3, Leaf [CHR 0xF0, CHR 0x9E, CHR 0xA4, CHR 0x91]),
                (CHR 0xB4, Leaf [CHR 0xF0, CHR 0x9E, CHR 0xA4, CHR 0x92]),
                (CHR 0xB5, Leaf [CHR 0xF0, CHR 0x9E, CHR 0xA4, CHR 0x93]),
                (CHR 0xB6, Leaf [CHR 0xF0, CHR 0x9E, CHR 0xA4, CHR 0x94]),
                (CHR 0xB7, Leaf [CHR 0xF0, CHR 0x9E, CHR 0xA4, CHR 0x95]),
                (CHR 0xB8, Leaf [CHR 0xF0, CHR 0x9E, CHR 0xA4, CHR 0x96]),
                (CHR 0xB9, Leaf [CHR 0xF0, CHR 0x9E, CHR 0xA4, CHR 0x97]),
                (CHR 0xBA, Leaf [CHR 0xF0, CHR 0x9E, CHR 0xA4, CHR 0x98]),
                (CHR 0xBB, Leaf [CHR 0xF0, CHR 0x9E, CHR 0xA4, CHR 0x99]),
                (CHR 0xBC, Leaf [CHR 0xF0, CHR 0x9E, CHR 0xA4, CHR 0x9A]),
                (CHR 0xBD, Leaf [CHR 0xF0, CHR 0x9E, CHR 0xA4, CHR 0x9B]),
                (CHR 0xBE, Leaf [CHR 0xF0, CHR 0x9E, CHR 0xA4, CHR 0x9C]),
                (CHR 0xBF, Leaf [CHR 0xF0, CHR 0x9E, CHR 0xA4, CHR 0x9D])]),
            (CHR 0xA5, Node
              [(CHR 0x80, Leaf [CHR 0xF0, CHR 0x9E, CHR 0xA4, CHR 0x9E]),
                (CHR 0x81, Leaf [CHR 0xF0, CHR 0x9E, CHR 0xA4, CHR 0x9F]),
                (CHR 0x82, Leaf [CHR 0xF0, CHR 0x9E, CHR 0xA4, CHR 0xA0]),
                (CHR 0x83, Leaf [CHR 0xF0, CHR 0x9E, CHR 0xA4, CHR 0xA1])])])])]"

fun trie_find :: "trie \<Rightarrow> string \<Rightarrow> nat \<Rightarrow> (string \<times> nat) option" where
  "trie_find (Leaf dst) s k = Some (dst, k)"
| "trie_find (Node kids) [] k = None"
| "trie_find (Node kids) (c # cs) k =
     (case map_of kids c of None \<Rightarrow> None | Some t \<Rightarrow> trie_find t cs (Suc k))"

fun py_upper :: "string \<Rightarrow> string" where
  "py_upper [] = []"
| "py_upper (c # cs) =
     (if (of_char c :: nat) < 0x80 then upper_char c # py_upper cs
      else (case trie_find (Node upper_trie) (c # cs) 0 of
              Some (dst, k) \<Rightarrow> dst @ py_upper (drop (k - 1) cs)
            | None \<Rightarrow> c # py_upper cs))"

definition py_lower :: "string \<Rightarrow> string" where
  "py_lower s = map lower_char s"

text \<open>\<open>sub in s\<close>: \<open>sub\<close> occurs in \<open>s\<close> as a contiguous run.\<close>

definition py_in :: "string \<Rightarrow> string \<Rightarrow> bool" where
  "py_in sub s = sublist sub s"

text \<open>
  \<open>s.split(sep)\<close> scans \<open>s\<close> from the left and cuts at every occurrence of \<open>sep\<close> that
  does not overlap the previous one. \<open>cur\<close> is the segment read so far. (The only
  separator of the program is the literal \<open>"STEP"\<close>; Python's \<open>ValueError\<close> for an empty
  separator cannot arise.)
\<close>

function split_from :: "string \<Rightarrow> string \<Rightarrow> string \<Rightarrow> string list" where
  "split_from sep cur [] = [cur]"
| "split_from sep cur (c # cs) =
     (if sep \<noteq> [] \<and> prefix sep (c # cs)
      then cur # split_from sep [] (drop (length sep) (c # cs))
      else split_from sep (cur @ [c]) cs)"
  by pat_completeness auto
termination
  by (relation "measure (\<lambda>(sep, cur, s). length s)") auto

definition py_split :: "string \<Rightarrow> string \<Rightarrow> string list" where
  "py_split s sep = split_from sep [] s"

text \<open>
  \<open>s.strip()\<close> removes the leading and the trailing whitespace characters. The 29
  characters for which \<open>str.isspace\<close> holds are \<open>U+0009\<close> to \<open>U+000D\<close>, \<open>U+001C\<close> to \<open>U+0020\<close>,
  \<open>U+0085\<close>, \<open>U+00A0\<close>, \<open>U+1680\<close>, \<open>U+2000\<close> to \<open>U+200A\<close>, \<open>U+2028\<close>, \<open>U+2029\<close>, \<open>U+202F\<close>,
  \<open>U+205F\<close> and \<open>U+3000\<close>; \<open>space_encodings\<close> lists their encodings.
\<close>

definition space_encodings :: "string list" where
  "space_encodings =
     [[CHR 0x09], [CHR 0x0A], [CHR 0x0B], [CHR 0x0C], [CHR 0x0D], [CHR 0x1C], [CHR 0x1D],
      [CHR 0x1E], [CHR 0x1F], '' '', [CHR 0xC2, CHR 0x85], [CHR 0xC2, CHR 0xA0],
      [CHR 0xE1, CHR 0x9A, CHR 0x80], [CHR 0xE2, CHR 0x80, CHR 0x80],
      [CHR 0xE2, CHR 0x80, CHR 0x81], [CHR 0xE2, CHR 0x80, CHR 0x82],
      [CHR 0xE2, CHR 0x80, CHR 0x83], [CHR 0xE2, CHR 0x80, CHR 0x84],
      [CHR 0xE2, CHR 0x80, CHR 0x85], [CHR 0xE2, CHR 0x80, CHR 0x86],
      [CHR 0xE2, CHR 0x80, CHR 0x87], [CHR 0xE2, CHR 0x80, CHR 0x88],
      [CHR 0xE2, CHR 0x80, CHR 0x89], [CHR 0xE2, CHR 0x80, CHR 0x8A],
      [CHR 0xE2, CHR 0x80, CHR 0xA8], [CHR 0xE2, CHR 0x80, CHR 0xA9],
      [CHR 0xE2, CHR 0x80, CHR 0xAF], [CHR 0xE2, CHR 0x81, CHR 0x9F],
      [CHR 0xE3, CHR 0x80, CHR 0x80]]"

fun strip_prefixes :: "string list \<Rightarrow> string \<Rightarrow> string" where
  "strip_prefixes ws [] = []"
| "strip_prefixes ws (c # cs) =
     (case find (\<lambda>w. prefix w (c # cs)) ws of
        None \<Rightarrow> c # cs
      | Some w \<Rightarrow> strip_prefixes ws (drop (length w - 1) cs))"

definition py_strip :: "string \<Rightarrow> string" where
  "py_strip s =
     rev (strip_prefixes (map rev space_encodings) (rev (strip_prefixes space_encodings s)))"

text \<open>\<open>str(n)\<close> for an integer: decimal digits, with a leading minus sign when negative.\<close>

definition digit_char :: "int \<Rightarrow> char" where
  "digit_char d = ''0123456789'' ! nat d"

function str_digits :: "int \<Rightarrow> string" where
  "str_digits n = (if n < 10 then [digit_char n] else str_digits (n div 10) @ [digit_char (n mod 10)])"
  by pat_completeness auto
termination
  by (relation "measure nat") auto

definition str_int :: "int \<Rightarrow> string" where
  "str_int i = (if i < 0 then CHR ''-'' # str_digits (- i) else str_digits i)"

text \<open>\<open>d.get(key, default)\<close> on a dictionary.\<close>

definition dict_get :: "('k \<rightharpoonup> 'v) \<Rightarrow> 'k \<Rightarrow> 'v \<Rightarrow> 'v" where
  "dict_get d k dflt = (case d k of None \<Rightarrow> dflt | Some v \<Rightarrow> v)"

subsection \<open>Floats\<close>

text \<open>
  A Python \<open>float\<close> is an IEEE 754 binary64 number: a finite value (a rational of the
  form \<open>m * 2^e\<close> with \<open>|m| \<le> 2^53\<close> and \<open>-1074 \<le> e \<le> 971\<close>), an infinity or a NaN.
  The sign of zero is not tracked: \<open>-0.0 == 0.0\<close> in every comparison the program makes.
\<close>

datatype double = Fin rat | PInf | NInf | NaN

text \<open>Round half to even, to an integer.\<close>

definition round_half_even :: "rat \<Rightarrow> int" where
  "round_half_even x =
     (let f = \<lfloor>x\<rfloor>; d = x - of_int f in
      if d < 1 / 2 then f else if 1 / 2 < d then f + 1 else if even f then f else f + 1)"

text \<open>
  Rounding a non-negative rational to the binary64 grid (round to nearest, ties to even):
  in units of \<open>2^-1074\<close> the value is \<open>a\<close>; below \<open>2^53\<close> units the grid is the integers
  (subnormal numbers and the first normal binade), above it the spacing is \<open>2^s\<close> where
  \<open>s\<close> is the bit length of \<open>a\<close> minus 53.
\<close>

definition round_mag :: "rat \<Rightarrow> rat" where
  "round_mag x =
     (let a = x * 2 ^ 1074; s = nat (bitlen \<lfloor>a\<rfloor> - 53)
      in of_int (round_half_even (a / 2 ^ s)) * 2 ^ s / 2 ^ 1074)"

text \<open>The result of an arithmetic operation whose exact value is \<open>x\<close>; it overflows to
  an infinity when the rounded magnitude reaches \<open>2^1024\<close>.\<close>

definition round_to_double :: "rat \<Rightarrow> double" where
  "round_to_double x =
     (let r = round_mag \<bar>x\<bar> in
      if 2 ^ 1024 \<le> r then (if 0 < x then PInf else NInf)
      else Fin (if 0 \<le> x then r else - r))"

text \<open>The rationals that are binary64 values.\<close>

definition is_double :: "rat \<Rightarrow> bool" where
  "is_double x = (round_to_double x = Fin x)"

fun valid_double :: "double \<Rightarrow> bool" where
  "valid_double (Fin x) = is_double x"
| "valid_double _ = True"

text \<open>A decimal literal of the source text, such as \<open>0.0035\<close>.\<close>

definition float_lit :: "rat \<Rightarrow> double" where
  "float_lit x = round_to_double x"

datatype py_error = ZeroDivisionError

fun fmul :: "double \<Rightarrow> double \<Rightarrow> double" where
  "fmul NaN _ = NaN"
| "fmul _ NaN = NaN"
| "fmul (Fin a) (Fin b) = round_to_double (a * b)"
| "fmul (Fin a) PInf = (if a = 0 then NaN else if 0 < a then PInf else NInf)"
| "fmul (Fin a) NInf = (if a = 0 then NaN else if 0 < a then NInf else PInf)"
| "fmul PInf (Fin b) = (if b = 0 then NaN else if 0 < b then PInf else NInf)"
| "fmul NInf (Fin b) = (if b = 0 then NaN else if 0 < b then NInf else PInf)"
| "fmul PInf PInf = PInf"
| "fmul PInf NInf = NInf"
| "fmul NInf PInf = NInf"
| "fmul NInf NInf = PInf"

fun fadd :: "double \<Rightarrow> double \<Rightarrow> double" where
  "fadd NaN _ = NaN"
| "fadd _ NaN = NaN"
| "fadd (Fin a) (Fin b) = round_to_double (a + b)"
| "fadd PInf NInf = NaN"
| "fadd NInf PInf = NaN"
| "fadd PInf _ = PInf"
| "fadd NInf _ = NInf"
| "fadd (Fin a) PInf = PInf"
| "fadd (Fin a) NInf = NInf"

text \<open>\<open>a / b\<close> raises \<open>ZeroDivisionError\<close> when \<open>b\<close> is zero, whatever \<open>a\<close> is.\<close>

fun fdiv :: "double \<Rightarrow> double \<Rightarrow> py_error + double" where
  "fdiv a (Fin b) =
     (if b = 0 then Inl ZeroDivisionError
      else Inr (case a of
              Fin a' \<Rightarrow> round_to_double (a' / b)
            | PInf \<Rightarrow> (if 0 < b then PInf else NInf)
            | NInf \<Rightarrow> (if 0 < b then NInf else PInf)
            | NaN \<Rightarrow> NaN))"
| "fdiv a NaN = Inr NaN"
| "fdiv (Fin a) PInf = Inr (Fin 0)"
| "fdiv (Fin a) NInf = Inr (Fin 0)"
| "fdiv a PInf = Inr NaN"
| "fdiv a NInf = Inr NaN"

text \<open>The comparisons \<open>x == y\<close> and \<open>x <= y\<close>: false as soon as a NaN takes part.\<close>

fun feq :: "double \<Rightarrow> double \<Rightarrow> bool" where
  "feq NaN _ = False"
| "feq _ NaN = False"
| "feq x y = (x = y)"

fun fle :: "double \<Rightarrow> double \<Rightarrow> bool" where
  "fle NaN _ = False"
| "fle _ NaN = False"
| "fle NInf _ = True"
| "fle _ PInf = True"
| "fle (Fin a) (Fin b) = (a \<le> b)"
| "fle _ _ = False"

text \<open>
  \<open>round(x, ndigits)\<close> for \<open>0 \<le> ndigits\<close> (the program rounds to 3 places): CPython
  prints the exact value of \<open>x\<close> with \<open>ndigits\<close> decimals, correctly rounded (ties to
  even), and reads the decimal back as the nearest float; infinities and NaN round to
  themselves.
\<close>

fun py_round :: "double \<Rightarrow> nat \<Rightarrow> double" where
  "py_round (Fin x) ndigits =
     round_to_double (of_int (round_half_even (x * 10 ^ ndigits)) / 10 ^ ndigits)"
| "py_round x ndigits = x"

text \<open>\<open>int(t)\<close> of a finite float: truncation towards zero.\<close>

definition py_int :: "rat \<Rightarrow> int" where
  "py_int t = (if 0 \<le> t then \<lfloor>t\<rfloor> else \<lceil>t\<rceil>)"

section \<open>The program\<close>

subsection \<open>Configuration (lines 20-39)\<close>

definition SYMBOL :: string where
  "SYMBOL = ''SOLUSDT.P''"

definition LEVERAGE :: double where
  "LEVERAGE = Fin 3"

definition SLIPPAGE :: double where
  "SLIPPAGE = float_lit (35 / 10000)"

definition weight_map :: "(string \<times> double) list" where
  "weight_map =
     [(''Long 1'', float_lit (70 / 100)),
      (''Long 2'', float_lit (10 / 100)),
      (''Long 3'', float_lit (10 / 100)),
      (''Long 4'', float_lit (10 / 100)),
      (''Short 1'', float_lit (30 / 100)),
      (''Short 2'', float_lit (40 / 100)),
      (''Short 3'', float_lit (20 / 100)),
      (''Short 4'', float_lit (10 / 100))]"

subsection \<open>\<open>generate_signature\<close> (lines 52-55)\<close>

text \<open>
  \<open>params\<close> is a dictionary with string keys and values, given by its items in insertion
  order. \<open>sorted(params.items())\<close> sorts the (key, value) tuples lexicographically.
  HMAC-SHA256 (\<open>hmac.new(key, msg, hashlib.sha256).hexdigest()\<close>) is a parameter.
\<close>

definition join_amp :: "string list \<Rightarrow> string" where
  "join_amp xs = concat (case xs of [] \<Rightarrow> [] | y # ys \<Rightarrow> y # map (\<lambda>z. ''&'' @ z) ys)"

definition query_string :: "(string \<times> string) list \<Rightarrow> string" where
  "query_string params = join_amp (map (\<lambda>(k, v). k @ ''='' @ v) (sort params))"

definition generate_signature ::
  "(string \<Rightarrow> string \<Rightarrow> string) \<Rightarrow> string \<Rightarrow> (string \<times> string) list \<Rightarrow> string" where
  "generate_signature hmac_sha256_hex secret params = hmac_sha256_hex secret (query_string params)"

text \<open>\<open>params["sign"] = generate_signature(API_SECRET, params)\<close> (lines 66-67, 115): the
  assignment replaces the value of an existing key in place and appends a new key.\<close>

definition dict_set :: "('k \<times> 'v) list \<Rightarrow> 'k \<Rightarrow> 'v \<Rightarrow> ('k \<times> 'v) list" where
  "dict_set d k v =
     (if k \<in> fst ` set d then map (\<lambda>(k', v'). if k' = k then (k', v) else (k', v')) d
      else d @ [(k, v)])"

definition sign_params ::
  "(string \<Rightarrow> string \<Rightarrow> string) \<Rightarrow> string \<Rightarrow> (string \<times> string) list \<Rightarrow> (string \<times> string) list" where
  "sign_params hmac_sha256_hex secret params =
     dict_set params ''sign'' (generate_signature hmac_sha256_hex secret params)"

text \<open>The parameters of the two signed requests, before signing (lines 61-65 and
  106-114); \<open>qty\<close> is the text \<open>str(qty)\<close>.\<close>

definition wallet_balance_params :: "string \<Rightarrow> string \<Rightarrow> (string \<times> string) list" where
  "wallet_balance_params api_key timestamp =
     [(''apiKey'', api_key), (''timestamp'', timestamp), (''accountType'', ''UNIFIED'')]"

definition market_order_params ::
  "string \<Rightarrow> string \<Rightarrow> string \<Rightarrow> string \<Rightarrow> string \<Rightarrow> (string \<times> string) list" where
  "market_order_params api_key symbol side qty timestamp =
     [(''apiKey'', api_key), (''symbol'', symbol), (''side'', py_upper side),
      (''orderType'', ''Market''), (''qty'', qty), (''timestamp'', timestamp),
      (''timeInForce'', ''GoodTillCancel'')]"

subsection \<open>\<open>calculate_qty\<close> (lines 95-99)\<close>

definition calculate_qty :: "string \<Rightarrow> double \<Rightarrow> double \<Rightarrow> py_error + double" where
  "calculate_qty order_id balance price =
     (let weight = dict_get (map_of weight_map) order_id (Fin 0);
          usdt_amount = fmul (fmul balance weight) LEVERAGE
      in case fdiv usdt_amount (fmul price (fadd (Fin 1) SLIPPAGE)) of
           Inl e \<Rightarrow> Inl e
         | Inr adjusted_qty \<Rightarrow> Inr (py_round adjusted_qty 3))"

subsection \<open>\<open>webhook\<close> (lines 122-183)\<close>

text \<open>Lines 138-147: the order identifier, from the upper-cased signal or the
  \<open>order_id\<close> field.\<close>

definition resolve_order_id :: "string \<Rightarrow> string \<Rightarrow> string" where
  "resolve_order_id signal raw_order_id =
     (if py_in ''STEP'' signal then
        (let step_num = py_strip (last (py_split signal ''STEP'')) in
         if py_in ''LONG'' signal then ''Long '' @ step_num
         else if py_in ''SHORT'' signal then ''Short '' @ step_num
         else raw_order_id)
      else raw_order_id)"

text \<open>Line 153: the deduplication key, from the identifier and the clock reading.\<close>

definition candle_key :: "string \<Rightarrow> rat \<Rightarrow> string" where
  "candle_key order_id now = order_id @ ''_'' @ str_int (py_int now)"

text \<open>
  What the outside world answers during one request: the two clock readings (lines 153
  and 168), the results of \<open>get_wallet_balance()\<close> (0 on any failure) and
  \<open>get_current_price()\<close> (\<open>None\<close> on any failure), and the outcome of the order request:
  an exception, or a response with its status code, text and parsed JSON body (\<open>None\<close>
  when \<open>response.json()\<close> raises).
\<close>

datatype order_outcome = OrderRaised string | OrderResponded nat string "string option"

record env =
  clock_key :: rat
  wallet_balance :: double
  current_price :: "double option"
  order_result :: order_outcome
  clock_report :: rat

datatype notice =
    OrderDone string double string double double rat
  | OrderFailed string

datatype call =
    GetWalletBalance
  | GetCurrentPrice
  | CalculateQty string double double
  | PlaceMarketOrder string string double
  | SendTelegram notice

datatype body = ErrorBody string | StatusBody string | JsonBody string | Unhandled py_error

text \<open>
  The handler takes the parsed request body (\<open>None\<close> when \<open>get_json\<close> raises; a dictionary
  with string values otherwise) and the set \<open>executed_signals\<close>; it returns the response
  (status code and body), the set afterwards, and the calls it made, in order.
\<close>

definition webhook ::
  "env \<Rightarrow> (string \<rightharpoonup> string) option \<Rightarrow> string set \<Rightarrow> (nat \<times> body) \<times> string set \<times> call list" where
  "webhook e request executed_signals =
     (case request of
        None \<Rightarrow> ((400, ErrorBody ''Invalid JSON''), executed_signals, [])
      | Some data \<Rightarrow>
         (let signal = py_upper (dict_get data ''signal'' []);
              order_action = py_lower (dict_get data ''order_action'' []);
              raw_order_id = dict_get data ''order_id'' [];
              order_id = resolve_order_id signal raw_order_id
          in
          if order_action = [] \<or> order_id = [] then
            ((400, ErrorBody ''Invalid webhook data''), executed_signals, [])
          else if candle_key order_id (clock_key e) \<in> executed_signals then
            ((200, StatusBody (order_id @ '' skipped (duplicate second)'')), executed_signals, [])
          else
            (let executed = insert (candle_key order_id (clock_key e)) executed_signals;
                 side = (if order_action = ''buy'' then ''buy'' else ''sell'');
                 balance = wallet_balance e
             in
             if feq balance (Fin 0) then
               ((500, ErrorBody ''Insufficient balance or failed to fetch''), executed,
                [GetWalletBalance])
             else
               (case current_price e of
                  None \<Rightarrow> ((500, ErrorBody ''Price fetch failed''), executed,
                            [GetWalletBalance, GetCurrentPrice])
                | Some price \<Rightarrow>
                   if feq price (Fin 0) then
                     ((500, ErrorBody ''Price fetch failed''), executed,
                      [GetWalletBalance, GetCurrentPrice])
                   else
                     (case calculate_qty order_id balance price of
                        Inl err \<Rightarrow>
                          ((500, Unhandled err), executed,
                           [GetWalletBalance, GetCurrentPrice, CalculateQty order_id balance price])
                      | Inr qty \<Rightarrow>
                         (let calls = [GetWalletBalance, GetCurrentPrice,
                                       CalculateQty order_id balance price,
                                       PlaceMarketOrder side SYMBOL qty];
                              done = SendTelegram (OrderDone side qty SYMBOL
                                       (dict_get (map_of weight_map) order_id (Fin 0)) price
                                       (clock_report e))
                          in
                          case order_result e of
                            OrderRaised msg \<Rightarrow>
                              ((500, ErrorBody ''Order request failed''), executed,
                               calls @ [SendTelegram (OrderFailed msg)])
                          | OrderResponded code txt None \<Rightarrow>
                              ((500, ErrorBody ''Order request failed''), executed,
                               calls @ [done, SendTelegram (OrderFailed ''response.json()'')])
                          | OrderResponded code txt (Some js) \<Rightarrow>
                              ((200, JsonBody js), executed, calls @ [done])))))))"


text \<open>The identifier the handler resolves for a request body (lines 133-147).\<close>

definition request_order_id :: "(string \<rightharpoonup> string) \<Rightarrow> string" where
  "request_order_id data =
     resolve_order_id (py_upper (dict_get data ''signal'' [])) (dict_get data ''order_id'' [])"




text \<open>
  Requests handled at the same time. The server runs each request in a thread of its own
  and the program takes no lock, so between the test of line 154 and the insertion of
  line 156 of one request another request can run. A schedule is the order in which the
  threads take these two steps: \<open>Check i\<close> is thread \<open>i\<close> evaluating
  \<open>candle_key in executed_signals\<close>, \<open>Mark i\<close> is thread \<open>i\<close> reaching
  \<open>executed_signals.add(candle_key)\<close>, which it does only when its test was false.
  \<open>key i\<close> is the key of thread \<open>i\<close>; the state is the shared set and what each thread's
  test returned.
\<close>

datatype gate_step = Check nat | Mark nat

fun run_gate ::
  "(nat \<Rightarrow> string) \<Rightarrow> gate_step list \<Rightarrow> string set \<times> (nat \<rightharpoonup> bool) \<Rightarrow> string set \<times> (nat \<rightharpoonup> bool)" where
  "run_gate key [] st = st"
| "run_gate key (Check i # steps) (S, dup) = run_gate key steps (S, dup(i \<mapsto> key i \<in> S))"
| "run_gate key (Mark i # steps) (S, dup) =
     run_gate key steps (if dup i = Some False then insert (key i) S else S, dup)"

text \<open>The two steps of \<open>round_mag\<close>, named for the proofs: the spacing of the grid around
  \<open>a\<close> (in units of \<open>2^-1074\<close>) and the nearest grid point.\<close>

definition grid_shift :: "rat \<Rightarrow> nat" where
  "grid_shift a = nat (bitlen \<lfloor>a\<rfloor> - 53)"

definition grid_round :: "rat \<Rightarrow> rat" where
  "grid_round a = of_int (round_half_even (a / 2 ^ grid_shift a)) * 2 ^ grid_shift a"

text \<open>Python's \<open><=\<close> on two results of \<open>calculate_qty\<close>; false when either raised.\<close>

fun qty_le :: "py_error + double \<Rightarrow> py_error + double \<Rightarrow> bool" where
  "qty_le (Inr x) (Inr y) = fle x y"
| "qty_le _ _ = False"

text \<open>The largest finite float, \<open>sys.float_info.max\<close>.\<close>

definition DBL_MAX :: rat where
  "DBL_MAX = (2 ^ 53 - 1) * 2 ^ 971"

section \<open>Decimal strings and deduplication keys\<close>

declare py_upper.simps [simp del]

lemma digit_char_cases:
  assumes "0 \<le> d" "d < 10"
  shows "d = 0 \<or> d = 1 \<or> d = 2 \<or> d = 3 \<or> d = 4 \<or> d = 5 \<or> d = 6 \<or> d = 7 \<or> d = 8 \<or> d = (9::int)"
  using assms by arith

lemma digit_char_simps:
  "digit_char 0 = CHR ''0''" "digit_char 1 = CHR ''1''" "digit_char 2 = CHR ''2''"
  "digit_char 3 = CHR ''3''" "digit_char 4 = CHR ''4''" "digit_char 5 = CHR ''5''"
  "digit_char 6 = CHR ''6''" "digit_char 7 = CHR ''7''" "digit_char 8 = CHR ''8''"
  "digit_char 9 = CHR ''9''"
  by (simp_all add: digit_char_def)

lemma digit_char_inj:
  assumes "0 \<le> a" "a < 10" "0 \<le> b" "b < 10" "digit_char a = digit_char b"
  shows "a = b"
  using digit_char_cases [OF assms(1,2)] digit_char_cases [OF assms(3,4)] assms(5)
  by (elim disjE) (simp_all add: digit_char_simps)

lemma digit_char_in:
  assumes "0 \<le> d" "d < 10"
  shows "digit_char d \<in> set ''0123456789''"
  using digit_char_cases [OF assms] by (elim disjE) (simp_all add: digit_char_simps)

declare str_digits.simps [simp del]

lemma str_digits_set: "0 \<le> n \<Longrightarrow> set (str_digits n) \<subseteq> set ''0123456789''"
proof (induction n rule: str_digits.induct)
  case (1 n)
  show ?case
  proof (cases "n < 10")
    case True
    with 1 digit_char_in [of n] show ?thesis
      by (subst str_digits.simps) simp
  next
    case False
    then have a: "set (str_digits (n div 10)) \<subseteq> set ''0123456789''"
      using 1 by simp
    have b: "digit_char (n mod 10) \<in> set ''0123456789''"
      by (rule digit_char_in) simp_all
    show ?thesis
      using a b False by (subst str_digits.simps) simp
  qed
qed

lemma str_digits_length: "0 < length (str_digits n) \<and> (length (str_digits n) = 1 \<longleftrightarrow> n < 10)"
proof (induction n rule: str_digits.induct)
  case (1 n)
  show ?case
  proof (cases "n < 10")
    case True
    then show ?thesis by (subst (1 2) str_digits.simps) simp
  next
    case False
    with 1 have "0 < length (str_digits (n div 10))" by simp
    with False show ?thesis by (subst (1 2) str_digits.simps) simp
  qed
qed

lemma str_digits_inj: "0 \<le> n \<Longrightarrow> 0 \<le> m \<Longrightarrow> str_digits n = str_digits m \<Longrightarrow> n = m"
proof (induction n arbitrary: m rule: str_digits.induct)
  case (1 n)
  have len: "length (str_digits n) = length (str_digits m)" using 1 by simp
  show ?case
  proof (cases "n < 10")
    case True
    then have "m < 10" using len str_digits_length [of n] str_digits_length [of m] by simp
    moreover have "str_digits n = [digit_char n]" "str_digits m = [digit_char m]"
      using True \<open>m < 10\<close> by (simp_all add: str_digits.simps)
    ultimately show ?thesis
      using 1 True digit_char_inj [of n m] by simp
  next
    case False
    then have m: "\<not> m < 10" using len str_digits_length [of n] str_digits_length [of m] by simp
    have "str_digits n = str_digits (n div 10) @ [digit_char (n mod 10)]"
      and "str_digits m = str_digits (m div 10) @ [digit_char (m mod 10)]"
      using False m by (simp_all add: str_digits.simps [of n] str_digits.simps [of m])
    with 1 have eq: "str_digits (n div 10) = str_digits (m div 10)"
      and d: "digit_char (n mod 10) = digit_char (m mod 10)" by simp_all
    have "n div 10 = m div 10"
      using "1.IH" [OF False _ _ eq] "1.prems" by simp
    moreover have "n mod 10 = m mod 10"
      by (rule digit_char_inj [OF _ _ _ _ d]) simp_all
    ultimately show ?thesis
      by (metis div_mult_mod_eq)
  qed
qed

lemma str_int_inj: "str_int i = str_int j \<Longrightarrow> i = j"
proof -
  assume eq: "str_int i = str_int j"
  have no_minus: "\<And>n. 0 \<le> n \<Longrightarrow> hd (str_digits n) \<noteq> CHR ''-''"
  proof -
    fix n :: int
    assume "0 \<le> n"
    then have "set (str_digits n) \<subseteq> set ''0123456789''" by (rule str_digits_set)
    moreover have "str_digits n \<noteq> []" using str_digits_length [of n] by auto
    ultimately have "hd (str_digits n) \<in> set ''0123456789''" by (meson hd_in_set subsetD)
    then show "hd (str_digits n) \<noteq> CHR ''-''" by auto
  qed
  show ?thesis
  proof (cases "i < 0"; cases "j < 0")
    assume "i < 0" "j < 0"
    with eq have "str_digits (- i) = str_digits (- j)" by (simp add: str_int_def)
    then have "- i = - j" using \<open>i < 0\<close> \<open>j < 0\<close> by (intro str_digits_inj) simp_all
    then show ?thesis by simp
  next
    assume "i < 0" "\<not> j < 0"
    with eq have "str_digits j = CHR ''-'' # str_digits (- i)" by (simp add: str_int_def)
    then have "hd (str_digits j) = CHR ''-''" by simp
    with no_minus [of j] \<open>\<not> j < 0\<close> show ?thesis by simp
  next
    assume "\<not> i < 0" "j < 0"
    with eq have "str_digits i = CHR ''-'' # str_digits (- j)" by (simp add: str_int_def)
    then have "hd (str_digits i) = CHR ''-''" by simp
    with no_minus [of i] \<open>\<not> i < 0\<close> show ?thesis by simp
  next
    assume "\<not> i < 0" "\<not> j < 0"
    with eq show ?thesis by (auto simp: str_int_def intro: str_digits_inj)
  qed
qed

lemma str_int_no_underscore: "CHR ''_'' \<notin> set (str_int i)"
proof -
  have "\<And>n. 0 \<le> n \<Longrightarrow> CHR ''_'' \<notin> set (str_digits n)"
    using str_digits_set by fastforce
  then show ?thesis by (simp add: str_int_def)
qed

lemma append_sep_inj:
  assumes "a @ c # x = b @ c # y" "c \<notin> set x" "c \<notin> set y"
  shows "a = b \<and> x = y"
proof -
  have "takeWhile (\<lambda>z. z \<noteq> c) (rev (a @ c # x)) = rev x"
    using assms(2) by (auto simp: takeWhile_tail)
  moreover have "takeWhile (\<lambda>z. z \<noteq> c) (rev (b @ c # y)) = rev y"
    using assms(3) by (auto simp: takeWhile_tail)
  ultimately have "x = y" using assms(1) by (metis rev_is_rev_conv)
  with assms(1) show ?thesis by simp
qed

lemma candle_key_eq_iff:
  "candle_key a s = candle_key b t \<longleftrightarrow> a = b \<and> py_int s = py_int t"
proof
  assume "candle_key a s = candle_key b t"
  then have "a @ CHR ''_'' # str_int (py_int s) = b @ CHR ''_'' # str_int (py_int t)"
    by (simp add: candle_key_def)
  then have "a = b \<and> str_int (py_int s) = str_int (py_int t)"
    by (rule append_sep_inj) (rule str_int_no_underscore)+
  then show "a = b \<and> py_int s = py_int t" by (auto dest: str_int_inj)
next
  assume "a = b \<and> py_int s = py_int t"
  then show "candle_key a s = candle_key b t" by (simp add: candle_key_def)
qed

lemma str_digits_small: "n < 10 \<Longrightarrow> str_digits n = [digit_char n]"
  by (simp add: str_digits.simps)

lemma str_digits_big: "\<not> n < 10 \<Longrightarrow> str_digits n = str_digits (n div 10) @ [digit_char (n mod 10)]"
  by (subst str_digits.simps) simp

lemma floor_rat_numeral [simp]: "\<lfloor>numeral a / numeral b :: rat\<rfloor> = numeral a div numeral b"
  by (metis floor_divide_of_int_eq of_int_numeral)

lemmas str_int_eval = str_int_def str_digits_small str_digits_big digit_char_simps

lemma candle_key_example:
  "candle_key ''Short 2'' (6922584001 / 4) = ''Short 2_1730646000''"
  "candle_key ''Short 2'' (3461292001 / 2) = ''Short 2_1730646000''"
  by (simp_all add: candle_key_def py_int_def str_int_eval)

section \<open>The handler and the deduplication set\<close>

lemma py_int_of_int [simp]: "py_int (of_int n) = n"
  by (simp add: py_int_def)

lemma webhook_grows: "webhook e r S = (resp, S', cs) \<Longrightarrow> S \<subseteq> S'"
  by (auto simp: webhook_def Let_def split: option.splits if_splits sum.splits order_outcome.splits)


lemma webhook_marks:
  assumes "webhook e (Some data) S = (resp, S', cs)" "cs \<noteq> []"
  shows "candle_key (request_order_id data) (clock_key e) \<in> S'"
  using assms
  by (auto simp: webhook_def Let_def request_order_id_def
      split: option.splits if_splits sum.splits order_outcome.splits)



section \<open>Floating-point rounding\<close>

subsection \<open>Rounding to an integer\<close>

lemma round_half_even_bounds:
  "of_int (round_half_even x) - 1 / 2 \<le> x \<and> x \<le> of_int (round_half_even x) + 1 / 2"
proof -
  define d where "d = x - of_int \<lfloor>x\<rfloor>"
  have d: "0 \<le> d" "d < 1" "x = of_int \<lfloor>x\<rfloor> + d"
    unfolding d_def by linarith+
  have r: "round_half_even x =
      (if d < 1 / 2 then \<lfloor>x\<rfloor> else if 1 / 2 < d then \<lfloor>x\<rfloor> + 1
       else if even \<lfloor>x\<rfloor> then \<lfloor>x\<rfloor> else \<lfloor>x\<rfloor> + 1)"
    by (simp add: round_half_even_def Let_def d_def)
  consider "d < 1 / 2" | "1 / 2 < d" | "d = 1 / 2" by linarith
  then show ?thesis
  proof cases
    case 1
    with r have "round_half_even x = \<lfloor>x\<rfloor>" by simp
    with d 1 show ?thesis by linarith
  next
    case 2
    with r have "round_half_even x = \<lfloor>x\<rfloor> + 1" by simp
    with d 2 show ?thesis by simp
  next
    case 3
    with r have "round_half_even x = \<lfloor>x\<rfloor> \<or> round_half_even x = \<lfloor>x\<rfloor> + 1" by simp
    with d 3 show ?thesis by auto
  qed
qed

lemma round_half_even_unique:
  assumes "\<bar>x - of_int m\<bar> < 1 / 2"
  shows "round_half_even x = m"
proof -
  have "\<bar>(of_int (round_half_even x) :: rat) - of_int m\<bar> < 1"
    using round_half_even_bounds [of x] assms by linarith
  then have "\<bar>round_half_even x - m\<bar> < 1"
    by (metis of_int_1 of_int_abs of_int_diff of_int_less_iff)
  then show ?thesis by linarith
qed

lemma round_half_even_of_int [simp]: "round_half_even (of_int n) = n"
  by (rule round_half_even_unique) simp

lemma round_half_even_mono:
  assumes "x \<le> y"
  shows "round_half_even x \<le> round_half_even y"
proof (rule ccontr)
  assume "\<not> round_half_even x \<le> round_half_even y"
  then have lt: "round_half_even y + 1 \<le> round_half_even x" by simp
  then have "(of_int (round_half_even y) :: rat) + 1 \<le> of_int (round_half_even x)"
    by (metis of_int_1 of_int_add of_int_le_iff)
  with round_half_even_bounds [of x] round_half_even_bounds [of y] assms
  have x: "x = of_int (round_half_even x) - 1 / 2" and y: "y = of_int (round_half_even y) + 1 / 2"
    and s: "(of_int (round_half_even x) :: rat) = of_int (round_half_even y) + 1"
    by linarith+
  from s have s': "round_half_even x = round_half_even y + 1"
    by (metis of_int_1 of_int_add of_int_eq_iff)
  have xy: "x = y" using x y s by simp
  with s' show False by simp
qed

subsection \<open>Rounding to the binary64 grid\<close>

lemma bitlen_mono: "x \<le> y \<Longrightarrow> bitlen x \<le> bitlen y"
  using bitlen_le_iff_power [of y "bitlen y"] bitlen_le_iff_power [of x "bitlen y"] by auto

lemma grid_shift_mono: "a \<le> b \<Longrightarrow> grid_shift a \<le> grid_shift b"
  unfolding grid_shift_def using bitlen_mono [of "\<lfloor>a\<rfloor>" "\<lfloor>b\<rfloor>"] floor_mono [of a b] by linarith

lemma grid_shift_upper: "a < 2 ^ (53 + grid_shift a)"
proof -
  have "bitlen \<lfloor>a\<rfloor> \<le> int (53 + grid_shift a)"
    unfolding grid_shift_def by linarith
  then have "\<lfloor>a\<rfloor> < 2 ^ (53 + grid_shift a)"
    using bitlen_le_iff_power [of "\<lfloor>a\<rfloor>" "int (53 + grid_shift a)"] by (simp only: nat_int)
  then have "\<lfloor>a\<rfloor> + 1 \<le> 2 ^ (53 + grid_shift a)" by simp
  then have "(of_int (\<lfloor>a\<rfloor> + 1) :: rat) \<le> of_int (2 ^ (53 + grid_shift a))"
    by (simp only: of_int_le_iff)
  moreover have "a < of_int (\<lfloor>a\<rfloor> + 1)" by linarith
  ultimately show ?thesis by simp
qed

lemma grid_shift_lower:
  assumes "0 < grid_shift a"
  shows "2 ^ (52 + grid_shift a) \<le> a"
proof -
  have "int (53 + grid_shift a) \<le> bitlen \<lfloor>a\<rfloor>"
    using assms unfolding grid_shift_def by linarith
  then have "2 ^ (nat (int (53 + grid_shift a)) - 1) \<le> \<lfloor>a\<rfloor>"
    using bitlen_ge_iff_power [of "int (53 + grid_shift a)" "\<lfloor>a\<rfloor>"] by auto
  then have "2 ^ (52 + grid_shift a) \<le> \<lfloor>a\<rfloor>" by (simp only: nat_int) simp
  then have "(of_int (2 ^ (52 + grid_shift a)) :: rat) \<le> of_int \<lfloor>a\<rfloor>"
    by (simp only: of_int_le_iff)
  then have "(2::rat) ^ (52 + grid_shift a) \<le> of_int \<lfloor>a\<rfloor>" by simp
  also have "\<dots> \<le> a" by simp
  finally show ?thesis .
qed

lemma round_mag_grid: "round_mag x = grid_round (x * 2 ^ 1074) / 2 ^ 1074"
  by (simp add: round_mag_def grid_round_def grid_shift_def Let_def)

lemma grid_round_upper: "grid_round a \<le> 2 ^ (53 + grid_shift a)"
proof -
  have "a / 2 ^ grid_shift a \<le> 2 ^ 53"
    using grid_shift_upper [of a] by (simp add: divide_le_eq power_add)
  then have "round_half_even (a / 2 ^ grid_shift a) \<le> round_half_even (of_int (2 ^ 53))"
    by (intro round_half_even_mono) simp
  then have "round_half_even (a / 2 ^ grid_shift a) \<le> 2 ^ 53"
    by (simp only: round_half_even_of_int)
  then have "(of_int (round_half_even (a / 2 ^ grid_shift a)) :: rat) \<le> of_int (2 ^ 53)"
    by (simp only: of_int_le_iff)
  then have "grid_round a \<le> 2 ^ 53 * 2 ^ grid_shift a"
    unfolding grid_round_def by (intro mult_right_mono) simp_all
  then show ?thesis by (simp add: power_add)
qed

lemma grid_round_lower:
  assumes "0 < grid_shift a"
  shows "2 ^ (52 + grid_shift a) \<le> grid_round a"
proof -
  have "2 ^ 52 \<le> a / 2 ^ grid_shift a"
    using grid_shift_lower [OF assms] by (simp add: le_divide_eq power_add)
  then have "round_half_even (of_int (2 ^ 52)) \<le> round_half_even (a / 2 ^ grid_shift a)"
    by (intro round_half_even_mono) simp
  then have "2 ^ 52 \<le> round_half_even (a / 2 ^ grid_shift a)"
    by (simp only: round_half_even_of_int)
  then have "(of_int (2 ^ 52) :: rat) \<le> of_int (round_half_even (a / 2 ^ grid_shift a))"
    by (simp only: of_int_le_iff)
  then have "2 ^ 52 * 2 ^ grid_shift a \<le> grid_round a"
    unfolding grid_round_def by (intro mult_right_mono) simp_all
  then show ?thesis by (simp add: power_add)
qed

lemma grid_round_mono:
  assumes "a \<le> b"
  shows "grid_round a \<le> grid_round b"
proof (cases "grid_shift a = grid_shift b")
  case True
  have "a / 2 ^ grid_shift b \<le> b / 2 ^ grid_shift b"
    using assms by (simp add: divide_right_mono)
  then have "round_half_even (a / 2 ^ grid_shift b) \<le> round_half_even (b / 2 ^ grid_shift b)"
    by (rule round_half_even_mono)
  then have "(of_int (round_half_even (a / 2 ^ grid_shift b)) :: rat)
      \<le> of_int (round_half_even (b / 2 ^ grid_shift b))"
    by (simp only: of_int_le_iff)
  then show ?thesis
    unfolding grid_round_def True by (intro mult_right_mono) simp_all
next
  case False
  with grid_shift_mono [OF assms] have lt: "grid_shift a < grid_shift b" by simp
  have "grid_round a \<le> 2 ^ (53 + grid_shift a)" by (rule grid_round_upper)
  also have "\<dots> \<le> (2::rat) ^ (52 + grid_shift b)"
    using lt by (intro power_increasing) simp_all
  also have "\<dots> \<le> grid_round b"
    using lt by (intro grid_round_lower) simp
  finally show ?thesis .
qed

lemma round_mag_mono: "x \<le> y \<Longrightarrow> round_mag x \<le> round_mag y"
  unfolding round_mag_grid
  by (intro divide_right_mono grid_round_mono mult_right_mono) simp_all

lemma round_mag_0 [simp]: "round_mag 0 = 0"
  by (simp add: round_mag_def Let_def round_half_even_of_int [of 0, simplified])

lemma round_mag_nonneg: "0 \<le> x \<Longrightarrow> 0 \<le> round_mag x"
  using round_mag_mono [of 0 x] by simp


lemma grid_shift_eqI:
  assumes "2 ^ (52 + j) \<le> a" "a < 2 ^ (53 + j)"
  shows "grid_shift a = j"
proof -
  have "(of_int (2 ^ (52 + j)) :: rat) \<le> a" using assms(1) by simp
  then have lo: "2 ^ (52 + j) \<le> \<lfloor>a\<rfloor>" by (simp only: le_floor_iff)
  have "a < of_int (2 ^ (53 + j))" using assms(2) by simp
  then have hi: "\<lfloor>a\<rfloor> < 2 ^ (53 + j)" by (simp only: floor_less_iff)
  have "bitlen \<lfloor>a\<rfloor> \<le> int (53 + j)"
    using hi bitlen_le_iff_power [of "\<lfloor>a\<rfloor>" "int (53 + j)"] by (simp only: nat_int) simp
  moreover have "int (53 + j) \<le> bitlen \<lfloor>a\<rfloor>"
    using lo bitlen_ge_iff_power [of "int (53 + j)" "\<lfloor>a\<rfloor>"] by (simp only: nat_int) simp
  ultimately show ?thesis unfolding grid_shift_def by linarith
qed

lemma round_mag_eqI:
  assumes "2 ^ 52 \<le> x * 2 ^ k" "x * 2 ^ k < 2 ^ 53" "k \<le> 1074"
    and "\<bar>x * 2 ^ k - of_int m\<bar> < 1 / 2"
  shows "round_mag x = of_int m / 2 ^ k"
proof -
  define j where "j = 1074 - k"
  have k: "(2::rat) ^ 1074 = 2 ^ k * 2 ^ j"
    using assms(3) unfolding j_def by (simp flip: power_add)
  have a: "x * 2 ^ 1074 = (x * 2 ^ k) * 2 ^ j" by (simp only: k mult.assoc)
  have "2 ^ 52 * 2 ^ j \<le> (x * 2 ^ k) * (2::rat) ^ j"
    using assms(1) by (intro mult_right_mono) simp_all
  moreover have "(x * 2 ^ k) * (2::rat) ^ j < 2 ^ 53 * 2 ^ j"
    using assms(2) by (intro mult_strict_right_mono) simp_all
  ultimately have s: "grid_shift (x * 2 ^ 1074) = j"
    unfolding a by (intro grid_shift_eqI) (simp_all add: power_add)
  have "x * 2 ^ 1074 / 2 ^ j = x * 2 ^ k" unfolding a by simp
  then have g: "grid_round (x * 2 ^ 1074) = of_int m * 2 ^ j"
    unfolding grid_round_def s using round_half_even_unique [OF assms(4)] by (simp only:)
  have "of_int m * 2 ^ j / (2::rat) ^ 1074 = of_int m / 2 ^ k"
    unfolding k by simp
  then show ?thesis
    by (simp only: round_mag_grid g)
qed

lemma round_to_double_eqI:
  assumes "2 ^ 52 \<le> x * 2 ^ k" "x * 2 ^ k < 2 ^ 53" "k \<le> 1074"
    and "\<bar>x * 2 ^ k - of_int m\<bar> < 1 / 2"
  shows "round_to_double x = Fin (of_int m / 2 ^ k)"
proof -
  have "0 < x * 2 ^ k" using assms(1) by (rule less_le_trans [rotated]) simp
  then have x: "0 < x" by (simp add: zero_less_mult_iff)
  have r: "round_mag x = of_int m / 2 ^ k" using assms by (rule round_mag_eqI)
  have "of_int m < x * 2 ^ k + 1 / 2" using assms(4) by linarith
  also have "\<dots> < 2 ^ 53 + 1 / 2" using assms(2) by simp
  finally have "(of_int m :: rat) < 2 ^ 54" by simp
  moreover have "(2::rat) ^ 54 * 1 \<le> 2 ^ 54 * 2 ^ k"
    by (intro mult_left_mono) simp_all
  ultimately have "(of_int m :: rat) < 2 ^ 54 * 2 ^ k" by linarith
  then have "(of_int m :: rat) / 2 ^ k < 2 ^ 54"
    by (simp add: pos_divide_less_eq)
  also have "(2::rat) ^ 54 \<le> 2 ^ 1024" by (intro power_increasing) simp_all
  finally have "\<not> 2 ^ 1024 \<le> round_mag \<bar>x\<bar>" using x r by simp
  then show ?thesis using x r by (simp add: round_to_double_def Let_def)
qed

lemma round_to_double_0 [simp]: "round_to_double 0 = Fin 0"
  by (simp add: round_to_double_def)

lemma round_to_double_neg:
  assumes "round_to_double x = Fin r" "0 < x"
  shows "round_to_double (- x) = Fin (- r)"
  using assms by (auto simp: round_to_double_def Let_def split: if_splits)

lemma round_to_double_mono:
  assumes "x \<le> y"
  shows "fle (round_to_double x) (round_to_double y)"
proof -
  consider "0 \<le> x" | "x < 0" "0 \<le> y" | "y < 0" using assms by linarith
  then show ?thesis
  proof cases
    case 1
    then have "round_mag \<bar>x\<bar> \<le> round_mag \<bar>y\<bar>" using assms by (intro round_mag_mono) simp
    moreover have "x = 0 \<longrightarrow> round_mag \<bar>x\<bar> = 0" by simp
    ultimately show ?thesis using 1 assms
      by (auto simp: round_to_double_def Let_def)
  next
    case 2
    then have "0 \<le> round_mag \<bar>x\<bar>" "0 \<le> round_mag \<bar>y\<bar>" by (simp_all add: round_mag_nonneg)
    moreover have "y = 0 \<longrightarrow> round_mag \<bar>y\<bar> = 0" by simp
    ultimately show ?thesis using 2
      by (auto simp: round_to_double_def Let_def)
  next
    case 3
    then have "round_mag \<bar>y\<bar> \<le> round_mag \<bar>x\<bar>" using assms by (intro round_mag_mono) simp
    then show ?thesis using 3 assms
      by (auto simp: round_to_double_def Let_def)
  qed
qed

lemma round_to_double_not_NaN [simp]: "round_to_double x \<noteq> NaN"
  by (simp add: round_to_double_def Let_def)

lemma round_to_double_nonneg:
  assumes "0 \<le> x"
  shows "round_to_double x = PInf \<or> (\<exists>r. 0 \<le> r \<and> round_to_double x = Fin r)"
  using assms round_mag_nonneg [of "\<bar>x\<bar>"] by (auto simp: round_to_double_def Let_def)

lemma round_mag_unit: "round_mag (1 / 2 ^ 1074) = 1 / 2 ^ 1074"
proof -
  have "bitlen 1 = 1" by (simp add: bitlen_alt_def)
  then show ?thesis
    by (simp add: round_mag_def Let_def round_half_even_of_int [of 1, simplified])
qed

lemma round_mag_pos:
  assumes "1 / 2 ^ 1074 \<le> x"
  shows "0 < round_mag x"
proof -
  have "(0::rat) < 1 / 2 ^ 1074" by simp
  also have "\<dots> = round_mag (1 / 2 ^ 1074)" by (simp only: round_mag_unit)
  also have "\<dots> \<le> round_mag x" using assms by (rule round_mag_mono)
  finally show ?thesis .
qed

lemma round_mag_small:
  assumes "0 \<le> x" "x < 1 / 2 ^ 1074" "round_mag x = x"
  shows "x = 0"
proof -
  define a where "a = x * 2 ^ 1074"
  have a: "0 \<le> a" "a < 1" using assms(1,2) unfolding a_def by (simp_all add: field_simps)
  then have "\<lfloor>a\<rfloor> = 0" by linarith
  then have "round_mag x = of_int (round_half_even a) / 2 ^ 1074"
    by (simp add: round_mag_def Let_def a_def)
  with assms(3) have "a = of_int (round_half_even a)"
    unfolding a_def by (simp add: field_simps)
  with a have "round_half_even a = 0"
    by (metis \<open>\<lfloor>a\<rfloor> = 0\<close> floor_of_int)
  with \<open>a = of_int (round_half_even a)\<close> have "a = 0" by simp
  then show ?thesis unfolding a_def by simp
qed

lemma is_double_nonzero:
  assumes "is_double x" "x \<noteq> 0"
  shows "1 / 2 ^ 1074 \<le> \<bar>x\<bar>"
proof (rule ccontr)
  assume "\<not> 1 / 2 ^ 1074 \<le> \<bar>x\<bar>"
  then have small: "\<bar>x\<bar> < 1 / 2 ^ 1074" by simp
  from assms(1) have "round_mag \<bar>x\<bar> = \<bar>x\<bar>"
    by (auto simp: is_double_def round_to_double_def Let_def split: if_splits)
  with small have "\<bar>x\<bar> = 0" by (intro round_mag_small) simp_all
  with assms(2) show False by simp
qed

section \<open>The webhook handler\<close>

lemma py_upper_ascii:
  "(of_char c :: nat) < 0x80 \<Longrightarrow> py_upper (c # cs) = upper_char c # py_upper cs"
  by (simp add: py_upper.simps(2))

lemma py_upper_other:
  "\<not> (of_char c :: nat) < 0x80 \<Longrightarrow> py_upper (c # cs) =
     (case trie_find (Node upper_trie) (c # cs) 0 of
        Some (dst, k) \<Rightarrow> dst @ py_upper (drop (k - 1) cs)
      | None \<Rightarrow> c # py_upper cs)"
  by (simp add: py_upper.simps(2))

lemmas str_eval = py_lower_def lower_char_def py_upper.simps(1) py_upper_ascii upper_char_def
  py_in_def sublist_code py_split_def py_strip_def space_encodings_def dict_get_def

lemma py_lower_empty [simp]: "py_lower s = [] \<longleftrightarrow> s = []"
  by (simp add: py_lower_def)

lemma request_example:
  "request_order_id [''order_id'' \<mapsto> ''Short 2'', ''order_action'' \<mapsto> ''sell''] = ''Short 2''"
  "py_lower (dict_get [''order_id'' \<mapsto> ''Short 2'', ''order_action'' \<mapsto> ''sell''] ''order_action'' []) = ''sell''"
  by (simp_all add: request_order_id_def resolve_order_id_def str_eval)

text \<open>The handler after a body that parsed, in terms of the resolved identifier.\<close>

lemma webhook_unfold:
  "webhook e (Some data) S =
     (let order_action = py_lower (dict_get data ''order_action'' []);
          order_id = request_order_id data
      in
      if order_action = [] \<or> order_id = [] then
        ((400, ErrorBody ''Invalid webhook data''), S, [])
      else if candle_key order_id (clock_key e) \<in> S then
        ((200, StatusBody (order_id @ '' skipped (duplicate second)'')), S, [])
      else
        (let executed = insert (candle_key order_id (clock_key e)) S;
             side = (if order_action = ''buy'' then ''buy'' else ''sell'');
             balance = wallet_balance e
         in
         if feq balance (Fin 0) then
           ((500, ErrorBody ''Insufficient balance or failed to fetch''), executed, [GetWalletBalance])
         else
           (case current_price e of
              None \<Rightarrow> ((500, ErrorBody ''Price fetch failed''), executed,
                        [GetWalletBalance, GetCurrentPrice])
            | Some price \<Rightarrow>
               if feq price (Fin 0) then
                 ((500, ErrorBody ''Price fetch failed''), executed,
                  [GetWalletBalance, GetCurrentPrice])
               else
                 (case calculate_qty order_id balance price of
                    Inl err \<Rightarrow>
                      ((500, Unhandled err), executed,
                       [GetWalletBalance, GetCurrentPrice, CalculateQty order_id balance price])
                  | Inr qty \<Rightarrow>
                     (let calls = [GetWalletBalance, GetCurrentPrice,
                                   CalculateQty order_id balance price,
                                   PlaceMarketOrder side SYMBOL qty];
                          done = SendTelegram (OrderDone side qty SYMBOL
                                   (dict_get (map_of weight_map) order_id (Fin 0)) price
                                   (clock_report e))
                      in
                      case order_result e of
                        OrderRaised msg \<Rightarrow>
                          ((500, ErrorBody ''Order request failed''), executed,
                           calls @ [SendTelegram (OrderFailed msg)])
                      | OrderResponded code txt None \<Rightarrow>
                          ((500, ErrorBody ''Order request failed''), executed,
                           calls @ [done, SendTelegram (OrderFailed ''response.json()'')])
                      | OrderResponded code txt (Some js) \<Rightarrow>
                          ((200, JsonBody js), executed, calls @ [done]))))))"
  by (simp add: webhook_def request_order_id_def Let_def)

lemmas webhook_splits = option.splits if_splits sum.splits order_outcome.splits

text \<open>
  Claim C7. Whenever the handler fetches the balance and the fetch returns 0, it answers
  500 with the insufficient-balance error, and the balance fetch is the only call it
  makes: no price fetch, no quantity computation, no order, no notification.
\<close>

theorem balance_zero_aborts:
  assumes "GetWalletBalance \<in> set (snd (snd (webhook e request S)))"
    and "wallet_balance e = Fin 0"
  shows "fst (webhook e request S) = (500, ErrorBody ''Insufficient balance or failed to fetch'')
       \<and> snd (snd (webhook e request S)) = [GetWalletBalance]"
proof (cases request)
  case None
  with assms(1) show ?thesis by (simp add: webhook_def)
next
  case (Some data)
  with assms show ?thesis
    by (auto simp: webhook_unfold Let_def split: if_splits)
qed

theorem balance_zero_aborts_witness:
  "webhook \<lparr>clock_key = 6922584001 / 4, wallet_balance = Fin 0, current_price = Some (Fin 100),
            order_result = OrderRaised ''timeout'', clock_report = 6922584003 / 4\<rparr>
     (Some [''order_id'' \<mapsto> ''Short 2'', ''order_action'' \<mapsto> ''sell'']) {}
   = ((500, ErrorBody ''Insufficient balance or failed to fetch''), {''Short 2_1730646000''},
      [GetWalletBalance])"
  using balance_zero_aborts [of
      "\<lparr>clock_key = 6922584001 / 4, wallet_balance = Fin 0, current_price = Some (Fin 100),
            order_result = OrderRaised ''timeout'', clock_report = 6922584003 / 4\<rparr>"
      "Some [''order_id'' \<mapsto> ''Short 2'', ''order_action'' \<mapsto> ''sell'']" "{}"]
  by (simp add: webhook_unfold request_example candle_key_example Let_def)

text \<open>
  Claim C9. The set only grows, and the key is in it as soon as the balance has been
  fetched. When a request is answered with status 500 (balance 0, missing price, a
  failure of the quantity computation or of the order request), its key is in the set
  afterwards, and the same alert received again in the same integer second is answered
  with the skip response, without any call and without changing the set.
\<close>

theorem failed_request_keeps_entry:
  assumes "webhook e (Some data) S = ((status, b), S', calls)"
  shows "S \<subseteq> S'
       \<and> (GetWalletBalance \<in> set calls \<longrightarrow> candle_key (request_order_id data) (clock_key e) \<in> S')
       \<and> (status = 500 \<longrightarrow>
            candle_key (request_order_id data) (clock_key e) \<in> S'
          \<and> (\<forall>e'. py_int (clock_key e') = py_int (clock_key e) \<longrightarrow>
                webhook e' (Some data) S' =
                  ((200, StatusBody (request_order_id data @ '' skipped (duplicate second)'')), S', [])))"
proof (intro conjI impI allI)
  show "S \<subseteq> S'" using assms by (rule webhook_grows)
  show "candle_key (request_order_id data) (clock_key e) \<in> S'" if "GetWalletBalance \<in> set calls"
    using assms that by (intro webhook_marks [OF assms]) auto
  assume st: "status = 500"
  have ne: "py_lower (dict_get data ''order_action'' []) \<noteq> [] \<and> request_order_id data \<noteq> []"
    and k: "candle_key (request_order_id data) (clock_key e) \<in> S'"
    using assms st
    by (auto simp: webhook_unfold Let_def split: webhook_splits)
  show "candle_key (request_order_id data) (clock_key e) \<in> S'" by (rule k)
  fix e' :: env
  assume "py_int (clock_key e') = py_int (clock_key e)"
  then have "candle_key (request_order_id data) (clock_key e') = candle_key (request_order_id data) (clock_key e)"
    by (simp add: candle_key_eq_iff)
  with k ne show "webhook e' (Some data) S' =
      ((200, StatusBody (request_order_id data @ '' skipped (duplicate second)'')), S', [])"
    by (simp add: webhook_unfold Let_def)
qed

theorem failed_request_keeps_entry_witness:
  "webhook \<lparr>clock_key = 6922584001 / 4, wallet_balance = Fin 1000, current_price = None,
            order_result = OrderRaised ''timeout'', clock_report = 6922584003 / 4\<rparr>
     (Some [''order_id'' \<mapsto> ''Short 2'', ''order_action'' \<mapsto> ''sell'']) {}
   = ((500, ErrorBody ''Price fetch failed''), {''Short 2_1730646000''},
      [GetWalletBalance, GetCurrentPrice])
   \<and> webhook \<lparr>clock_key = 3461292001 / 2, wallet_balance = Fin 1000, current_price = Some (Fin 100),
            order_result = OrderRaised ''timeout'', clock_report = 6922584003 / 4\<rparr>
     (Some [''order_id'' \<mapsto> ''Short 2'', ''order_action'' \<mapsto> ''sell'']) {''Short 2_1730646000''}
   = ((200, StatusBody ''Short 2 skipped (duplicate second)''), {''Short 2_1730646000''}, [])"
proof -
  let ?e = "\<lparr>clock_key = 6922584001 / 4, wallet_balance = Fin 1000, current_price = None,
            order_result = OrderRaised ''timeout'', clock_report = 6922584003 / 4\<rparr>"
  let ?e' = "\<lparr>clock_key = 3461292001 / 2, wallet_balance = Fin 1000, current_price = Some (Fin 100),
            order_result = OrderRaised ''timeout'', clock_report = 6922584003 / 4\<rparr>"
  let ?d = "[''order_id'' \<mapsto> ''Short 2'', ''order_action'' \<mapsto> ''sell'']"
  have w: "webhook ?e (Some ?d) {} =
      ((500, ErrorBody ''Price fetch failed''), {''Short 2_1730646000''},
       [GetWalletBalance, GetCurrentPrice])"
    by (simp add: webhook_unfold request_example candle_key_example Let_def)
  have t: "py_int (clock_key ?e') = py_int (clock_key ?e)" by (simp add: py_int_def)
  from failed_request_keeps_entry [OF w] t
  have "webhook ?e' (Some ?d) {''Short 2_1730646000''} =
      ((200, StatusBody (request_order_id ?d @ '' skipped (duplicate second)'')), {''Short 2_1730646000''}, [])"
    by blast
  with w show ?thesis by (simp add: request_example)
qed

section \<open>The quantity computation\<close>

subsection \<open>Evaluating the rounding at a given number\<close>

lemma round_to_double_eval:
  assumes "2 ^ 52 \<le> x * 2 ^ k" "x * 2 ^ k < 2 ^ 53" "k \<le> 1074"
    and "\<bar>x * 2 ^ k - of_int m\<bar> < 1 / 2" "r = of_int m / 2 ^ k"
  shows "round_to_double x = Fin r"
  using round_to_double_eqI [OF assms(1-4)] assms(5) by simp

lemma round_to_double_eval_neg:
  assumes "2 ^ 52 \<le> - x * 2 ^ k" "- x * 2 ^ k < 2 ^ 53" "k \<le> 1074"
    and "\<bar>- x * 2 ^ k - of_int m\<bar> < 1 / 2" "r = - (of_int m / 2 ^ k)"
  shows "round_to_double x = Fin r"
proof -
  have p: "round_to_double (- x) = Fin (of_int m / 2 ^ k)"
    using assms(1-4) by (intro round_to_double_eqI) simp_all
  have "0 < - x * 2 ^ k" using assms(1) by (rule less_le_trans [rotated]) simp
  then have "0 < - x" by (rule zero_less_mult_pos2) simp
  from round_to_double_neg [OF p this] assms(5) show ?thesis by simp
qed

subsection \<open>The constants and the examples, evaluated\<close>

lemma SLIPPAGE_eval: "SLIPPAGE = Fin (8070450532247929 / 2305843009213693952)"
  unfolding SLIPPAGE_def float_lit_def
  by (rule round_to_double_eval [where k = 61 and m = 8070450532247929]) simp_all

lemma one_plus_SLIPPAGE: "fadd (Fin 1) SLIPPAGE = Fin (4519362226066293 / 4503599627370496)"
  unfolding SLIPPAGE_eval fadd.simps
  by (rule round_to_double_eval [where k = 52 and m = 4519362226066293]) simp_all

lemma float_lit_70: "float_lit (7 / 10) = Fin (3152519739159347 / 4503599627370496)"
  unfolding float_lit_def
  by (rule round_to_double_eval [where k = 53 and m = 6305039478318694]) simp_all

lemma float_lit_10: "float_lit (1 / 10) = Fin (3602879701896397 / 36028797018963968)"
  unfolding float_lit_def
  by (rule round_to_double_eval [where k = 56 and m = 7205759403792794]) simp_all

lemma float_lit_30: "float_lit (3 / 10) = Fin (5404319552844595 / 18014398509481984)"
  unfolding float_lit_def
  by (rule round_to_double_eval [where k = 54 and m = 5404319552844595]) simp_all

lemma float_lit_40: "float_lit (2 / 5) = Fin (3602879701896397 / 9007199254740992)"
  unfolding float_lit_def
  by (rule round_to_double_eval [where k = 54 and m = 7205759403792794]) simp_all

lemma float_lit_20: "float_lit (1 / 5) = Fin (3602879701896397 / 18014398509481984)"
  unfolding float_lit_def
  by (rule round_to_double_eval [where k = 55 and m = 7205759403792794]) simp_all

lemmas float_lit_weights = float_lit_70 float_lit_10 float_lit_30 float_lit_40 float_lit_20

lemma weight_long1: "dict_get (map_of weight_map) ''Long 1'' (Fin 0) = Fin (3152519739159347 / 4503599627370496)"
  by (simp add: weight_map_def dict_get_def float_lit_weights)

lemma weight_long2: "dict_get (map_of weight_map) ''Long 2'' (Fin 0) = Fin (3602879701896397 / 36028797018963968)"
  by (simp add: weight_map_def dict_get_def float_lit_weights)

lemma weight_long3: "dict_get (map_of weight_map) ''Long 3'' (Fin 0) = Fin (3602879701896397 / 36028797018963968)"
  by (simp add: weight_map_def dict_get_def float_lit_weights)

lemma weight_long4: "dict_get (map_of weight_map) ''Long 4'' (Fin 0) = Fin (3602879701896397 / 36028797018963968)"
  by (simp add: weight_map_def dict_get_def float_lit_weights)

lemma weight_short1: "dict_get (map_of weight_map) ''Short 1'' (Fin 0) = Fin (5404319552844595 / 18014398509481984)"
  by (simp add: weight_map_def dict_get_def float_lit_weights)

lemma weight_short2: "dict_get (map_of weight_map) ''Short 2'' (Fin 0) = Fin (3602879701896397 / 9007199254740992)"
  by (simp add: weight_map_def dict_get_def float_lit_weights)

lemma weight_short3: "dict_get (map_of weight_map) ''Short 3'' (Fin 0) = Fin (3602879701896397 / 18014398509481984)"
  by (simp add: weight_map_def dict_get_def float_lit_weights)

lemma weight_short4: "dict_get (map_of weight_map) ''Short 4'' (Fin 0) = Fin (3602879701896397 / 36028797018963968)"
  by (simp add: weight_map_def dict_get_def float_lit_weights)

lemma qty_example_weighted: "fmul (Fin 1000) (Fin (3152519739159347 / 4503599627370496)) = Fin 700"
  unfolding fmul.simps
  by (rule round_to_double_eval [where k = 43 and m = 6157265115545600]) simp_all

lemma qty_example_levered: "fmul (Fin 700) LEVERAGE = Fin 2100"
  unfolding LEVERAGE_def fmul.simps
  by (rule round_to_double_eval [where k = 41 and m = 4617948836659200]) simp_all

lemma qty_example_price: "fmul (Fin 100) (Fin (4519362226066293 / 4503599627370496)) = Fin (7061503478228583 / 70368744177664)"
  unfolding fmul.simps
  by (rule round_to_double_eval [where k = 46 and m = 7061503478228583]) simp_all

lemma qty_example_adjusted: "fdiv (Fin 2100) (Fin (7061503478228583 / 70368744177664)) = Inr (Fin (5890358257024191 / 281474976710656))"
proof -
  have "round_to_double (2100 / (7061503478228583 / 70368744177664)) = Fin (5890358257024191 / 281474976710656)"
    by (rule round_to_double_eval [where k = 48 and m = 5890358257024191]) simp_all
  then show ?thesis by simp
qed

lemma qty_example_rounded: "py_round (Fin (5890358257024191 / 281474976710656)) 3 = Fin (2945213418811949 / 140737488355328)"
proof -
  have a: "round_half_even ((5890358257024191 / 281474976710656) * 10 ^ 3) = 20927"
    by (rule round_half_even_unique) simp
  have b: "round_to_double (of_int 20927 / 10 ^ 3) = Fin (2945213418811949 / 140737488355328)"
    by (rule round_to_double_eval [where k = 48 and m = 5890426837623898]) simp_all
  show ?thesis unfolding py_round.simps a by (rule b)
qed

lemma calculate_qty_example: "calculate_qty ''Long 1'' (Fin 1000) (Fin 100) = Inr (Fin (2945213418811949 / 140737488355328))"
  by (simp only: calculate_qty_def Let_def weight_long1 qty_example_weighted qty_example_levered one_plus_SLIPPAGE
      qty_example_price qty_example_adjusted sum.case qty_example_rounded)

lemma qty_negative_100_weighted: "fmul (Fin (- 1000)) (Fin (3152519739159347 / 4503599627370496)) = Fin (- 700)"
  unfolding fmul.simps
  by (rule round_to_double_eval_neg [where k = 43 and m = 6157265115545600]) simp_all

lemma qty_negative_100_levered: "fmul (Fin (- 700)) LEVERAGE = Fin (- 2100)"
  unfolding LEVERAGE_def fmul.simps
  by (rule round_to_double_eval_neg [where k = 41 and m = 4617948836659200]) simp_all

lemma qty_negative_100_price: "fmul (Fin 100) (Fin (4519362226066293 / 4503599627370496)) = Fin (7061503478228583 / 70368744177664)"
  unfolding fmul.simps
  by (rule round_to_double_eval [where k = 46 and m = 7061503478228583]) simp_all

lemma qty_negative_100_adjusted: "fdiv (Fin (- 2100)) (Fin (7061503478228583 / 70368744177664)) = Inr (Fin (- 5890358257024191 / 281474976710656))"
proof -
  have "round_to_double ((- 2100) / (7061503478228583 / 70368744177664)) = Fin (- 5890358257024191 / 281474976710656)"
    by (rule round_to_double_eval_neg [where k = 48 and m = 5890358257024191]) simp_all
  then show ?thesis by simp
qed

lemma qty_negative_100_rounded: "py_round (Fin (- 5890358257024191 / 281474976710656)) 3 = Fin (- 2945213418811949 / 140737488355328)"
proof -
  have a: "round_half_even ((- 5890358257024191 / 281474976710656) * 10 ^ 3) = (- 20927)"
    by (rule round_half_even_unique) simp
  have b: "round_to_double (of_int (- 20927) / 10 ^ 3) = Fin (- 2945213418811949 / 140737488355328)"
    by (rule round_to_double_eval_neg [where k = 48 and m = 5890426837623898]) simp_all
  show ?thesis unfolding py_round.simps a by (rule b)
qed

lemma calculate_qty_negative_100: "calculate_qty ''Long 1'' (Fin (- 1000)) (Fin 100) = Inr (Fin (- 2945213418811949 / 140737488355328))"
  by (simp only: calculate_qty_def Let_def weight_long1 qty_negative_100_weighted qty_negative_100_levered one_plus_SLIPPAGE
      qty_negative_100_price qty_negative_100_adjusted sum.case qty_negative_100_rounded)

lemma qty_negative_200_weighted: "fmul (Fin (- 1000)) (Fin (3152519739159347 / 4503599627370496)) = Fin (- 700)"
  unfolding fmul.simps
  by (rule round_to_double_eval_neg [where k = 43 and m = 6157265115545600]) simp_all

lemma qty_negative_200_levered: "fmul (Fin (- 700)) LEVERAGE = Fin (- 2100)"
  unfolding LEVERAGE_def fmul.simps
  by (rule round_to_double_eval_neg [where k = 41 and m = 4617948836659200]) simp_all

lemma qty_negative_200_price: "fmul (Fin 200) (Fin (4519362226066293 / 4503599627370496)) = Fin (7061503478228583 / 35184372088832)"
  unfolding fmul.simps
  by (rule round_to_double_eval [where k = 45 and m = 7061503478228583]) simp_all

lemma qty_negative_200_adjusted: "fdiv (Fin (- 2100)) (Fin (7061503478228583 / 35184372088832)) = Inr (Fin (- 5890358257024191 / 562949953421312))"
proof -
  have "round_to_double ((- 2100) / (7061503478228583 / 35184372088832)) = Fin (- 5890358257024191 / 562949953421312)"
    by (rule round_to_double_eval_neg [where k = 49 and m = 5890358257024191]) simp_all
  then show ?thesis by simp
qed

lemma qty_negative_200_rounded: "py_round (Fin (- 5890358257024191 / 562949953421312)) 3 = Fin (- 5890145362647187 / 562949953421312)"
proof -
  have a: "round_half_even ((- 5890358257024191 / 562949953421312) * 10 ^ 3) = (- 10463)"
    by (rule round_half_even_unique) simp
  have b: "round_to_double (of_int (- 10463) / 10 ^ 3) = Fin (- 5890145362647187 / 562949953421312)"
    by (rule round_to_double_eval_neg [where k = 49 and m = 5890145362647187]) simp_all
  show ?thesis unfolding py_round.simps a by (rule b)
qed

lemma calculate_qty_negative_200: "calculate_qty ''Long 1'' (Fin (- 1000)) (Fin 200) = Inr (Fin (- 5890145362647187 / 562949953421312))"
  by (simp only: calculate_qty_def Let_def weight_long1 qty_negative_200_weighted qty_negative_200_levered one_plus_SLIPPAGE
      qty_negative_200_price qty_negative_200_adjusted sum.case qty_negative_200_rounded)

lemma qty_negative_price_weighted: "fmul (Fin 1000) (Fin (3602879701896397 / 9007199254740992)) = Fin 400"
  unfolding fmul.simps
  by (rule round_to_double_eval [where k = 44 and m = 7036874417766400]) simp_all

lemma qty_negative_price_levered: "fmul (Fin 400) LEVERAGE = Fin 1200"
  unfolding LEVERAGE_def fmul.simps
  by (rule round_to_double_eval [where k = 42 and m = 5277655813324800]) simp_all

lemma qty_negative_price_price: "fmul (Fin (- 1)) (Fin (4519362226066293 / 4503599627370496)) = Fin (- 4519362226066293 / 4503599627370496)"
  unfolding fmul.simps
  by (rule round_to_double_eval_neg [where k = 52 and m = 4519362226066293]) simp_all

lemma qty_negative_price_adjusted: "fdiv (Fin 1200) (Fin (- 4519362226066293 / 4503599627370496)) = Inr (Fin (- 5259248443771599 / 4398046511104))"
proof -
  have "round_to_double (1200 / (- 4519362226066293 / 4503599627370496)) = Fin (- 5259248443771599 / 4398046511104)"
    by (rule round_to_double_eval_neg [where k = 42 and m = 5259248443771599]) simp_all
  then show ?thesis by simp
qed

lemma qty_negative_price_rounded: "py_round (Fin (- 5259248443771599 / 4398046511104)) 3 = Fin (- 2629624994337915 / 2199023255552)"
proof -
  have a: "round_half_even ((- 5259248443771599 / 4398046511104) * 10 ^ 3) = (- 1195815)"
    by (rule round_half_even_unique) simp
  have b: "round_to_double (of_int (- 1195815) / 10 ^ 3) = Fin (- 2629624994337915 / 2199023255552)"
    by (rule round_to_double_eval_neg [where k = 42 and m = 5259249988675830]) simp_all
  show ?thesis unfolding py_round.simps a by (rule b)
qed

lemma calculate_qty_negative_price: "calculate_qty ''Short 2'' (Fin 1000) (Fin (- 1)) = Inr (Fin (- 2629624994337915 / 2199023255552))"
  by (simp only: calculate_qty_def Let_def weight_short2 qty_negative_price_weighted qty_negative_price_levered one_plus_SLIPPAGE
      qty_negative_price_price qty_negative_price_adjusted sum.case qty_negative_price_rounded)

lemma float_lit_20927: "float_lit (20927 / 1000) = Fin (2945213418811949 / 140737488355328)"
  unfolding float_lit_def
  by (rule round_to_double_eval [where k = 48 and m = 5890426837623898]) simp_all

lemma float_lit_20930: "float_lit (2093 / 100) = Fin (2945635631277015 / 140737488355328)"
  unfolding float_lit_def
  by (rule round_to_double_eval [where k = 48 and m = 5891271262554030]) simp_all

lemma is_double_1000: "is_double 1000"
  unfolding is_double_def
  by (rule round_to_double_eval [where k = 43 and m = 8796093022208000]) simp_all

lemma is_double_100: "is_double 100"
  unfolding is_double_def
  by (rule round_to_double_eval [where k = 46 and m = 7036874417766400]) simp_all

lemma is_double_200: "is_double 200"
  unfolding is_double_def
  by (rule round_to_double_eval [where k = 45 and m = 7036874417766400]) simp_all

lemma is_double_1: "is_double 1"
  unfolding is_double_def
  by (rule round_to_double_eval [where k = 52 and m = 4503599627370496]) simp_all

subsection \<open>Order and arithmetic of floats\<close>

lemma fle_PInf [simp]: "fle x PInf \<longleftrightarrow> x \<noteq> NaN"
  by (cases x) simp_all

lemma fle_NInf [simp]: "fle NInf y \<longleftrightarrow> y \<noteq> NaN"
  by (cases y) simp_all

lemma fle_NaN_right [simp]: "\<not> fle x NaN"
  by (cases x) simp_all

lemma fle_round_Fin:
  "fle (round_to_double x) (Fin b) \<longleftrightarrow> round_to_double x = NInf \<or> (\<exists>a. round_to_double x = Fin a \<and> a \<le> b)"
  by (cases "round_to_double x") simp_all

lemma fmul_pos_mono:
  assumes "0 < c" "fle x y"
  shows "fle (fmul x (Fin c)) (fmul y (Fin c))"
proof (cases x; cases y)
  fix a b
  assume "x = Fin a" "y = Fin b"
  with assms show ?thesis by (simp add: round_to_double_mono)
qed (use assms in auto)

lemma py_round_mono:
  assumes "fle x y"
  shows "fle (py_round x n) (py_round y n)"
proof (cases x; cases y)
  fix a b
  assume xy: "x = Fin a" "y = Fin b"
  with assms have "a * 10 ^ n \<le> b * 10 ^ n" by simp
  then have "round_half_even (a * 10 ^ n) \<le> round_half_even (b * 10 ^ n)"
    by (rule round_half_even_mono)
  then have "(of_int (round_half_even (a * 10 ^ n)) :: rat) \<le> of_int (round_half_even (b * 10 ^ n))"
    by (simp only: of_int_le_iff)
  then have "(of_int (round_half_even (a * 10 ^ n)) :: rat) / 10 ^ n
      \<le> of_int (round_half_even (b * 10 ^ n)) / 10 ^ n"
    by (intro divide_right_mono) simp_all
  with xy show ?thesis by (simp add: round_to_double_mono)
qed (use assms in auto)

lemma fdiv_pos_mono:
  assumes "0 < d" "fle x y"
  shows "\<exists>q1 q2. fdiv x (Fin d) = Inr q1 \<and> fdiv y (Fin d) = Inr q2 \<and> fle q1 q2"
proof (cases x; cases y)
  fix a b
  assume xy: "x = Fin a" "y = Fin b"
  with assms have "a / d \<le> b / d" by (simp add: divide_right_mono)
  with xy assms show ?thesis by (simp add: round_to_double_mono)
qed (use assms in auto)

lemma fdiv_pos_anti:
  assumes "0 < d1" "d1 \<le> d2" "fle (Fin 0) x"
  shows "\<exists>q1 q2. fdiv x (Fin d2) = Inr q2 \<and> fdiv x (Fin d1) = Inr q1 \<and> fle q2 q1"
proof (cases x)
  case (Fin a)
  with assms have "a / d2 \<le> a / d1" by (simp add: frac_le)
  with Fin assms show ?thesis by (simp add: round_to_double_mono)
qed (use assms in auto)

lemma fdiv_defined: "d \<noteq> Fin 0 \<Longrightarrow> \<exists>q. fdiv a d = Inr q"
  by (cases a; cases d) simp_all

subsection \<open>The terms of the quantity\<close>

lemma slippage_factor_ge_1: "\<exists>c. 1 \<le> c \<and> fadd (Fin 1) SLIPPAGE = Fin c"
  by (rule exI [of _ "4519362226066293 / 4503599627370496"]) (simp add: one_plus_SLIPPAGE)

lemma weight_nonneg: "\<exists>w. 0 \<le> w \<and> dict_get (map_of weight_map) order_id (Fin 0) = Fin w"
proof -
  have "case dict_get (map_of weight_map) order_id (Fin 0) of Fin w \<Rightarrow> 0 \<le> w | _ \<Rightarrow> False"
    by (simp add: weight_map_def dict_get_def float_lit_weights)
  then show ?thesis
    by (cases "dict_get (map_of weight_map) order_id (Fin 0)") simp_all
qed

lemma weight_unknown:
  "order_id \<notin> fst ` set weight_map \<Longrightarrow> dict_get (map_of weight_map) order_id (Fin 0) = Fin 0"
  by (simp add: dict_get_def map_of_eq_None_iff [THEN iffD2])

lemma round_to_double_nonzero:
  assumes "1 / 2 ^ 1074 \<le> \<bar>x\<bar>"
  shows "round_to_double x \<noteq> Fin 0"
proof -
  have "0 < round_mag \<bar>x\<bar>" using assms by (rule round_mag_pos)
  then show ?thesis by (auto simp: round_to_double_def Let_def)
qed

text \<open>\<open>price * (1 + SLIPPAGE)\<close> is not zero when the price is a float other than zero, and
  is positive when the price is.\<close>

lemma price_factor_nonzero:
  assumes "is_double p" "p \<noteq> 0"
  shows "fmul (Fin p) (fadd (Fin 1) SLIPPAGE) \<noteq> Fin 0"
proof -
  obtain c where c: "1 \<le> c" "fadd (Fin 1) SLIPPAGE = Fin c"
    using slippage_factor_ge_1 by blast
  have "1 / 2 ^ 1074 \<le> \<bar>p\<bar>" using assms by (rule is_double_nonzero)
  also have "\<bar>p\<bar> * 1 \<le> \<bar>p\<bar> * \<bar>c\<bar>" using c(1) by (intro mult_left_mono) simp_all
  then have "\<bar>p\<bar> \<le> \<bar>p * c\<bar>" by (simp add: abs_mult)
  finally have "round_to_double (p * c) \<noteq> Fin 0" by (rule round_to_double_nonzero)
  with c(2) show ?thesis by simp
qed

lemma price_factor_pos:
  assumes "is_double p" "0 < p"
  shows "fmul (Fin p) (fadd (Fin 1) SLIPPAGE) = PInf
       \<or> (\<exists>d. 0 < d \<and> fmul (Fin p) (fadd (Fin 1) SLIPPAGE) = Fin d)"
proof -
  obtain c where c: "1 \<le> c" "fadd (Fin 1) SLIPPAGE = Fin c"
    using slippage_factor_ge_1 by blast
  have nz: "round_to_double (p * c) \<noteq> Fin 0"
    using price_factor_nonzero [OF assms(1)] assms(2) c(2) by simp
  have "0 \<le> p * c" using assms(2) c(1) by simp
  from round_to_double_nonneg [OF this] nz c(2) show ?thesis
    by (auto simp: less_le)
qed

lemma price_factor_mono:
  assumes "p' \<le> p"
  shows "fle (fmul (Fin p') (fadd (Fin 1) SLIPPAGE)) (fmul (Fin p) (fadd (Fin 1) SLIPPAGE))"
proof -
  obtain c where c: "1 \<le> c" "fadd (Fin 1) SLIPPAGE = Fin c"
    using slippage_factor_ge_1 by blast
  have "p' * c \<le> p * c" using assms c(1) by (intro mult_right_mono) simp_all
  with c(2) show ?thesis by (simp add: round_to_double_mono)
qed

text \<open>The quantity as a function of the looked-up weight, when \<open>price * (1 + SLIPPAGE)\<close>
  is the finite number \<open>d\<close>.\<close>

lemma calculate_qty_finite_factor:
  assumes "dict_get (map_of weight_map) order_id (Fin 0) = Fin w"
    and "fmul (Fin p) (fadd (Fin 1) SLIPPAGE) = Fin d" "d \<noteq> 0"
  shows "\<exists>q. fdiv (fmul (round_to_double (b * w)) (Fin 3)) (Fin d) = Inr q
           \<and> calculate_qty order_id (Fin b) (Fin p) = Inr (py_round q 3)"
  using assms by (simp add: calculate_qty_def LEVERAGE_def)

subsection \<open>The quantity for an unknown identifier, and the example\<close>

text \<open>
  Claim C2, as amended. For an order identifier that is not a key of the weight table,
  every finite balance and every positive price (a float, or the float infinity), the
  computed quantity is exactly 0.
\<close>

theorem unknown_order_id_zero_qty:
  assumes "order_id \<notin> fst ` set weight_map" "is_double p" "0 < p"
  shows "calculate_qty order_id (Fin b) (Fin p) = Inr (Fin 0)
       \<and> calculate_qty order_id (Fin b) PInf = Inr (Fin 0)"
proof -
  have w: "dict_get (map_of weight_map) order_id (Fin 0) = Fin 0"
    using assms(1) by (rule weight_unknown)
  have r: "py_round (Fin 0) 3 = Fin 0"
    by (simp add: round_half_even_of_int [of 0, simplified])
  have finite: "calculate_qty order_id (Fin b) (Fin p) = Inr (Fin 0)"
    using price_factor_pos [OF assms(2,3)]
  proof
    assume "fmul (Fin p) (fadd (Fin 1) SLIPPAGE) = PInf"
    with w r show ?thesis by (simp add: calculate_qty_def LEVERAGE_def)
  next
    assume "\<exists>d. 0 < d \<and> fmul (Fin p) (fadd (Fin 1) SLIPPAGE) = Fin d"
    then obtain d where "0 < d" "fmul (Fin p) (fadd (Fin 1) SLIPPAGE) = Fin d" by blast
    with w r show ?thesis by (simp add: calculate_qty_def LEVERAGE_def)
  qed
  have "calculate_qty order_id (Fin b) PInf = Inr (Fin 0)"
    using w r by (simp add: calculate_qty_def LEVERAGE_def one_plus_SLIPPAGE)
  with finite show ?thesis by simp
qed

theorem unknown_order_id_zero_qty_witness:
  "''Long 9'' \<notin> fst ` set weight_map \<and> is_double 100 \<and> (0::rat) < 100
   \<and> calculate_qty ''Long 9'' (Fin 1000) (Fin 100) = Inr (Fin 0)"
  using unknown_order_id_zero_qty [of "''Long 9''" 100 1000]
  by (simp add: weight_map_def is_double_100)

lemma calculate_qty_infinite_balance:
  "calculate_qty ''Long 9'' PInf (Fin 100) = Inr NaN"
  "calculate_qty ''Long 9'' NaN (Fin 100) = Inr NaN"
  using qty_example_price
  by (simp_all add: calculate_qty_def weight_map_def dict_get_def LEVERAGE_def one_plus_SLIPPAGE)

lemma request_example_long9:
  "request_order_id [''order_id'' \<mapsto> ''Long 9'', ''order_action'' \<mapsto> ''buy''] = ''Long 9''"
  "py_lower (dict_get [''order_id'' \<mapsto> ''Long 9'', ''order_action'' \<mapsto> ''buy''] ''order_action'' []) = ''buy''"
  by (simp_all add: request_order_id_def resolve_order_id_def str_eval)

lemma candle_key_example_long9:
  "candle_key ''Long 9'' (6922584001 / 4) = ''Long 9_1730646000''"
  by (simp add: candle_key_def py_int_def str_int_eval)

text \<open>
  The claim as stated fails: \<open>float("inf")\<close> and \<open>float("nan")\<close> are balances that pass the
  test \<open>balance == 0\<close> of line 160, and with them \<open>balance * 0\<close> is NaN, so the quantity is
  NaN and the handler places the order with it.
\<close>

theorem unknown_order_id_infinite_balance:
  "''Long 9'' \<notin> fst ` set weight_map
   \<and> calculate_qty ''Long 9'' PInf (Fin 100) = Inr NaN
   \<and> calculate_qty ''Long 9'' NaN (Fin 100) = Inr NaN
   \<and> \<not> feq NaN (Fin 0)
   \<and> webhook \<lparr>clock_key = 6922584001 / 4, wallet_balance = PInf, current_price = Some (Fin 100),
            order_result = OrderResponded 200 ''{}'' (Some ''{}''), clock_report = 6922584003 / 4\<rparr>
        (Some [''order_id'' \<mapsto> ''Long 9'', ''order_action'' \<mapsto> ''buy'']) {}
      = ((200, JsonBody ''{}''), {''Long 9_1730646000''},
         [GetWalletBalance, GetCurrentPrice, CalculateQty ''Long 9'' PInf (Fin 100),
          PlaceMarketOrder ''buy'' ''SOLUSDT.P'' NaN,
          SendTelegram (OrderDone ''buy'' NaN ''SOLUSDT.P'' (Fin 0) (Fin 100) (6922584003 / 4))])"
  by (simp add: calculate_qty_infinite_balance webhook_unfold request_example_long9
      candle_key_example_long9 Let_def SYMBOL_def)
    (simp add: weight_map_def dict_get_def)

text \<open>
  Claim C3, as amended. For balance 1000, the identifier \<open>Long 1\<close> (weight 0.70), leverage
  3, price 100 and slippage 0.0035, the computation returns
  \<open>round(1000*0.70*3 / (100*(1 + 0.0035)), 3)\<close>, and this value is the float 20.927.
\<close>

theorem example_quantity:
  "\<exists>q. fdiv (fmul (fmul (Fin 1000) (float_lit (70 / 100))) (Fin 3))
            (fmul (Fin 100) (fadd (Fin 1) (float_lit (35 / 10000)))) = Inr q
       \<and> calculate_qty ''Long 1'' (Fin 1000) (Fin 100) = Inr (py_round q 3)
       \<and> py_round q 3 = float_lit (20927 / 1000)"
proof -
  have w: "float_lit (70 / 100) = Fin (3152519739159347 / 4503599627370496)"
    by (simp add: float_lit_70)
  have "fdiv (fmul (fmul (Fin 1000) (float_lit (70 / 100))) (Fin 3))
            (fmul (Fin 100) (fadd (Fin 1) (float_lit (35 / 10000))))
        = Inr (Fin (5890358257024191 / 281474976710656))"
    using qty_example_adjusted
    by (simp only: w qty_example_weighted qty_example_levered [unfolded LEVERAGE_def]
        one_plus_SLIPPAGE [unfolded SLIPPAGE_def] qty_example_price)
  then show ?thesis
    by (intro exI [of _ "Fin (5890358257024191 / 281474976710656)"] conjI)
      (simp_all only: calculate_qty_example qty_example_rounded float_lit_20927)
qed

text \<open>The claim as stated fails: the value is 20.927, which is not 20.930.\<close>

theorem example_quantity_is_not_20_930:
  "calculate_qty ''Long 1'' (Fin 1000) (Fin 100) = Inr (float_lit (20927 / 1000))
   \<and> float_lit (20927 / 1000) \<noteq> float_lit (20930 / 1000)
   \<and> \<not> feq (float_lit (20927 / 1000)) (float_lit (20930 / 1000))"
  by (simp add: calculate_qty_example float_lit_20927 float_lit_20930)

subsection \<open>Monotonicity of the quantity\<close>

lemma calculate_qty_mono_numerator:
  assumes d: "fmul (Fin p) (fadd (Fin 1) SLIPPAGE) = Fin d" "0 < d"
    and w1: "dict_get (map_of weight_map) o1 (Fin 0) = Fin w1"
    and w2: "dict_get (map_of weight_map) o2 (Fin 0) = Fin w2"
    and le: "b1 * w1 \<le> b2 * w2"
  shows "qty_le (calculate_qty o1 (Fin b1) (Fin p)) (calculate_qty o2 (Fin b2) (Fin p))"
proof -
  have "fle (round_to_double (b1 * w1)) (round_to_double (b2 * w2))"
    using le by (rule round_to_double_mono)
  then have "fle (fmul (round_to_double (b1 * w1)) (Fin 3)) (fmul (round_to_double (b2 * w2)) (Fin 3))"
    by (intro fmul_pos_mono) simp_all
  from fdiv_pos_mono [OF d(2) this] obtain q1 q2
    where q: "fdiv (fmul (round_to_double (b1 * w1)) (Fin 3)) (Fin d) = Inr q1"
      "fdiv (fmul (round_to_double (b2 * w2)) (Fin 3)) (Fin d) = Inr q2" "fle q1 q2"
    by blast
  from q(3) have "fle (py_round q1 3) (py_round q2 3)" by (rule py_round_mono)
  with q(1,2) d w1 w2 show ?thesis
    by (simp add: calculate_qty_def LEVERAGE_def)
qed

lemma calculate_qty_anti_price:
  assumes d: "fmul (Fin p) (fadd (Fin 1) SLIPPAGE) = Fin d"
    and d': "fmul (Fin p') (fadd (Fin 1) SLIPPAGE) = Fin d'" "0 < d'" "d' \<le> d"
    and w: "dict_get (map_of weight_map) oid (Fin 0) = Fin w"
    and nn: "0 \<le> b * w"
  shows "qty_le (calculate_qty oid (Fin b) (Fin p)) (calculate_qty oid (Fin b) (Fin p'))"
proof -
  have "fle (round_to_double 0) (round_to_double (b * w))"
    using nn by (rule round_to_double_mono)
  then have "fle (fmul (round_to_double 0) (Fin 3)) (fmul (round_to_double (b * w)) (Fin 3))"
    by (intro fmul_pos_mono) simp_all
  then have "fle (Fin 0) (fmul (round_to_double (b * w)) (Fin 3))" by simp
  from fdiv_pos_anti [OF d'(2,3) this] obtain q1 q2
    where q: "fdiv (fmul (round_to_double (b * w)) (Fin 3)) (Fin d) = Inr q2"
      "fdiv (fmul (round_to_double (b * w)) (Fin 3)) (Fin d') = Inr q1" "fle q2 q1"
    by blast
  from q(3) have "fle (py_round q2 3) (py_round q1 3)" by (rule py_round_mono)
  with q(1,2) d d' w show ?thesis
    by (simp add: calculate_qty_def LEVERAGE_def)
qed

lemma fle_PInf_left [simp]: "fle PInf y \<longleftrightarrow> y = PInf"
  by (cases y) simp_all

lemma round_mag_grid_point:
  assumes "2 ^ 52 \<le> m" "m < 2 ^ 53"
  shows "round_mag (of_int m * 2 ^ j / 2 ^ 1074) = of_int m * 2 ^ j / 2 ^ 1074"
proof -
  have a: "of_int m * 2 ^ j / (2::rat) ^ 1074 * 2 ^ 1074 = of_int m * 2 ^ j" by simp
  have "(of_int (2 ^ 52) :: rat) \<le> of_int m" "(of_int m :: rat) < of_int (2 ^ 53)"
    using assms by (simp_all only: of_int_le_iff of_int_less_iff)
  then have m: "(2::rat) ^ 52 \<le> of_int m" "(of_int m :: rat) < 2 ^ 53" by simp_all
  have "(2::rat) ^ 52 * 2 ^ j \<le> of_int m * 2 ^ j"
    using m(1) by (intro mult_right_mono) simp_all
  moreover have "(of_int m :: rat) * 2 ^ j < 2 ^ 53 * 2 ^ j"
    using m(2) by (intro mult_strict_right_mono) simp_all
  ultimately have s: "grid_shift (of_int m * 2 ^ j) = j"
    by (intro grid_shift_eqI) (simp_all add: power_add)
  have "grid_round (of_int m * 2 ^ j) = of_int m * 2 ^ j"
    unfolding grid_round_def s by simp
  then show ?thesis
    unfolding round_mag_grid a by (simp only:)
qed

lemma round_to_double_fixed:
  assumes "round_mag x = x" "0 < x"
  shows "round_to_double x = (if 2 ^ 1024 \<le> x then PInf else Fin x)"
  using assms by (simp add: round_to_double_def)

lemma round_mag_2_1023: "round_mag (2 ^ 1023) = 2 ^ 1023"
  using round_mag_grid_point [of "2 ^ 52" 2045] by simp

lemma round_mag_2_1024: "round_mag (2 ^ 1024) = 2 ^ 1024"
  using round_mag_grid_point [of "2 ^ 52" 2046] by simp

lemma round_mag_DBL_MAX: "round_mag DBL_MAX = DBL_MAX"
  using round_mag_grid_point [of "2 ^ 53 - 1" 2045] by (simp add: DBL_MAX_def)

lemma DBL_MAX_bounds: "0 < DBL_MAX" "2 ^ 1023 \<le> DBL_MAX" "DBL_MAX < 2 ^ 1024"
  by (simp_all add: DBL_MAX_def)

lemma is_double_DBL_MAX: "is_double DBL_MAX"
  using DBL_MAX_bounds round_to_double_fixed [OF round_mag_DBL_MAX] by (simp add: is_double_def)

lemma round_to_double_overflow:
  assumes "2 ^ 1024 \<le> x"
  shows "round_to_double x = PInf"
proof -
  have "round_to_double (2 ^ 1024) = PInf"
    using round_to_double_fixed [OF round_mag_2_1024] by simp
  with round_to_double_mono [OF assms] show ?thesis by simp
qed

lemma round_to_double_top_binade:
  assumes "2 ^ 1023 \<le> x" "x \<le> DBL_MAX"
  shows "\<exists>t. round_to_double x = Fin t \<and> 2 ^ 1023 \<le> t"
proof -
  have lo: "round_to_double (2 ^ 1023) = Fin (2 ^ 1023)"
    using round_to_double_fixed [OF round_mag_2_1023] by simp
  have hi: "round_to_double DBL_MAX = Fin DBL_MAX"
    using is_double_DBL_MAX by (simp only: is_double_def)
  from round_to_double_mono [OF assms(1)] round_to_double_mono [OF assms(2)]
  show ?thesis unfolding lo hi
    by (cases "round_to_double x") simp_all
qed

lemma calculate_qty_overflow:
  "calculate_qty ''Long 1'' (Fin DBL_MAX) (Fin DBL_MAX) = Inr NaN"
proof -
  have "2 ^ 1023 \<le> DBL_MAX * (3152519739159347 / 4503599627370496)"
    by (simp add: DBL_MAX_def)
  moreover have "DBL_MAX * (3152519739159347 / 4503599627370496) \<le> DBL_MAX * 1"
    using DBL_MAX_bounds(1) by (intro mult_left_mono) simp_all
  ultimately obtain t where t: "round_to_double (DBL_MAX * (3152519739159347 / 4503599627370496)) = Fin t"
      "2 ^ 1023 \<le> t"
    using round_to_double_top_binade by (metis mult.right_neutral)
  have "2 ^ 1024 \<le> t * 3" using t(2) by simp
  then have n: "round_to_double (t * 3) = PInf" by (rule round_to_double_overflow)
  have "2 ^ 1024 \<le> DBL_MAX * (4519362226066293 / 4503599627370496)"
    by (simp add: DBL_MAX_def)
  then have d: "round_to_double (DBL_MAX * (4519362226066293 / 4503599627370496)) = PInf"
    by (rule round_to_double_overflow)
  show ?thesis
    using t(1) n d by (simp add: calculate_qty_def weight_long1 LEVERAGE_def one_plus_SLIPPAGE)
qed

lemma calculate_qty_zero_at_max:
  "calculate_qty ''Long 1'' (Fin 0) (Fin DBL_MAX) = Inr (Fin 0)"
proof -
  have "2 ^ 1024 \<le> DBL_MAX * (4519362226066293 / 4503599627370496)"
    by (simp add: DBL_MAX_def)
  then have d: "round_to_double (DBL_MAX * (4519362226066293 / 4503599627370496)) = PInf"
    by (rule round_to_double_overflow)
  show ?thesis
    using d by (simp add: calculate_qty_def weight_long1 LEVERAGE_def one_plus_SLIPPAGE
        round_half_even_of_int [of 0, simplified])
qed

text \<open>
  Claim C5, as amended. For a positive price (a float) for which \<open>price * (1 + SLIPPAGE)\<close>
  does not overflow, the quantity, rounding included, is non-decreasing in the (finite)
  balance; for a non-negative balance it is non-decreasing in the looked-up weight and
  non-increasing in the price. (\<open>qty_le\<close> is Python's \<open><=\<close> on the two results.)
\<close>

theorem calculate_qty_monotone:
  assumes "is_double p" "0 < p" "fmul (Fin p) (fadd (Fin 1) SLIPPAGE) \<noteq> PInf"
  shows "(b1 \<le> b2 \<longrightarrow>
            qty_le (calculate_qty oid (Fin b1) (Fin p)) (calculate_qty oid (Fin b2) (Fin p)))
       \<and> (0 \<le> b \<and> fle (dict_get (map_of weight_map) o1 (Fin 0)) (dict_get (map_of weight_map) o2 (Fin 0)) \<longrightarrow>
            qty_le (calculate_qty o1 (Fin b) (Fin p)) (calculate_qty o2 (Fin b) (Fin p)))
       \<and> (0 \<le> b \<and> is_double p' \<and> 0 < p' \<and> p' \<le> p \<longrightarrow>
            qty_le (calculate_qty oid (Fin b) (Fin p)) (calculate_qty oid (Fin b) (Fin p')))"
proof -
  from price_factor_pos [OF assms(1,2)] assms(3)
  obtain d where d: "fmul (Fin p) (fadd (Fin 1) SLIPPAGE) = Fin d" "0 < d" by blast
  obtain w where w: "0 \<le> w" "dict_get (map_of weight_map) oid (Fin 0) = Fin w"
    using weight_nonneg by blast
  obtain w1 where w1: "0 \<le> w1" "dict_get (map_of weight_map) o1 (Fin 0) = Fin w1"
    using weight_nonneg by blast
  obtain w2 where w2: "0 \<le> w2" "dict_get (map_of weight_map) o2 (Fin 0) = Fin w2"
    using weight_nonneg by blast
  show ?thesis
  proof (intro conjI impI)
    assume "b1 \<le> b2"
    then have "b1 * w \<le> b2 * w" using w(1) by (rule mult_right_mono)
    with d w(2) show "qty_le (calculate_qty oid (Fin b1) (Fin p)) (calculate_qty oid (Fin b2) (Fin p))"
      by (intro calculate_qty_mono_numerator)
  next
    assume h: "0 \<le> b \<and> fle (dict_get (map_of weight_map) o1 (Fin 0)) (dict_get (map_of weight_map) o2 (Fin 0))"
    then have "w1 \<le> w2" using w1(2) w2(2) by simp
    then have "b * w1 \<le> b * w2" using h by (intro mult_left_mono) simp_all
    with d w1(2) w2(2) show "qty_le (calculate_qty o1 (Fin b) (Fin p)) (calculate_qty o2 (Fin b) (Fin p))"
      by (intro calculate_qty_mono_numerator)
  next
    assume h: "0 \<le> b \<and> is_double p' \<and> 0 < p' \<and> p' \<le> p"
    then have "fle (fmul (Fin p') (fadd (Fin 1) SLIPPAGE)) (Fin d)"
      using price_factor_mono [of p' p] d(1) by simp
    moreover from h have "fmul (Fin p') (fadd (Fin 1) SLIPPAGE) = PInf
       \<or> (\<exists>d. 0 < d \<and> fmul (Fin p') (fadd (Fin 1) SLIPPAGE) = Fin d)"
      by (intro price_factor_pos) simp_all
    ultimately obtain d' where d': "fmul (Fin p') (fadd (Fin 1) SLIPPAGE) = Fin d'" "0 < d'" "d' \<le> d"
      by auto
    have "0 \<le> b * w" using h w(1) by simp
    with d(1) d' w(2) show "qty_le (calculate_qty oid (Fin b) (Fin p)) (calculate_qty oid (Fin b) (Fin p'))"
      by (intro calculate_qty_anti_price)
  qed
qed

theorem calculate_qty_monotone_witness:
  "qty_le (calculate_qty ''Long 1'' (Fin (- 1000)) (Fin 100)) (calculate_qty ''Long 1'' (Fin 1000) (Fin 100))
   \<and> qty_le (calculate_qty ''Long 2'' (Fin 1000) (Fin 200)) (calculate_qty ''Long 1'' (Fin 1000) (Fin 200))
   \<and> qty_le (calculate_qty ''Long 1'' (Fin 1000) (Fin 200)) (calculate_qty ''Long 1'' (Fin 1000) (Fin 100))"
proof -
  have f100: "fmul (Fin 100) (fadd (Fin 1) SLIPPAGE) \<noteq> PInf"
    by (simp only: one_plus_SLIPPAGE qty_example_price) simp
  have f200: "fmul (Fin 200) (fadd (Fin 1) SLIPPAGE) \<noteq> PInf"
    by (simp only: one_plus_SLIPPAGE qty_negative_200_price) simp
  have w: "fle (dict_get (map_of weight_map) ''Long 2'' (Fin 0)) (dict_get (map_of weight_map) ''Long 1'' (Fin 0))"
    by (simp add: weight_long1 weight_long2)
  from calculate_qty_monotone [OF is_double_100 _ f100, of "- 1000" 1000 "''Long 1''"]
  have 1: "qty_le (calculate_qty ''Long 1'' (Fin (- 1000)) (Fin 100)) (calculate_qty ''Long 1'' (Fin 1000) (Fin 100))"
    by simp
  from calculate_qty_monotone [OF is_double_200 _ f200, of _ _ _ 1000 "''Long 2''" "''Long 1''"] w
  have 2: "qty_le (calculate_qty ''Long 2'' (Fin 1000) (Fin 200)) (calculate_qty ''Long 1'' (Fin 1000) (Fin 200))"
    by simp
  from calculate_qty_monotone [OF is_double_200 _ f200, of _ _ "''Long 1''" 1000 _ _ 100] is_double_100
  have 3: "qty_le (calculate_qty ''Long 1'' (Fin 1000) (Fin 200)) (calculate_qty ''Long 1'' (Fin 1000) (Fin 100))"
    by simp
  from 1 2 3 show ?thesis by simp
qed

text \<open>
  The claim as stated fails. With the negative balance -1000 the quantity grows with the
  price (-20.927 at price 100, -10.463 at price 200). With the largest float as the
  price, \<open>price * (1 + SLIPPAGE)\<close> overflows; the balance 0 gives the quantity 0 and the
  balance \<open>DBL_MAX\<close> gives NaN, which is not \<open>>=\<close> 0.
\<close>

theorem calculate_qty_not_monotone:
  "calculate_qty ''Long 1'' (Fin (- 1000)) (Fin 100) = Inr (Fin (- (2945213418811949 / 140737488355328)))
   \<and> calculate_qty ''Long 1'' (Fin (- 1000)) (Fin 200) = Inr (Fin (- (5890145362647187 / 562949953421312)))
   \<and> (0::rat) < 100 \<and> (100::rat) \<le> 200
   \<and> \<not> qty_le (calculate_qty ''Long 1'' (Fin (- 1000)) (Fin 200))
               (calculate_qty ''Long 1'' (Fin (- 1000)) (Fin 100))
   \<and> is_double DBL_MAX \<and> 0 < DBL_MAX \<and> (0::rat) \<le> DBL_MAX
   \<and> calculate_qty ''Long 1'' (Fin 0) (Fin DBL_MAX) = Inr (Fin 0)
   \<and> calculate_qty ''Long 1'' (Fin DBL_MAX) (Fin DBL_MAX) = Inr NaN
   \<and> \<not> qty_le (calculate_qty ''Long 1'' (Fin 0) (Fin DBL_MAX))
               (calculate_qty ''Long 1'' (Fin DBL_MAX) (Fin DBL_MAX))"
  using DBL_MAX_bounds(1)
  by (simp add: calculate_qty_negative_100 calculate_qty_negative_200 is_double_DBL_MAX
      calculate_qty_zero_at_max calculate_qty_overflow)

section \<open>The handler and the quantity computation\<close>

lemma calculate_qty_defined:
  assumes "valid_double price" "\<not> feq price (Fin 0)"
  shows "\<exists>q. calculate_qty order_id balance price = Inr q"
proof -
  obtain c where c: "1 \<le> c" "fadd (Fin 1) SLIPPAGE = Fin c"
    using slippage_factor_ge_1 by blast
  have "fmul price (fadd (Fin 1) SLIPPAGE) \<noteq> Fin 0"
  proof (cases price)
    case (Fin p)
    with assms show ?thesis by (simp add: price_factor_nonzero)
  qed (use c in auto)
  from fdiv_defined [OF this] obtain q
    where "fdiv (fmul (fmul balance (dict_get (map_of weight_map) order_id (Fin 0))) LEVERAGE)
             (fmul price (fadd (Fin 1) SLIPPAGE)) = Inr q"
    by blast
  then show ?thesis by (simp add: calculate_qty_def)
qed

lemma request_example_close:
  "request_order_id [''order_id'' \<mapsto> ''Long 1'', ''order_action'' \<mapsto> ''Close''] = ''Long 1''"
  "py_lower (dict_get [''order_id'' \<mapsto> ''Long 1'', ''order_action'' \<mapsto> ''Close''] ''order_action'' []) = ''close''"
  by (simp_all add: request_order_id_def resolve_order_id_def str_eval)

lemma candle_key_example_long1:
  "candle_key ''Long 1'' (6922584001 / 4) = ''Long 1_1730646000''"
  by (simp add: candle_key_def py_int_def str_int_eval)

lemma webhook_example_close:
  "webhook \<lparr>clock_key = 6922584001 / 4, wallet_balance = Fin 1000, current_price = Some (Fin 100),
            order_result = OrderResponded 200 ''{}'' (Some ''{}''), clock_report = 6922584003 / 4\<rparr>
     (Some [''order_id'' \<mapsto> ''Long 1'', ''order_action'' \<mapsto> ''Close'']) {}
   = ((200, JsonBody ''{}''), {''Long 1_1730646000''},
      [GetWalletBalance, GetCurrentPrice, CalculateQty ''Long 1'' (Fin 1000) (Fin 100),
       PlaceMarketOrder ''sell'' ''SOLUSDT.P'' (Fin (2945213418811949 / 140737488355328)),
       SendTelegram (OrderDone ''sell'' (Fin (2945213418811949 / 140737488355328)) ''SOLUSDT.P''
         (Fin (3152519739159347 / 4503599627370496)) (Fin 100) (6922584003 / 4))])"
  by (simp add: webhook_unfold request_example_close candle_key_example_long1 Let_def
      calculate_qty_example weight_long1 SYMBOL_def)

lemma webhook_example_negative_price:
  "webhook \<lparr>clock_key = 6922584001 / 4, wallet_balance = Fin 1000, current_price = Some (Fin (- 1)),
            order_result = OrderResponded 200 ''{}'' (Some ''{}''), clock_report = 6922584003 / 4\<rparr>
     (Some [''order_id'' \<mapsto> ''Short 2'', ''order_action'' \<mapsto> ''sell'']) {}
   = ((200, JsonBody ''{}''), {''Short 2_1730646000''},
      [GetWalletBalance, GetCurrentPrice, CalculateQty ''Short 2'' (Fin 1000) (Fin (- 1)),
       PlaceMarketOrder ''sell'' ''SOLUSDT.P'' (Fin (- (2629624994337915 / 2199023255552))),
       SendTelegram (OrderDone ''sell'' (Fin (- (2629624994337915 / 2199023255552))) ''SOLUSDT.P''
         (Fin (3602879701896397 / 9007199254740992)) (Fin (- 1)) (6922584003 / 4))])"
  by (simp add: webhook_unfold request_example candle_key_example Let_def
      calculate_qty_negative_price weight_short2 SYMBOL_def)

text \<open>
  Claim C8, as amended. Whenever the handler invokes the quantity computation, the price
  argument is the fetched price, it is not \<open>None\<close> and it is not zero (line 164 aborts on a
  missing or zero price; a negative price passes), and the computation returns a value:
  the division by \<open>price * (1 + SLIPPAGE)\<close> does not divide by zero.
\<close>

theorem price_guard_excludes_zero:
  assumes "CalculateQty order_id balance price \<in> set (snd (snd (webhook e request S)))"
    and "valid_double price"
  shows "current_price e = Some price \<and> \<not> feq price (Fin 0)
       \<and> (\<exists>q. calculate_qty order_id balance price = Inr q)"
proof -
  have "current_price e = Some price \<and> \<not> feq price (Fin 0)"
  proof (cases request)
    case None
    with assms(1) show ?thesis by (simp add: webhook_def)
  next
    case (Some data)
    with assms(1) show ?thesis
      by (auto simp: webhook_unfold Let_def split: webhook_splits)
  qed
  with calculate_qty_defined [OF assms(2)] show ?thesis by simp
qed

theorem price_guard_excludes_zero_witness:
  "CalculateQty ''Long 1'' (Fin 1000) (Fin 100) \<in> set (snd (snd (webhook
      \<lparr>clock_key = 6922584001 / 4, wallet_balance = Fin 1000, current_price = Some (Fin 100),
        order_result = OrderResponded 200 ''{}'' (Some ''{}''), clock_report = 6922584003 / 4\<rparr>
      (Some [''order_id'' \<mapsto> ''Long 1'', ''order_action'' \<mapsto> ''Close'']) {})))
   \<and> valid_double (Fin 100)
   \<and> \<not> feq (Fin 100) (Fin 0)
   \<and> (\<exists>q. calculate_qty ''Long 1'' (Fin 1000) (Fin 100) = Inr q)"
  using price_guard_excludes_zero [of "''Long 1''" "Fin 1000" "Fin 100"
      "\<lparr>clock_key = 6922584001 / 4, wallet_balance = Fin 1000, current_price = Some (Fin 100),
        order_result = OrderResponded 200 ''{}'' (Some ''{}''), clock_report = 6922584003 / 4\<rparr>"
      "Some [''order_id'' \<mapsto> ''Long 1'', ''order_action'' \<mapsto> ''Close'']" "{}"]
  by (simp add: webhook_example_close is_double_100)

text \<open>The claim as stated fails: the guard of line 164 lets a negative price through, and
  the handler computes a (negative) quantity from it and places the order.\<close>

theorem negative_price_reaches_calculate_qty:
  "CalculateQty ''Short 2'' (Fin 1000) (Fin (- 1)) \<in> set (snd (snd (webhook
      \<lparr>clock_key = 6922584001 / 4, wallet_balance = Fin 1000, current_price = Some (Fin (- 1)),
        order_result = OrderResponded 200 ''{}'' (Some ''{}''), clock_report = 6922584003 / 4\<rparr>
      (Some [''order_id'' \<mapsto> ''Short 2'', ''order_action'' \<mapsto> ''sell'']) {})))
   \<and> \<not> fle (Fin 0) (Fin (- 1))
   \<and> calculate_qty ''Short 2'' (Fin 1000) (Fin (- 1)) = Inr (Fin (- (2629624994337915 / 2199023255552)))"
  by (simp add: webhook_example_negative_price calculate_qty_negative_price)

text \<open>
  Claim C10. When the handler places an order, its side is \<open>buy\<close> exactly when the
  lower-cased \<open>order_action\<close> is \<open>buy\<close> and \<open>sell\<close> for every other value; the handler
  answers 400 only when \<open>order_action\<close> or the resolved identifier is empty, never because
  of the value of a non-empty \<open>order_action\<close>.
\<close>

theorem order_side_buy_or_sell:
  assumes "webhook e (Some data) S = (response, S', calls)"
  shows "(PlaceMarketOrder side symbol qty \<in> set calls \<longrightarrow>
            side = (if py_lower (dict_get data ''order_action'' []) = ''buy'' then ''buy'' else ''sell''))
       \<and> (fst response = 400 \<longleftrightarrow>
            dict_get data ''order_action'' [] = [] \<or> request_order_id data = [])"
  using assms
  by (auto simp: webhook_unfold Let_def split: webhook_splits)

theorem order_side_buy_or_sell_witness:
  "webhook \<lparr>clock_key = 6922584001 / 4, wallet_balance = Fin 1000, current_price = Some (Fin 100),
            order_result = OrderResponded 200 ''{}'' (Some ''{}''), clock_report = 6922584003 / 4\<rparr>
     (Some [''order_id'' \<mapsto> ''Long 1'', ''order_action'' \<mapsto> ''Close'']) {}
   = ((200, JsonBody ''{}''), {''Long 1_1730646000''},
      [GetWalletBalance, GetCurrentPrice, CalculateQty ''Long 1'' (Fin 1000) (Fin 100),
       PlaceMarketOrder ''sell'' ''SOLUSDT.P'' (Fin (2945213418811949 / 140737488355328)),
       SendTelegram (OrderDone ''sell'' (Fin (2945213418811949 / 140737488355328)) ''SOLUSDT.P''
         (Fin (3152519739159347 / 4503599627370496)) (Fin 100) (6922584003 / 4))])
   \<and> ''sell'' = (if py_lower (dict_get [''order_id'' \<mapsto> ''Long 1'', ''order_action'' \<mapsto> ''Close''] ''order_action'' []) = ''buy''
               then ''buy'' else ''sell'')"
  using order_side_buy_or_sell [OF webhook_example_close, of "''sell''" "''SOLUSDT.P''"
      "Fin (2945213418811949 / 140737488355328)"]
  by (simp add: webhook_example_close)

section \<open>The order identifier\<close>

subsection \<open>Splitting at the separator\<close>

lemma split_from_no_sep: "\<not> sublist sep s \<Longrightarrow> split_from sep cur s = [cur @ s]"
proof (induction s arbitrary: cur)
  case Nil
  show ?case by simp
next
  case (Cons c cs)
  then have "\<not> prefix sep (c # cs)" "\<not> sublist sep cs"
    by (auto simp: sublist_Cons_right)
  with Cons.IH [of "cur @ [c]"] show ?case by simp
qed

lemma split_from_nonempty: "split_from sep cur s \<noteq> []"
  by (induction sep cur s rule: split_from.induct) auto

lemma split_from_match:
  "s \<noteq> [] \<Longrightarrow> sep \<noteq> [] \<Longrightarrow> prefix sep s \<Longrightarrow>
   split_from sep cur s = cur # split_from sep [] (drop (length sep) s)"
  by (cases s) simp_all

lemma split_from_skip:
  "\<not> prefix sep (c # cs) \<Longrightarrow> split_from sep cur (c # cs) = split_from sep (cur @ [c]) cs"
  by simp

lemma STEP_no_overlap:
  assumes "prefix ''STEP'' (pre @ ''STEP'' @ suf)" "pre \<noteq> []"
  shows "4 \<le> length pre"
proof (rule ccontr)
  assume "\<not> 4 \<le> length pre"
  moreover have "length pre \<noteq> 0" using assms(2) by simp
  ultimately have "length pre = 1 \<or> length pre = 2 \<or> length pre = 3"
    by linarith
  then show False
    using assms(1) by (auto simp: length_Suc_conv eval_nat_numeral)
qed

lemma last_split_from_STEP:
  "\<not> sublist ''STEP'' suf \<Longrightarrow> last (split_from ''STEP'' cur (pre @ ''STEP'' @ suf)) = suf"
proof (induction pre arbitrary: cur rule: length_induct)
  case (1 pre)
  show ?case
  proof (cases pre)
    case Nil
    with 1(2) show ?thesis by (simp add: split_from_no_sep)
  next
    case (Cons c pre')
    show ?thesis
    proof (cases "prefix ''STEP'' (pre @ ''STEP'' @ suf)")
      case True
      have ne: "pre \<noteq> []" using Cons by simp
      with True have len: "4 \<le> length pre" by (rule STEP_no_overlap)
      have m: "split_from ''STEP'' cur (pre @ ''STEP'' @ suf)
          = cur # split_from ''STEP'' [] (drop (length ''STEP'') (pre @ ''STEP'' @ suf))"
        using True ne by (intro split_from_match) simp_all
      have "length ''STEP'' = 4" by simp
      then have d: "drop (length ''STEP'') (pre @ ''STEP'' @ suf) = drop 4 pre @ ''STEP'' @ suf"
        using len by (simp only: drop_append) simp
      have "last (split_from ''STEP'' cur (pre @ ''STEP'' @ suf))
          = last (cur # split_from ''STEP'' [] (drop 4 pre @ ''STEP'' @ suf))"
        by (simp only: m d)
      also have "\<dots> = last (split_from ''STEP'' [] (drop 4 pre @ ''STEP'' @ suf))"
        by (simp add: split_from_nonempty)
      also have "\<dots> = suf"
        using 1(1) [rule_format, of "drop 4 pre" "[]"] 1(2) len by simp
      finally show ?thesis .
    next
      case False
      have e: "pre @ ''STEP'' @ suf = c # (pre' @ ''STEP'' @ suf)"
        unfolding Cons by (simp only: append_Cons)
      have "split_from ''STEP'' cur (c # (pre' @ ''STEP'' @ suf))
          = split_from ''STEP'' (cur @ [c]) (pre' @ ''STEP'' @ suf)"
        using False unfolding e by (rule split_from_skip)
      moreover have "last (split_from ''STEP'' (cur @ [c]) (pre' @ ''STEP'' @ suf)) = suf"
        using 1(1) [rule_format, of pre' "cur @ [c]"] 1(2) Cons by simp
      ultimately show ?thesis unfolding e by (simp only:)
    qed
  qed
qed

lemma last_occurrence:
  "sep \<noteq> [] \<Longrightarrow> sublist sep s \<Longrightarrow> \<exists>pre suf. s = pre @ sep @ suf \<and> \<not> sublist sep suf"
proof (induction s rule: length_induct)
  case (1 s)
  from 1(3) obtain ps ss where s: "s = ps @ sep @ ss" by (auto simp: sublist_def)
  show ?case
  proof (cases "sublist sep ss")
    case False
    with s show ?thesis by blast
  next
    case True
    have "length ss < length s" using s 1(2) by simp
    with 1(1) 1(2) True obtain pre suf where "ss = pre @ sep @ suf" "\<not> sublist sep suf" by blast
    with s have "s = (ps @ sep @ pre) @ sep @ suf" by simp
    with \<open>\<not> sublist sep suf\<close> show ?thesis by blast
  qed
qed

lemma resolve_order_id_STEP:
  assumes "py_in ''STEP'' s"
  shows "\<exists>pre suf. s = pre @ ''STEP'' @ suf \<and> \<not> py_in ''STEP'' suf
         \<and> resolve_order_id s raw =
             (if py_in ''LONG'' s then ''Long '' @ py_strip suf
              else if py_in ''SHORT'' s then ''Short '' @ py_strip suf
              else raw)"
proof -
  from last_occurrence [of "''STEP''" s] assms obtain pre suf
    where s: "s = pre @ ''STEP'' @ suf" "\<not> sublist ''STEP'' suf"
    by (auto simp: py_in_def)
  have "last (py_split s ''STEP'') = suf"
    unfolding py_split_def s(1) using s(2) by (rule last_split_from_STEP)
  with assms have "resolve_order_id s raw =
             (if py_in ''LONG'' s then ''Long '' @ py_strip suf
              else if py_in ''SHORT'' s then ''Short '' @ py_strip suf
              else raw)"
    by (simp add: resolve_order_id_def)
  with s show ?thesis unfolding py_in_def by blast
qed

text \<open>Characters outside ASCII: the no-break space is kept by \<open>upper\<close> (and removed by
  \<open>strip\<close>), the long s \<open>U+017F\<close> becomes \<open>S\<close> and the ligature \<open>U+FB06\<close> becomes \<open>ST\<close>.\<close>

lemma py_upper_examples:
  "py_upper (''long step 1'' @ [CHR 0xC2, CHR 0xA0]) = ''LONG STEP 1'' @ [CHR 0xC2, CHR 0xA0]"
  "py_upper ([CHR 0xC5, CHR 0xBF] @ ''tep 1 long'') = ''STEP 1 LONG''"
  "py_upper ([CHR 0xEF, CHR 0xAC, CHR 0x86] @ ''ep 2 short'') = ''STEP 2 SHORT''"
  by (simp_all add: py_upper.simps(1) py_upper_ascii py_upper_other upper_char_def upper_trie_def)

lemma request_example_entry_long:
  "request_order_id [''signal'' \<mapsto> ''ENTRY LONG STEP 1'', ''order_action'' \<mapsto> ''buy''] = ''Long 1''"
  "py_lower (dict_get [''signal'' \<mapsto> ''ENTRY LONG STEP 1'', ''order_action'' \<mapsto> ''buy''] ''order_action'' []) = ''buy''"
  by (simp_all add: request_order_id_def resolve_order_id_def str_eval)

text \<open>
  Claim C6. The signal \<open>ENTRY LONG STEP 1\<close> with \<open>order_action\<close> \<open>buy\<close> resolves to the
  identifier \<open>Long 1\<close>, whose weight is 0.70, and the handler computes the quantity and
  places the buy order for that identifier. In general, when the upper-cased signal
  contains \<open>STEP\<close>, the step text is what follows its last \<open>STEP\<close>, stripped, and the
  identifier is \<open>Long\<close> or \<open>Short\<close> (in this order of preference), a space and the step
  text; when the signal contains \<open>STEP\<close> but neither direction, or does not contain
  \<open>STEP\<close>, the identifier is the \<open>order_id\<close> field.
\<close>

theorem order_id_resolution:
  "request_order_id [''signal'' \<mapsto> ''ENTRY LONG STEP 1'', ''order_action'' \<mapsto> ''buy''] = ''Long 1''
   \<and> dict_get (map_of weight_map) ''Long 1'' (Fin 0) = float_lit (70 / 100)
   \<and> snd (snd (webhook
        \<lparr>clock_key = 6922584001 / 4, wallet_balance = Fin 1000, current_price = Some (Fin 100),
          order_result = OrderResponded 200 ''{}'' (Some ''{}''), clock_report = 6922584003 / 4\<rparr>
        (Some [''signal'' \<mapsto> ''ENTRY LONG STEP 1'', ''order_action'' \<mapsto> ''buy'']) {}))
       = [GetWalletBalance, GetCurrentPrice, CalculateQty ''Long 1'' (Fin 1000) (Fin 100),
          PlaceMarketOrder ''buy'' ''SOLUSDT.P'' (float_lit (20927 / 1000)),
          SendTelegram (OrderDone ''buy'' (float_lit (20927 / 1000)) ''SOLUSDT.P''
            (float_lit (70 / 100)) (Fin 100) (6922584003 / 4))]
   \<and> (py_in ''STEP'' (py_upper signal) \<longrightarrow>
        (\<exists>pre suf. py_upper signal = pre @ ''STEP'' @ suf \<and> \<not> py_in ''STEP'' suf
           \<and> resolve_order_id (py_upper signal) raw_order_id =
               (if py_in ''LONG'' (py_upper signal) then ''Long '' @ py_strip suf
                else if py_in ''SHORT'' (py_upper signal) then ''Short '' @ py_strip suf
                else raw_order_id)))
   \<and> (\<not> py_in ''STEP'' (py_upper signal) \<longrightarrow>
        resolve_order_id (py_upper signal) raw_order_id = raw_order_id)"
proof (intro conjI impI)
  show "request_order_id [''signal'' \<mapsto> ''ENTRY LONG STEP 1'', ''order_action'' \<mapsto> ''buy''] = ''Long 1''"
    by (simp add: request_order_id_def resolve_order_id_def str_eval)
  show "dict_get (map_of weight_map) ''Long 1'' (Fin 0) = float_lit (70 / 100)"
    by (simp add: weight_map_def dict_get_def)
  show "snd (snd (webhook
        \<lparr>clock_key = 6922584001 / 4, wallet_balance = Fin 1000, current_price = Some (Fin 100),
          order_result = OrderResponded 200 ''{}'' (Some ''{}''), clock_report = 6922584003 / 4\<rparr>
        (Some [''signal'' \<mapsto> ''ENTRY LONG STEP 1'', ''order_action'' \<mapsto> ''buy'']) {}))
       = [GetWalletBalance, GetCurrentPrice, CalculateQty ''Long 1'' (Fin 1000) (Fin 100),
          PlaceMarketOrder ''buy'' ''SOLUSDT.P'' (float_lit (20927 / 1000)),
          SendTelegram (OrderDone ''buy'' (float_lit (20927 / 1000)) ''SOLUSDT.P''
            (float_lit (70 / 100)) (Fin 100) (6922584003 / 4))]"
    by (simp add: webhook_unfold request_example_entry_long candle_key_example_long1 Let_def
        calculate_qty_example weight_long1 SYMBOL_def float_lit_20927 float_lit_70)
  show "\<exists>pre suf. py_upper signal = pre @ ''STEP'' @ suf \<and> \<not> py_in ''STEP'' suf
           \<and> resolve_order_id (py_upper signal) raw_order_id =
               (if py_in ''LONG'' (py_upper signal) then ''Long '' @ py_strip suf
                else if py_in ''SHORT'' (py_upper signal) then ''Short '' @ py_strip suf
                else raw_order_id)"
    if "py_in ''STEP'' (py_upper signal)"
    using that by (rule resolve_order_id_STEP)
  show "resolve_order_id (py_upper signal) raw_order_id = raw_order_id"
    if "\<not> py_in ''STEP'' (py_upper signal)"
    using that by (simp add: resolve_order_id_def)
qed

theorem order_id_resolution_witness:
  "py_in ''STEP'' (py_upper ''exit short step 3 '')
   \<and> resolve_order_id (py_upper ''exit short step 3 '') ''x'' = ''Short 3''
   \<and> \<not> py_in ''STEP'' (py_upper ''close all'')
   \<and> resolve_order_id (py_upper ''close all'') ''Long 2'' = ''Long 2''
   \<and> resolve_order_id (py_upper (''long step 1'' @ [CHR 0xC2, CHR 0xA0])) ''x'' = ''Long 1''
   \<and> resolve_order_id (py_upper ([CHR 0xC5, CHR 0xBF] @ ''tep 1 long'')) ''x'' = ''Long 1 LONG''"
  using order_id_resolution [of "''exit short step 3 ''" "''x''"]
    order_id_resolution [of "''close all''" "''Long 2''"]
  by (simp add: py_upper_examples [simplified] resolve_order_id_def str_eval)

section \<open>The signature\<close>

lemma sort_pairs_keys_sorted: "sorted (map fst (sort (params :: (string \<times> string) list)))"
proof -
  have "sorted_wrt (\<lambda>x y. fst x \<le> fst y) (sort params)"
    by (rule sorted_wrt_mono_rel [of _ "(\<le>)"]) (auto simp: less_eq_prod_def)
  then show ?thesis by (simp add: sorted_map)
qed

lemma sort_cong_mset: "mset xs = mset ys \<Longrightarrow> sort xs = sort (ys :: ('a::linorder) list)"
  by (rule properties_for_sort) simp_all

lemma dict_items_mset:
  assumes "distinct (map fst xs)" "distinct (map fst ys)" "set xs = set ys"
  shows "mset xs = mset ys"
proof -
  have "distinct xs" "distinct ys" using assms(1,2) by (simp_all add: distinct_map)
  with assms(3) show ?thesis by (simp add: set_eq_iff_mset_eq_distinct)
qed

lemma query_string_example:
  "query_string [(''symbol'', ''SOLUSDT.P''), (''side'', ''BUY''), (''qty'', ''20.927'')]
     = ''qty=20.927&side=BUY&symbol=SOLUSDT.P''"
  "query_string [(''qty'', ''20.927''), (''symbol'', ''SOLUSDT.P''), (''side'', ''BUY'')]
     = ''qty=20.927&side=BUY&symbol=SOLUSDT.P''"
  by (simp_all add: query_string_def join_amp_def less_eq_prod_def less_prod_def
      less_eq_char_def less_char_def)

text \<open>
  Claim C4. For every HMAC function, every secret and two parameter dictionaries with the
  same items in any insertion order, the signatures are identical: the message signed is
  the items sorted by key, each as \<open>key=value\<close>, joined with \<open>&\<close>. With no \<open>sign\<close> key among
  the parameters, as in the two callers (lines 61-67 and 106-115), the signature is
  computed without it and the \<open>sign\<close> item is appended last.
\<close>

theorem signature_order_independent:
  assumes "distinct (map fst xs)" "distinct (map fst ys)" "set xs = set ys"
  shows "generate_signature hmac_sha256_hex secret xs = generate_signature hmac_sha256_hex secret ys
       \<and> generate_signature hmac_sha256_hex secret xs
           = hmac_sha256_hex secret (join_amp (map (\<lambda>(k, v). k @ ''='' @ v) (sort xs)))
       \<and> sorted (map fst (sort xs)) \<and> mset (sort xs) = mset xs
       \<and> (''sign'' \<notin> fst ` set xs \<longrightarrow>
            sign_params hmac_sha256_hex secret xs
              = xs @ [(''sign'', generate_signature hmac_sha256_hex secret xs)])
       \<and> sign_params hmac_sha256_hex secret (wallet_balance_params api_key timestamp)
           = wallet_balance_params api_key timestamp
             @ [(''sign'', generate_signature hmac_sha256_hex secret
                            (wallet_balance_params api_key timestamp))]
       \<and> sign_params hmac_sha256_hex secret (market_order_params api_key symbol side qty timestamp)
           = market_order_params api_key symbol side qty timestamp
             @ [(''sign'', generate_signature hmac_sha256_hex secret
                            (market_order_params api_key symbol side qty timestamp))]"
proof -
  have m: "mset xs = mset ys"
    using assms by (rule dict_items_mset)
  then have "sort xs = sort ys" by (rule sort_cong_mset)
  with m show ?thesis
    by (simp add: generate_signature_def query_string_def sort_pairs_keys_sorted
        sign_params_def dict_set_def wallet_balance_params_def market_order_params_def)
qed

theorem signature_order_independent_witness:
  "generate_signature (\<lambda>key msg. key @ '':'' @ msg) ''secret''
      [(''symbol'', ''SOLUSDT.P''), (''side'', ''BUY''), (''qty'', ''20.927'')]
     = ''secret:qty=20.927&side=BUY&symbol=SOLUSDT.P''
   \<and> generate_signature (\<lambda>key msg. key @ '':'' @ msg) ''secret''
      [(''qty'', ''20.927''), (''symbol'', ''SOLUSDT.P''), (''side'', ''BUY'')]
     = ''secret:qty=20.927&side=BUY&symbol=SOLUSDT.P''
   \<and> sign_params (\<lambda>key msg. key @ '':'' @ msg) ''secret''
      [(''symbol'', ''SOLUSDT.P''), (''side'', ''BUY''), (''qty'', ''20.927'')]
     = [(''symbol'', ''SOLUSDT.P''), (''side'', ''BUY''), (''qty'', ''20.927''),
        (''sign'', ''secret:qty=20.927&side=BUY&symbol=SOLUSDT.P'')]"
  using signature_order_independent [of
      "[(''symbol'', ''SOLUSDT.P''), (''side'', ''BUY''), (''qty'', ''20.927'')]"
      "[(''qty'', ''20.927''), (''symbol'', ''SOLUSDT.P''), (''side'', ''BUY'')]"
      "\<lambda>key msg. key @ '':'' @ msg" "''secret''"]
  by (simp add: generate_signature_def query_string_example insert_commute)

section \<open>Duplicate suppression\<close>


text \<open>A thread that takes its two steps without another in between does what lines
  154-156 of the handler do.\<close>

lemma run_gate_alone:
  "run_gate key [Check i, Mark i] (S, dup) =
     (if key i \<in> S then S else insert (key i) S, dup(i \<mapsto> key i \<in> S))"
  by simp














end
